theory Spec2Isabelle
  imports Complex_Main "HOL-Library.Signed_Division"
begin

section \<open>Data model of movement.cc\<close>

text \<open>
  A shallow embedding of \<^verbatim>\<open>crawl-ref/source/movement.cc\<close>. The player object
  \<^verbatim>\<open>you\<close>, the grid \<^verbatim>\<open>grd\<close> and the travel trail are fields of one
  explicitly passed record. Everything movement.cc only calls (terrain predicates, monster
  lookup, prompts, combat, the random number generator) is a field of the record \<open>env\<close>,
  so every theorem holds for every behaviour of those collaborators. A failed ASSERT is the
  error value of the result type.
\<close>

type_synonym coord_def = "int \<times> int"

definition origin :: "coord_def \<Rightarrow> bool" where
  "origin c = (c = (0, 0))"

definition coord_add :: "coord_def \<Rightarrow> coord_def \<Rightarrow> coord_def" where
  "coord_add a b = (fst a + fst b, snd a + snd b)"

definition coord_sub :: "coord_def \<Rightarrow> coord_def \<Rightarrow> coord_def" where
  "coord_sub a b = (fst a - fst b, snd a - snd b)"

definition coord_mul :: "coord_def \<Rightarrow> int \<Rightarrow> coord_def" where
  "coord_mul a k = (fst a * k, snd a * k)"

datatype dungeon_feature_type =
    DNGN_UNSEEN | DNGN_FLOOR
  | DNGN_CLOSED_DOOR | DNGN_CLOSED_CLEAR_DOOR | DNGN_RUNED_DOOR | DNGN_RUNED_CLEAR_DOOR
  | DNGN_OPEN_DOOR | DNGN_OPEN_CLEAR_DOOR | DNGN_SEALED_DOOR | DNGN_SEALED_CLEAR_DOOR
  | DNGN_LAVA | DNGN_DEEP_WATER | DNGN_SHALLOW_WATER | DNGN_TOXIC_BOG
  | DNGN_MALIGN_GATEWAY | DNGN_ENTER_PANDEMONIUM | DNGN_ENTER_ABYSS
  | DNGN_OPEN_SEA | DNGN_LAVA_SEA
  | DNGN_OTHER nat

datatype duration_type =
    DUR_BARBS | DUR_ICY_ARMOUR | DUR_WATER_HOLD | DUR_NOXIOUS_BOG | DUR_CLOUD_TRAIL
  | DUR_NO_HOP | DUR_OTHER nat

datatype attribute_type = ATTR_HELD | ATTR_BARBS_POW

datatype run_mode_type = RMODE_NOT_RUNNING | RMODE_CONTINUE | RMODE_START | RMODE_OTHER int

datatype transformation = TRAN_SPIDER | TRAN_FUNGUS | TRAN_OTHER

datatype species_type = SP_NAGA | SP_OTHER

datatype god_type = GOD_CHEIBRIADOS | GOD_WU_JIAN | GOD_FEDHAS

datatype monster_type = MONS_WANDERING_MUSHROOM | MONS_TOADSTOOL | MONS_FOXFIRE | MONS_OTHER

datatype spret = Abort | Fail | Success

datatype canned_message = MSG_OK | MSG_TOO_CONFUSED | MSG_CANNOT_MOVE

datatype error = ASSERT_FAILED

text \<open>
  A monster as movement.cc sees it: the value of each accessor it calls on a
  \<^verbatim>\<open>monster*\<close>.
\<close>

record monster =
  mons_type :: monster_type
  mons_pos :: coord_def
  mons_wont_attack :: bool
  mons_friendly :: bool
  mons_neutral :: bool
  mons_temp_neutral :: bool
  mons_submerged :: bool
  mons_visible_to_you :: bool
  mons_seen :: bool
  mons_is_firewood :: bool
  mons_passthrough :: bool
  mons_genus_fungus :: bool
  mons_angered_by_attacks :: bool
  mons_name :: string

text \<open>
  The trace records, in order, every message and every call into a collaborator that
  changes the game. \<open>Apply_move_time_taken\<close> marks an execution of the time-accounting
  step \<^verbatim>\<open>_apply_move_time_taken\<close>.
\<close>

datatype event =
    Mpr string
  | Canned_msg canned_message
  | Simple_monster_message monster string
  | Clear_messages
  | Free_self_from_net
  | Fight_melee monster
  | Move_player_to_grid coord_def
  | Monster_swaps_places monster coord_def
  | Monster_die monster
  | Monster_move_to_pos monster coord_def
  | Apply_location_effects monster coord_def
  | Destroy_wall coord_def
  | Noisy int coord_def
  | Stop_running
  | Clear_travel_trail
  | Request_autopickup
  | Did_god_conduct_hasty
  | Wu_jian_post_move_effects coord_def
  | Update_acrobat_status
  | Maybe_shift_abyss_around_player
  | Player_open_door coord_def
  | Player_close_door coord_def
  | Player_blink
  | Player_hurt int
  | Ouch int
  | Bleed_onto_floor coord_def
  | Extract_manticore_spikes
  | Noxious_bog_cell coord_def
  | Check_place_cloud coord_def int
  | Cant_cmd_repeat
  | Cancel_cmd_again
  | Cancel_cmd_repeat
  | Erase_water_holder
  | Clear_far_engulf
  | Stop_directly_constricting_all
  | Stop_being_constricted
  | Apply_move_time_taken

record game =
  you_pos :: coord_def
  you_time_taken :: int
  you_turn_is_over :: bool
  you_attribute :: "attribute_type \<Rightarrow> int"
  you_duration :: "duration_type \<Rightarrow> int"
  you_props_barbs_move :: bool
  you_digging :: bool
  you_apply_berserk_penalty :: bool
  you_berserk_penalty :: int
  you_running :: run_mode_type
  you_travel_speed :: int
  you_redraw_armour_class :: bool
  you_wizmode_teleported_into_rock :: bool
  you_form :: transformation
  you_species :: species_type
  you_confused :: bool
  you_stationary :: bool
  you_nervous :: bool
  you_constricted :: bool
  you_directly_constricted :: bool
  you_lunging :: bool
  you_airborne :: bool
  you_swimming :: bool
  grd :: "coord_def \<Rightarrow> dungeon_feature_type"
  env_travel_trail :: "coord_def list"
  rng_used :: nat
  trace :: "event list"

subsection \<open>Collaborators\<close>

record crawl_state =
  game_is_arena :: bool
  arena_suspended :: bool
  is_repeating_cmd :: bool
  disables_confirmations :: bool

record game_options =
  easy_door :: bool
  travel_open_doors :: bool

record terrain =
  in_bounds :: "coord_def \<Rightarrow> bool"
  map_bounds :: "coord_def \<Rightarrow> bool"
  cell_is_solid :: "coord_def \<Rightarrow> bool"
  is_sanctuary :: "coord_def \<Rightarrow> bool"
  feat_is_door :: "dungeon_feature_type \<Rightarrow> bool"
  feat_is_closed_door :: "dungeon_feature_type \<Rightarrow> bool"
  feat_is_traversable :: "dungeon_feature_type \<Rightarrow> bool"
  feat_is_solid :: "dungeon_feature_type \<Rightarrow> bool"
  feat_is_diggable :: "dungeon_feature_type \<Rightarrow> bool"
  feat_is_lava :: "dungeon_feature_type \<Rightarrow> bool"
  feat_is_tree :: "dungeon_feature_type \<Rightarrow> bool"
  is_feat_dangerous :: "dungeon_feature_type \<Rightarrow> bool \<Rightarrow> bool"
  need_expiration_warning :: "dungeon_feature_type \<Rightarrow> bool"
  need_expiration_warning_flight :: "dungeon_feature_type \<Rightarrow> bool"
  door_vetoed :: "coord_def \<Rightarrow> bool"
  property_at :: "coord_def \<Rightarrow> string \<Rightarrow> string"
  find_connected_identical :: "coord_def \<Rightarrow> coord_def list"

record actors =
  monster_at :: "coord_def \<Rightarrow> monster option"
  can_pass_through :: "coord_def \<Rightarrow> bool"
  trans_wall_blocking :: "coord_def \<Rightarrow> bool"
  get_beholder :: "coord_def \<Rightarrow> monster option"
  get_fearmonger :: "coord_def \<Rightarrow> monster option"
  bad_attack :: "monster \<Rightarrow> bool \<Rightarrow> bool \<times> string \<times> string \<times> bool"
  swap_check :: "monster \<Rightarrow> bool \<times> coord_def"
  monster_habitable_grid :: "monster \<Rightarrow> dungeon_feature_type \<Rightarrow> bool"
  attempt_escape :: bool
  check_stop_running :: bool
  beam_path_taken :: "coord_def \<Rightarrow> coord_def \<Rightarrow> coord_def list"
  player_movement_speed :: int
  player_in_abyss :: bool
  you_worship :: "god_type \<Rightarrow> bool"
  form_keeps_mutations :: bool
  delay_is_run :: bool
  you_run :: bool
  wu_jian_attacked :: bool
  spikes_extracted :: bool
  cloud_trail_is_none :: bool

record prompts =
  yesno :: "string \<Rightarrow> bool"
  check_moveto :: "coord_def \<Rightarrow> string \<Rightarrow> bool"
  prompt_compass_direction :: coord_def

record env =
  cstate :: crawl_state
  opts :: game_options
  ter :: terrain
  act :: actors
  ask :: prompts
  rng_draws :: "nat \<Rightarrow> nat"

subsection \<open>Primitive effects\<close>

definition emit :: "event \<Rightarrow> game \<Rightarrow> game" where
  "emit e st = st\<lparr>trace := trace st @ [e]\<rparr>"

definition mpr :: "string \<Rightarrow> game \<Rightarrow> game" where
  "mpr s st = emit (Mpr s) st"

definition canned_msg :: "canned_message \<Rightarrow> game \<Rightarrow> game" where
  "canned_msg m st = emit (Canned_msg m) st"

definition dur :: "game \<Rightarrow> duration_type \<Rightarrow> bool" where
  "dur st d = (you_duration st d \<noteq> 0)"

definition set_duration :: "duration_type \<Rightarrow> int \<Rightarrow> game \<Rightarrow> game" where
  "set_duration d v st = st\<lparr>you_duration := (you_duration st)(d := v)\<rparr>"

text \<open>
  The integers of the source are C++ \<^verbatim>\<open>int\<close>s of 32 bits. The fields of the records
  are unbounded integers; where the source multiplies or adds into the time taken, a
  duration or a dice total, the model takes the result in two's complement.
\<close>

definition int32 :: "int \<Rightarrow> int" where
  "int32 x = (x + 2147483648) mod 4294967296 - 2147483648"

definition in_int32 :: "int \<Rightarrow> bool" where
  "in_int32 x = (- 2147483648 \<le> x \<and> x < 2147483648)"

text \<open>
  Modelled from the spec: \<^verbatim>\<open>random2\<close>, \<^verbatim>\<open>one_chance_in\<close>,
  \<^verbatim>\<open>div_rand_round\<close> and \<^verbatim>\<open>roll_dice\<close> of random.cc are not under src. The
  stream \<open>rng_draws\<close> holds the draws that movement.cc asks for, in order. \<open>random2 n\<close>
  is the next draw reduced to \<open>[0, n)\<close>; for \<open>n \<le> 1\<close> it is 0 and takes no draw.
  \<open>one_chance_in n\<close> is \<open>random2 n = 0\<close>. \<open>div_rand_round\<close> is the truncated
  quotient, plus one when the draw falls below the remainder (the "rounded" division of
  the time cost formula); it draws only when there is a remainder.
  \<^verbatim>\<open>roll_dice(2, n)\<close> is 2 plus two draws of \<open>random2 n\<close> for a positive \<open>n\<close>, and
  0 without a draw otherwise.
\<close>

definition next_draw :: "env \<Rightarrow> game \<Rightarrow> nat" where
  "next_draw e st = rng_draws e (rng_used st)"

definition consume_draw :: "game \<Rightarrow> game" where
  "consume_draw st = st\<lparr>rng_used := Suc (rng_used st)\<rparr>"

definition random2 :: "nat \<Rightarrow> nat \<Rightarrow> int" where
  "random2 draw n = (if n \<le> 1 then 0 else int (draw mod n))"

definition one_chance_in :: "nat \<Rightarrow> nat \<Rightarrow> bool" where
  "one_chance_in draw n = (random2 draw n = 0)"

definition random2_draws :: "nat \<Rightarrow> game \<Rightarrow> game" where
  "random2_draws n st = (if n \<le> 1 then st else consume_draw st)"

definition div_rand_round :: "nat \<Rightarrow> int \<Rightarrow> int \<Rightarrow> int" where
  "div_rand_round draw num den =
     (let rem = num smod den
      in if rem \<noteq> 0
         then num sdiv den + (if random2 draw (nat den) < rem then 1 else 0)
         else num sdiv den)"

definition div_rand_round_draws :: "int \<Rightarrow> int \<Rightarrow> game \<Rightarrow> game" where
  "div_rand_round_draws num den st =
     (if num smod den \<noteq> 0 then random2_draws (nat den) st else st)"

definition roll_dice2 :: "env \<Rightarrow> int \<Rightarrow> game \<Rightarrow> int" where
  "roll_dice2 e sides st =
     (if sides \<le> 0 then 0
      else int32 (2 + random2 (rng_draws e (rng_used st)) (nat sides)
                    + random2 (rng_draws e (Suc (rng_used st))) (nat sides)))"

definition roll_dice2_draws :: "int \<Rightarrow> game \<Rightarrow> game" where
  "roll_dice2_draws sides st = random2_draws (nat sides) (random2_draws (nat sides) st)"

lemmas draws_defs = consume_draw_def random2_draws_def div_rand_round_draws_def
  roll_dice2_draws_def

text \<open>
  Modelled from the spec: \<^verbatim>\<open>div_round_up\<close> of libutil.h is not under src; it is
  the quotient rounded up, computed with C's truncating division.
\<close>

definition div_round_up :: "int \<Rightarrow> int \<Rightarrow> int" where
  "div_round_up num den = num sdiv den + (if num smod den \<noteq> 0 then 1 else 0)"

definition running :: "game \<Rightarrow> bool" where
  "running st = (you_running st \<noteq> RMODE_NOT_RUNNING)"

subsection \<open>Time accounting\<close>

text \<open>\<^verbatim>\<open>_apply_move_time_taken\<close>, lines 708-722.\<close>

definition apply_move_time_taken :: "env \<Rightarrow> int \<Rightarrow> game \<Rightarrow> game" where
  "apply_move_time_taken e additional_time_taken st =
     (let st1 = emit Apply_move_time_taken st;
          scaled = int32 (you_time_taken st1 * player_movement_speed (act e));
          st2 = st1\<lparr>you_time_taken := scaled\<rparr>;
          st3 = div_rand_round_draws scaled 10
                  (st2\<lparr>you_time_taken := div_rand_round (next_draw e st2) scaled 10\<rparr>);
          st4 = st3\<lparr>you_time_taken := int32 (you_time_taken st3 + additional_time_taken)\<rparr>;
          st5 = (if running st4 \<and> you_travel_speed st4 \<noteq> 0
                 then st4\<lparr>you_time_taken :=
                        max (you_time_taken st4) (div_round_up 100 (you_travel_speed st4))\<rparr>
                 else st4)
      in if dur st5 DUR_NO_HOP
         then set_duration DUR_NO_HOP
                (int32 (you_duration st5 DUR_NO_HOP + you_time_taken st5)) st5
         else st5)"


subsection \<open>Helpers of movement.cc\<close>

text \<open>\<^verbatim>\<open>_swap_places\<close>, lines 58-98.\<close>

definition swap_places :: "env \<Rightarrow> monster \<Rightarrow> coord_def \<Rightarrow> game \<Rightarrow> error + game" where
  "swap_places e mons loc st =
     (if \<not> map_bounds (ter e) loc then Inl ASSERT_FAILED
      else if \<not> monster_habitable_grid (act e) mons (grd st loc) then Inl ASSERT_FAILED
      else case monster_at (act e) loc of
        Some other \<Rightarrow>
          (if mons_type mons = MONS_WANDERING_MUSHROOM \<and> mons_type other = MONS_TOADSTOOL
           then Inr (emit (Monster_swaps_places mons (coord_sub loc (mons_pos mons))) st)
           else Inr (mpr ''Something prevents you from swapping places.'' st))
      | None \<Rightarrow>
          (if mons_type mons = MONS_FOXFIRE
           then Inr (emit (Monster_die mons)
                       (emit (Simple_monster_message mons '' dissipates!'') st))
           else Inr (emit (Monster_move_to_pos mons loc) (mpr ''You swap places.'' st))))"

text \<open>
  Modelled from the spec: \<^verbatim>\<open>adjacent_iterator\<close> of coordit.h is not under src; it
  scans the 8 neighbours of a cell row by row, the cell itself too unless the centre is
  excluded, and yields the cells inside the map.
\<close>

definition adjacent_iterator :: "env \<Rightarrow> coord_def \<Rightarrow> bool \<Rightarrow> coord_def list" where
  "adjacent_iterator e c exclude_center =
     filter (map_bounds (ter e))
       (map (coord_add c)
          (filter (\<lambda>d. \<not> (exclude_center \<and> origin d))
             [(-1, -1), (0, -1), (1, -1), (-1, 0), (0, 0), (1, 0), (-1, 1), (0, 1), (1, 1)]))"

text \<open>
  \<^verbatim>\<open>_check_adjacent\<close>, lines 102-130. The loop runs over the cells left to visit and
  carries the set \<open>doors\<close>, the count and the reference parameter \<open>delta\<close>.
\<close>

fun check_adjacent_loop ::
  "env \<Rightarrow> game \<Rightarrow> dungeon_feature_type \<Rightarrow> coord_def list \<Rightarrow> coord_def list \<Rightarrow> int \<Rightarrow> coord_def
     \<Rightarrow> int \<times> coord_def" where
  "check_adjacent_loop e st feat [] doors num delta = (num, delta)"
| "check_adjacent_loop e st feat (ai # rest) doors num delta =
     (if grd st ai = feat
      then (if feat_is_door (ter e) feat
            then (if ai \<in> set doors
                  then check_adjacent_loop e st feat rest doors num delta
                  else check_adjacent_loop e st feat rest
                         (doors @ find_connected_identical (ter e) ai)
                         (num + 1) (coord_sub ai (you_pos st)))
            else check_adjacent_loop e st feat rest doors (num + 1) (coord_sub ai (you_pos st)))
      else check_adjacent_loop e st feat rest doors num delta)"

definition check_adjacent ::
  "env \<Rightarrow> game \<Rightarrow> dungeon_feature_type \<Rightarrow> coord_def \<Rightarrow> int \<times> coord_def" where
  "check_adjacent e st feat delta =
     check_adjacent_loop e st feat (adjacent_iterator e (you_pos st) True) [] 0 delta"

text \<open>
  \<^verbatim>\<open>_entered_malign_portal\<close>, lines 132-144, called on the player only; the damage is
  \<^verbatim>\<open>roll_dice(2, 4)\<close>.
\<close>

definition entered_malign_portal :: "env \<Rightarrow> game \<Rightarrow> game" where
  "entered_malign_portal e st =
     (let st1 = emit Player_blink
                  (mpr ''%s %s twisted violently and ejected from the portal!'' st)
      in emit (Player_hurt (roll_dice2 e 4 st1)) (roll_dice2_draws 4 st1))"

text \<open>\<^verbatim>\<open>cancel_barbed_move\<close>, lines 146-163.\<close>

definition cancel_barbed_move :: "env \<Rightarrow> bool \<Rightarrow> game \<Rightarrow> bool \<times> game" where
  "cancel_barbed_move e lunging st =
     (if dur st DUR_BARBS \<and> \<not> you_props_barbs_move st
      then (let prompt = ''The barbs in your skin will harm you if you move.''
                           @ (if lunging then '' Lunging like this could really hurt!'' else [])
                           @ '' Continue?''
            in if \<not> yesno (ask e) prompt
               then (True, canned_msg MSG_OK st)
               else (False, st\<lparr>you_props_barbs_move := True\<rparr>))
      else (False, st))"

text \<open>
  \<^verbatim>\<open>apply_barbs_damage\<close>, lines 165-181: the damage and the blood (lines 169-172),
  the chance of 1 in 3 that the spikes snap (lines 175-176), and the duration. Whether
  \<^verbatim>\<open>extract_manticore_spikes\<close> ends the duration is the collaborator's answer
  \<open>spikes_extracted\<close>.
\<close>

definition barbs_hurt :: "env \<Rightarrow> game \<Rightarrow> game" where
  "barbs_hurt e st =
     (let st1 = emit (Mpr ''The barbed spikes dig painfully into your body as you move.'') st;
          dmg = roll_dice2 e (you_attribute st1 ATTR_BARBS_POW) st1;
          st2 = emit (Ouch dmg) (roll_dice2_draws (you_attribute st1 ATTR_BARBS_POW) st1)
      in emit (Bleed_onto_floor (you_pos st2)) st2)"

definition barbs_snap :: "env \<Rightarrow> game \<Rightarrow> game" where
  "barbs_snap e st =
     (if one_chance_in (next_draw e st) 3
      then (let st1 = emit Extract_manticore_spikes (consume_draw st)
            in if spikes_extracted (act e) then set_duration DUR_BARBS 0 st1 else st1)
      else consume_draw st)"

definition apply_barbs_damage :: "env \<Rightarrow> bool \<Rightarrow> game \<Rightarrow> game" where
  "apply_barbs_damage e lunging st =
     (if dur st DUR_BARBS
      then (let st1 = barbs_snap e (barbs_hurt e st)
            in if dur st1 DUR_BARBS
               then set_duration DUR_BARBS
                      (int32 (you_duration st1 DUR_BARBS
                              + (if lunging then 0 else you_time_taken st1))) st1
               else st1)
      else st)"

text \<open>\<^verbatim>\<open>remove_ice_armour_movement\<close>, lines 183-192.\<close>

definition remove_ice_armour_movement :: "game \<Rightarrow> game" where
  "remove_ice_armour_movement st =
     (if dur st DUR_ICY_ARMOUR
      then (set_duration DUR_ICY_ARMOUR 0
              (emit (Mpr ''Your icy armour cracks and falls away as you move.'') st))
             \<lparr>you_redraw_armour_class := True\<rparr>
      else st)"

text \<open>\<^verbatim>\<open>remove_water_hold\<close>, lines 194-202.\<close>

definition remove_water_hold :: "game \<Rightarrow> game" where
  "remove_water_hold st =
     (if dur st DUR_WATER_HOLD
      then emit Clear_far_engulf (emit Erase_water_holder
             (mpr ''You slip free of the water engulfing you.'' st))
      else st)"

text \<open>\<^verbatim>\<open>_clear_constriction_data\<close>, lines 204-209.\<close>

definition clear_constriction_data :: "game \<Rightarrow> game" where
  "clear_constriction_data st =
     (let st1 = emit Stop_directly_constricting_all st
      in if you_directly_constricted st1 then emit Stop_being_constricted st1 else st1)"

text \<open>\<^verbatim>\<open>apply_noxious_bog\<close>, lines 211-220.\<close>

definition apply_noxious_bog :: "env \<Rightarrow> coord_def \<Rightarrow> game \<Rightarrow> error + game" where
  "apply_noxious_bog e old_pos st =
     (if dur st DUR_NOXIOUS_BOG
      then (if cell_is_solid (ter e) old_pos
            then (if you_wizmode_teleported_into_rock st then Inr st else Inl ASSERT_FAILED)
            else Inr (emit (Noxious_bog_cell old_pos) st))
      else Inr st)"

text \<open>
  \<^verbatim>\<open>apply_cloud_trail\<close>, lines 222-239; \<^verbatim>\<open>random_range(3, 10)\<close> is
  \<open>3 + random2 8\<close>. No caller in this file reads the boolean it returns.
\<close>

definition apply_cloud_trail :: "env \<Rightarrow> coord_def \<Rightarrow> game \<Rightarrow> error + game" where
  "apply_cloud_trail e old_pos st =
     (if dur st DUR_CLOUD_TRAIL
      then (if cell_is_solid (ter e) old_pos
            then (if you_wizmode_teleported_into_rock st then Inr st else Inl ASSERT_FAILED)
            else if cloud_trail_is_none (act e) then Inl ASSERT_FAILED
            else Inr (consume_draw
                        (emit (Check_place_cloud old_pos (3 + random2 (next_draw e st) 8)) st)))
      else Inr st)"

text \<open>
  \<^verbatim>\<open>cancel_confused_move\<close>, lines 241-316. The record holds the variables the
  loop over the neighbours updates; the loop function returns them at the
  \<^verbatim>\<open>break\<close> or at the end of the iteration. \<^verbatim>\<open>bad_attack\<close> writes its
  three reference parameters, \<^verbatim>\<open>penance\<close> among them, whenever it is called.
\<close>

record confused_scan =
  cs_dangerous :: dungeon_feature_type
  cs_bad_mons :: "monster option"
  cs_bad_suff :: string
  cs_bad_adj :: string
  cs_penance :: bool
  cs_flight :: bool

fun cancel_confused_loop ::
  "env \<Rightarrow> game \<Rightarrow> bool \<Rightarrow> coord_def list \<Rightarrow> confused_scan \<Rightarrow> confused_scan" where
  "cancel_confused_loop e st stationary [] v = v"
| "cancel_confused_loop e st stationary (ai # rest) v =
     (if \<not> stationary
         \<and> is_feat_dangerous (ter e) (grd st ai) True
         \<and> need_expiration_warning (ter e) (grd st ai)
         \<and> (cs_dangerous v = DNGN_FLOOR \<or> grd st ai = DNGN_LAVA)
      then v\<lparr>cs_dangerous := grd st ai,
             cs_flight := (need_expiration_warning_flight (ter e) (grd st ai) \<or> cs_flight v)\<rparr>
      else (case monster_at (act e) ai of
              None \<Rightarrow> cancel_confused_loop e st stationary rest v
            | Some mons \<Rightarrow>
                (if stationary
                    \<or> \<not> (is_sanctuary (ter e) (you_pos st) \<and> is_sanctuary (ter e) (mons_pos mons))
                      \<and> \<not> mons_passthrough mons
                 then (case bad_attack (act e) mons (cs_penance v) of
                         (bad, adj, suffix, penance) \<Rightarrow>
                           (if bad \<and> mons_angered_by_attacks mons
                            then (let v' = v\<lparr>cs_bad_mons := Some mons, cs_bad_suff := suffix,
                                             cs_bad_adj := adj, cs_penance := penance\<rparr>
                                  in if penance then v'
                                     else cancel_confused_loop e st stationary rest v')
                            else cancel_confused_loop e st stationary rest
                                   (v\<lparr>cs_penance := penance\<rparr>)))
                 else cancel_confused_loop e st stationary rest v)))"

definition starts_with :: "string \<Rightarrow> string \<Rightarrow> bool" where
  "starts_with s p = (take (length p) s = p)"

text \<open>The text of the confirmation, lines 282-305.\<close>

definition confused_prompt :: "bool \<Rightarrow> confused_scan \<Rightarrow> string" where
  "confused_prompt stationary v =
     (let p1 = ''Are you sure you want to ''
                 @ (if \<not> stationary then ''stumble around'' else ''swing wildly'')
                 @ '' while confused and next to '';
          p2 = (if cs_dangerous v \<noteq> DNGN_FLOOR
                then p1 @ (if cs_dangerous v = DNGN_LAVA then ''lava'' else ''deep water'')
                        @ (if cs_flight v then '' while you are losing your buoyancy''
                           else '' while your transformation is expiring'')
                else (case cs_bad_mons v of
                        None \<Rightarrow> p1
                      | Some bad_mons \<Rightarrow>
                          (let name0 = mons_name bad_mons;
                               name = (if starts_with name0 ''the '' then drop 4 name0
                                       else name0);
                               bad_adj = (if \<not> starts_with (cs_bad_adj v) ''your''
                                          then ''the '' @ cs_bad_adj v else cs_bad_adj v)
                           in p1 @ bad_adj @ name @ cs_bad_suff v)));
          p3 = p2 @ ''?''
      in if cs_penance v then p3 @ '' This could place you under penance!'' else p3)"

definition cancel_confused_move :: "env \<Rightarrow> bool \<Rightarrow> game \<Rightarrow> bool \<times> game" where
  "cancel_confused_move e stationary st =
     (let v = cancel_confused_loop e st stationary (adjacent_iterator e (you_pos st) False)
                \<lparr>cs_dangerous = DNGN_FLOOR, cs_bad_mons = None, cs_bad_suff = [],
                 cs_bad_adj = [], cs_penance = False, cs_flight = False\<rparr>
      in if cs_dangerous v \<noteq> DNGN_FLOOR \<or> cs_bad_mons v \<noteq> None
         then (if \<not> disables_confirmations (cstate e)
                  \<and> \<not> yesno (ask e) (confused_prompt stationary v)
               then (True, canned_msg MSG_OK st)
               else (False, st))
         else (False, st))"

subsection \<open>Door commands\<close>

text \<open>
  Modelled from the spec: \<^verbatim>\<open>player_open_door\<close> and \<^verbatim>\<open>player_close_door\<close>
  of terrain.cc are not under src. They change the door cell by the fixed mapping
  closed \<open>\<rightarrow>\<close> open and open \<open>\<rightarrow>\<close> closed (runed variants behave as closed) and end the
  turn.
\<close>

fun opened_door :: "dungeon_feature_type \<Rightarrow> dungeon_feature_type" where
  "opened_door DNGN_CLOSED_DOOR = DNGN_OPEN_DOOR"
| "opened_door DNGN_RUNED_DOOR = DNGN_OPEN_DOOR"
| "opened_door DNGN_CLOSED_CLEAR_DOOR = DNGN_OPEN_CLEAR_DOOR"
| "opened_door DNGN_RUNED_CLEAR_DOOR = DNGN_OPEN_CLEAR_DOOR"
| "opened_door f = f"

fun closed_door :: "dungeon_feature_type \<Rightarrow> dungeon_feature_type" where
  "closed_door DNGN_OPEN_DOOR = DNGN_CLOSED_DOOR"
| "closed_door DNGN_OPEN_CLEAR_DOOR = DNGN_CLOSED_CLEAR_DOOR"
| "closed_door f = f"

definition player_open_door :: "coord_def \<Rightarrow> game \<Rightarrow> game" where
  "player_open_door doorpos st =
     (emit (Player_open_door doorpos) st)
       \<lparr>grd := (grd st)(doorpos := opened_door (grd st doorpos)), you_turn_is_over := True\<rparr>"

definition player_close_door :: "coord_def \<Rightarrow> game \<Rightarrow> game" where
  "player_close_door doorpos st =
     (emit (Player_close_door doorpos) st)
       \<lparr>grd := (grd st)(doorpos := closed_door (grd st doorpos)), you_turn_is_over := True\<rparr>"

definition held :: "game \<Rightarrow> bool" where
  "held st = (you_attribute st ATTR_HELD \<noteq> 0)"

text \<open>
  \<^verbatim>\<open>open_door_action\<close>, lines 321-421. The four calls of \<^verbatim>\<open>_check_adjacent\<close>
  that the sum adds up write the same reference \<^verbatim>\<open>move\<close>; they are taken left to
  right.
\<close>

definition open_door_at :: "env \<Rightarrow> coord_def \<Rightarrow> game \<Rightarrow> game" where
  "open_door_at e delta st =
     (let doorpos = coord_add (you_pos st) delta
      in if door_vetoed (ter e) doorpos
         then (let door_veto_message = property_at (ter e) doorpos ''veto_reason'';
                   st1 = (if door_veto_message = [] then mpr ''The door is shut tight!'' st
                          else mpr door_veto_message st)
               in if you_confused st1 then st1\<lparr>you_turn_is_over := True\<rparr> else st1)
         else (let feat = (if in_bounds (ter e) doorpos then grd st doorpos else DNGN_UNSEEN)
               in if feat = DNGN_CLOSED_DOOR \<or> feat = DNGN_CLOSED_CLEAR_DOOR
                     \<or> feat = DNGN_RUNED_DOOR \<or> feat = DNGN_RUNED_CLEAR_DOOR
                  then player_open_door doorpos st
                  else if feat = DNGN_OPEN_DOOR \<or> feat = DNGN_OPEN_CLEAR_DOOR
                  then (let door_already_open =
                              (if in_bounds (ter e) doorpos
                               then property_at (ter e) doorpos ''door_verb_already_open''
                               else [])
                        in if door_already_open \<noteq> [] then mpr door_already_open st
                           else mpr ''It's already open!'' st)
                  else if feat = DNGN_SEALED_DOOR \<or> feat = DNGN_SEALED_CLEAR_DOOR
                  then mpr ''That door is sealed shut!'' st
                  else mpr ''There isn't anything that you can open there!'' st))"

definition open_door_action :: "env \<Rightarrow> coord_def \<Rightarrow> game \<Rightarrow> error + game" where
  "open_door_action e move st =
     (if game_is_arena (cstate e) then Inl ASSERT_FAILED
      else if arena_suspended (cstate e) then Inl ASSERT_FAILED
      else if held st
      then Inr ((emit Free_self_from_net st)\<lparr>you_turn_is_over := True\<rparr>)
      else if you_confused st
      then Inr (canned_msg MSG_TOO_CONFUSED st)
      else if origin move
      then (let (n1, m1) = check_adjacent e st DNGN_CLOSED_DOOR move;
                (n2, m2) = check_adjacent e st DNGN_CLOSED_CLEAR_DOOR m1;
                (n3, m3) = check_adjacent e st DNGN_RUNED_DOOR m2;
                (n4, m4) = check_adjacent e st DNGN_RUNED_CLEAR_DOOR m3;
                num = n1 + n2 + n3 + n4
            in if num = 0
               then Inr (mpr ''There's nothing to open nearby.'' st)
               else if num = 1 \<and> easy_door (opts e)
               then Inr (open_door_at e m4 st)
               else (let delta = prompt_compass_direction (ask e)
                     in if origin delta then Inr st else Inr (open_door_at e delta st)))
      else Inr (open_door_at e move st))"

text \<open>\<^verbatim>\<open>close_door_action\<close>, lines 423-484.\<close>

definition close_door_at :: "env \<Rightarrow> coord_def \<Rightarrow> game \<Rightarrow> game" where
  "close_door_at e delta st =
     (let doorpos = coord_add (you_pos st) delta;
          feat = (if in_bounds (ter e) doorpos then grd st doorpos else DNGN_UNSEEN)
      in if feat = DNGN_OPEN_DOOR \<or> feat = DNGN_OPEN_CLEAR_DOOR
         then player_close_door doorpos st
         else if feat = DNGN_CLOSED_DOOR \<or> feat = DNGN_CLOSED_CLEAR_DOOR
                 \<or> feat = DNGN_RUNED_DOOR \<or> feat = DNGN_RUNED_CLEAR_DOOR
                 \<or> feat = DNGN_SEALED_DOOR \<or> feat = DNGN_SEALED_CLEAR_DOOR
         then mpr ''It's already closed!'' st
         else mpr ''There isn't anything that you can close there!'' st)"

definition close_door_action :: "env \<Rightarrow> coord_def \<Rightarrow> game \<Rightarrow> game" where
  "close_door_action e move st =
     (if held st
      then mpr ''You can't close doors while %s.'' st
      else if you_confused st
      then canned_msg MSG_TOO_CONFUSED st
      else if origin move
      then (let (n1, m1) = check_adjacent e st DNGN_OPEN_DOOR move;
                (n2, m2) = check_adjacent e st DNGN_OPEN_CLEAR_DOOR m1;
                num = n1 + n2
            in if num = 0
               then mpr ''There's nothing to close nearby.'' st
               else if num = 1 \<and> easy_door (opts e)
               then close_door_at e m2 st
               else (let delta = prompt_compass_direction (ask e)
                     in if origin delta then st else close_door_at e delta st))
      else close_door_at e move st)"

text \<open>\<^verbatim>\<open>prompt_dangerous_portal\<close>, lines 488-505.\<close>

definition prompt_dangerous_portal :: "env \<Rightarrow> dungeon_feature_type \<Rightarrow> bool" where
  "prompt_dangerous_portal e ftype =
     (if ftype = DNGN_ENTER_PANDEMONIUM \<or> ftype = DNGN_ENTER_ABYSS
      then yesno (ask e)
             ''If you enter this portal you might not be able to return immediately. Continue?''
      else if ftype = DNGN_MALIGN_GATEWAY
      then yesno (ask e)
             (''Are you sure you wish to approach this portal? There's no ''
              @ ''telling what its forces would wreak upon your fragile self.'')
      else True)"

subsection \<open>Lunge\<close>

text \<open>
  Modelled from the spec: \<^verbatim>\<open>move_player_to_grid\<close>, \<^verbatim>\<open>stop_running\<close>,
  \<^verbatim>\<open>clear_travel_trail\<close> and \<^verbatim>\<open>destroy_wall\<close> are not under src. The first
  repositions the actor on the given cell, the second leaves the run mode, the third
  empties the trail, and the last converts the cell to passable floor. Each is recorded in
  the trace.
\<close>

definition move_player_to_grid :: "coord_def \<Rightarrow> game \<Rightarrow> game" where
  "move_player_to_grid p st = (emit (Move_player_to_grid p) st)\<lparr>you_pos := p\<rparr>"

definition stop_running :: "game \<Rightarrow> game" where
  "stop_running st = (emit Stop_running st)\<lparr>you_running := RMODE_NOT_RUNNING\<rparr>"

definition clear_travel_trail :: "game \<Rightarrow> game" where
  "clear_travel_trail st = (emit Clear_travel_trail st)\<lparr>env_travel_trail := []\<rparr>"

definition destroy_wall :: "coord_def \<Rightarrow> game \<Rightarrow> game" where
  "destroy_wall p st = (emit (Destroy_wall p) st)\<lparr>grd := (grd st)(p := DNGN_FLOOR)\<rparr>"

text \<open>The second ASSERT of \<^verbatim>\<open>_lunge_forward\<close>, line 524.\<close>

definition lunge_assertion :: "coord_def \<Rightarrow> coord_def \<Rightarrow> bool" where
  "lunge_assertion pos move =
     (\<bar>fst pos - fst move\<bar> > 1 \<or> \<bar>snd pos - snd move\<bar> > 1)"

text \<open>
  The loop over \<^verbatim>\<open>beam.path_taken\<close>, lines 577-610: the result is
  \<^verbatim>\<open>valid_target\<close>.
\<close>

fun lunge_scan :: "env \<Rightarrow> game \<Rightarrow> coord_def list \<Rightarrow> monster option" where
  "lunge_scan e st [] = None"
| "lunge_scan e st (p # rest) =
     (if \<not> feat_is_traversable (ter e) (grd st p) \<and> \<not> (grd st p = DNGN_SHALLOW_WATER)
      then None
      else if cell_is_solid (ter e) p \<or> trans_wall_blocking (act e) p
      then None
      else (case monster_at (act e) p of
              None \<Rightarrow> lunge_scan e st rest
            | Some mon \<Rightarrow>
                (if \<not> mons_seen mon then lunge_scan e st rest
                 else if mons_friendly mon \<or> mons_neutral mon \<or> mons_is_firewood mon
                 then None
                 else Some mon)))"

text \<open>The commit of a lunge, lines 683-705.\<close>

definition lunge_commit :: "env \<Rightarrow> coord_def \<Rightarrow> game \<Rightarrow> error + spret \<times> game" where
  "lunge_commit e target st =
     (let st1 = clear_constriction_data (remove_water_hold st);
          old_pos = you_pos st1;
          st2 = mpr ''You lunge towards %s!'' (emit Clear_messages st1);
          st3 = move_player_to_grid target st2;
          st4 = remove_ice_armour_movement (apply_barbs_damage e True st3)
      in case apply_noxious_bog e old_pos st4 of
           Inl err \<Rightarrow> Inl err
         | Inr st5 \<Rightarrow>
             (case apply_cloud_trail e old_pos st5 of
                Inl err \<Rightarrow> Inl err
              | Inr st6 \<Rightarrow>
                  Inr (Success,
                       if delay_is_run (act e)
                       then st6\<lparr>env_travel_trail := env_travel_trail st6 @ [you_pos st6]\<rparr>
                       else st6)))"

text \<open>\<^verbatim>\<open>_lunge_forward\<close>, lines 518-706.\<close>

definition lunge_forward :: "env \<Rightarrow> coord_def \<Rightarrow> game \<Rightarrow> error + spret \<times> game" where
  "lunge_forward e move st =
     (if game_is_arena (cstate e) then Inl ASSERT_FAILED
      else if \<not> lunge_assertion (you_pos st) move then Inl ASSERT_FAILED
      else if is_repeating_cmd (cstate e)
      then Inr (Fail, emit Cancel_cmd_repeat (emit Cancel_cmd_again (emit Cant_cmd_repeat st)))
      else if you_nervous st \<or> you_confused st \<or> you_stationary st \<or> you_constricted st
      then Inr (Fail, st)
      else (let tracer_range = 7;
                lunge_distance = 1;
                tracer_target = coord_add (you_pos st) (coord_mul move tracer_range);
                lunge_target = coord_add (you_pos st) (coord_mul move lunge_distance)
            in case lunge_scan e st (beam_path_taken (act e) (you_pos st) tracer_target) of
                 None \<Rightarrow> Inr (Fail, st)
               | Some valid_target \<Rightarrow>
                   (if lunge_target = you_pos st then Inr (Fail, st)
                    else if get_beholder (act e) lunge_target \<noteq> None
                    then Inr (Fail, mpr ''You cannot lunge away from %s!'' (emit Clear_messages st))
                    else if get_fearmonger (act e) lunge_target \<noteq> None
                    then Inr (Fail, mpr ''You cannot lunge closer to %s!'' (emit Clear_messages st))
                    else (case monster_at (act e) lunge_target of
                            Some mons \<Rightarrow>
                              (if \<not> mons_seen mons
                               then Inr (Fail,
                                      mpr ''Something unexpectedly blocked you, preventing you from lunging!''
                                        (emit Clear_messages st))
                               else Inr (Fail, st))
                          | None \<Rightarrow>
                              (if feat_is_lava (ter e) (grd st lunge_target) then Inr (Fail, st)
                               else if grd st lunge_target = DNGN_DEEP_WATER
                                       \<or> grd st lunge_target = DNGN_TOXIC_BOG
                               then Inr (Fail, st)
                               else if trans_wall_blocking (act e) lunge_target then Inr (Fail, st)
                               else if cell_is_solid (ter e) lunge_target then Inr (Fail, st)
                               else if \<not> check_moveto (ask e) lunge_target ''lunge''
                               then Inr (Abort, st)
                               else (case cancel_barbed_move e True st of
                                       (True, st1) \<Rightarrow> Inr (Abort, st1)
                                     | (False, st1) \<Rightarrow> lunge_commit e lunge_target st1))))))"

subsection \<open>Moving the player\<close>

text \<open>\<^verbatim>\<open>_finalize_cancelled_lunge_move\<close>, lines 729-750.\<close>

definition finalize_cancelled_lunge_move :: "env \<Rightarrow> coord_def \<Rightarrow> game \<Rightarrow> game" where
  "finalize_cancelled_lunge_move e initial_position st =
     (let st1 = (apply_move_time_taken e 0 st)\<lparr>you_turn_is_over := True\<rparr>;
          st2 = (if player_in_abyss (act e) then emit Maybe_shift_abyss_around_player st1 else st1);
          st3 = st2\<lparr>you_apply_berserk_penalty := True\<rparr>;
          st4 = (if you_worship (act e) GOD_CHEIBRIADOS
                 then (if one_chance_in (next_draw e st3) 2
                       then emit Did_god_conduct_hasty (consume_draw st3)
                       else consume_draw st3)
                 else st3);
          did_wu_jian_attack = (you_worship (act e) GOD_WU_JIAN \<and> wu_jian_attacked (act e));
          st5 = (if you_worship (act e) GOD_WU_JIAN
                 then emit (Wu_jian_post_move_effects initial_position) st4 else st4)
      in if \<not> did_wu_jian_attack then emit Update_acrobat_status st5 else st5)"

text \<open>
  A block of \<^verbatim>\<open>move_player_action\<close> either returns from the function or falls
  through to the next block with the local variables it has set.
\<close>

datatype 'a flow = Return game | Continue 'a game

text \<open>The ASSERT at lines 764-765, repeated at 842 and 853.\<close>

definition not_in_rock :: "env \<Rightarrow> game \<Rightarrow> bool" where
  "not_in_rock e st =
     (\<not> in_bounds (ter e) (you_pos st) \<or> \<not> cell_is_solid (ter e) (you_pos st)
      \<or> you_wizmode_teleported_into_rock st)"

text \<open>The bump of a confused player into an impassable cell, lines 808-829.\<close>

definition confused_bump :: "env \<Rightarrow> coord_def \<Rightarrow> game \<Rightarrow> coord_def flow" where
  "confused_bump e move st =
     (let new_targ = coord_add (you_pos st) move
      in if \<not> in_bounds (ter e) new_targ \<or> \<not> can_pass_through (act e) new_targ
         then (let st1 = st\<lparr>you_turn_is_over := True\<rparr>;
                   st2 = (if you_digging st1
                          then (mpr ''Your mandibles retract as you bump into %s.'' st1)
                                 \<lparr>you_digging := False\<rparr>
                          else mpr ''You bump into %s.'' st1)
               in Return (emit Cancel_cmd_repeat (st2\<lparr>you_apply_berserk_penalty := True\<rparr>)))
         else Continue move st)"

text \<open>The block \<^verbatim>\<open>if (you.confused())\<close>, lines 777-830.\<close>

definition confused_move :: "env \<Rightarrow> coord_def \<Rightarrow> game \<Rightarrow> coord_def flow" where
  "confused_move e move st =
     (if you_confused st
      then (if you_stationary st
            then Return (mpr (''You cannot move. (Use ctrl+direction or * direction to ''
                              @ ''attack without moving.)'') st)
            else (case cancel_confused_move e False st of
                    (True, st1) \<Rightarrow> Return st1
                  | (False, st1) \<Rightarrow>
                      (case cancel_barbed_move e False st1 of
                         (True, st2) \<Rightarrow> Return st2
                       | (False, st2) \<Rightarrow>
                           (let keep = one_chance_in (next_draw e st2) 3;
                                st3 = consume_draw st2
                            in if \<not> keep
                               then (let x = random2 (next_draw e st3) 3 - 1;
                                         st4 = consume_draw st3;
                                         y = random2 (next_draw e st4) 3 - 1;
                                         st5 = consume_draw st4
                                     in if origin (x, y)
                                        then Return ((mpr ''You're too confused to move!'' st5)
                                                 \<lparr>you_apply_berserk_penalty := True,
                                                  you_turn_is_over := True\<rparr>)
                                        else confused_bump e (x, y) st5)
                               else confused_bump e move st3))))
      else Continue move st)"

text \<open>The local \<^verbatim>\<open>walkverb\<close>, lines 869-874.\<close>

definition walkverb :: "env \<Rightarrow> game \<Rightarrow> string" where
  "walkverb e st =
     (if you_airborne st then ''fly''
      else if you_swimming st then ''swim''
      else if you_form st = TRAN_SPIDER then ''crawl''
      else if you_species st = SP_NAGA \<and> form_keeps_mutations (act e) then ''slither''
      else ''walk'')"

text \<open>
  Modelled from the spec: \<^verbatim>\<open>BASELINE_DELAY\<close> of defines.h is not under src; it is
  the baseline cost of a turn, 10.
\<close>

definition BASELINE_DELAY :: int where
  "BASELINE_DELAY = 10"

text \<open>
  The cancellation of a move by a prompt, lines 976-985 and 1021-1030: a move cancelled
  after a lunge ends the turn.
\<close>

definition cancel_move :: "env \<Rightarrow> bool \<Rightarrow> coord_def \<Rightarrow> game \<Rightarrow> game" where
  "cancel_move e lunged initial_position st =
     (let st1 = stop_running st
      in if lunged then finalize_cancelled_lunge_move e initial_position st1
         else st1\<lparr>you_turn_is_over := False\<rparr>)"

text \<open>
  The occupant of the target cell, lines 946-1004. The block sets the locals
  \<^verbatim>\<open>attacking\<close>, \<^verbatim>\<open>moving\<close>, \<^verbatim>\<open>swap\<close> and \<^verbatim>\<open>mon_swap_dest\<close>.
\<close>

definition fungus_nervous :: "game \<Rightarrow> (bool \<times> bool \<times> bool \<times> coord_def) flow" where
  "fungus_nervous st =
     (if you_form st = TRAN_FUNGUS \<and> \<not> you_confused st \<and> you_nervous st
      then Return ((stop_running (mpr ''You're too terrified to move while being watched!'' st))
                     \<lparr>you_turn_is_over := False\<rparr>)
      else Continue (False, True, False, (0, 0)) st)"

definition resolve_occupant ::
  "env \<Rightarrow> bool \<Rightarrow> coord_def \<Rightarrow> coord_def \<Rightarrow> monster option \<Rightarrow> bool \<Rightarrow> bool \<Rightarrow> game
     \<Rightarrow> (bool \<times> bool \<times> bool \<times> coord_def) flow" where
  "resolve_occupant e lunged initial_position targ targ_monst try_to_swap restrained st =
     (case targ_monst of
        None \<Rightarrow> fungus_nervous st
      | Some m \<Rightarrow>
          (if mons_submerged m then fungus_nervous st
           else if try_to_swap \<and> \<not> restrained
           then (case swap_check (act e) m of
                   (ok, mon_swap_dest) \<Rightarrow>
                     (if ok then Continue (False, True, True, mon_swap_dest) st
                      else Continue (False, False, False, mon_swap_dest) (stop_running st)))
           else if mons_temp_neutral m \<and> \<not> you_confused st \<and> mons_visible_to_you m
           then Return ((emit (Simple_monster_message m
                                 ('' refuses to make way for you. ''
                                  @ ''(Use ctrl+direction or * direction to attack.)'')) st)
                          \<lparr>you_turn_is_over := False\<rparr>)
           else if \<not> try_to_swap
           then (if \<not> mons_seen m \<and> \<not> you_confused st
                    \<and> \<not> check_moveto (ask e) targ (walkverb e st)
                 then Return (cancel_move e lunged initial_position st)
                 else Continue (True, True, False, (0, 0))
                        ((emit (Fight_melee m) (st\<lparr>you_turn_is_over := True\<rparr>))
                           \<lparr>you_berserk_penalty := 0\<rparr>))
           else Continue (False, True, False, (0, 0)) st))"

text \<open>
  The walk itself, lines 1008-1086. The block leaves \<^verbatim>\<open>move\<close> reset when it ran to
  its end. The steps of its second half, each a definition: \<open>dig_through\<close> (lines
  1041-1048), \<open>swap_if\<close> (1050-1051), \<open>start_trail\<close> (1053-1056), \<open>walk_step\<close>
  (1058-1070), \<open>swappee_effects\<close> (1075-1076) and \<open>extend_trail\<close> (1078-1079).
\<close>

definition walk_step :: "env \<Rightarrow> coord_def \<Rightarrow> bool \<Rightarrow> game \<Rightarrow> error + game" where
  "walk_step e targ targ_pass st =
     (let old_pos = you_pos st
      in if you_pos st \<noteq> targ \<and> targ_pass
         then (let st1 = clear_constriction_data (remove_water_hold st);
                   st2 = move_player_to_grid targ st1;
                   st3 = remove_ice_armour_movement (apply_barbs_damage e False st2)
               in case apply_noxious_bog e old_pos st3 of
                    Inl err \<Rightarrow> Inl err
                  | Inr st4 \<Rightarrow> apply_cloud_trail e old_pos st4)
         else Inr st)"

definition dig_through :: "coord_def \<Rightarrow> game \<Rightarrow> game" where
  "dig_through targ st =
     (if you_digging st
      then emit (Noisy 6 (you_pos st)) (destroy_wall targ (mpr ''You dig through %s.'' st))
      else st)"

definition swap_if :: "env \<Rightarrow> monster option \<Rightarrow> bool \<Rightarrow> coord_def \<Rightarrow> game \<Rightarrow> error + game" where
  "swap_if e targ_monst swap mon_swap_dest st =
     (case targ_monst of
        Some m \<Rightarrow> if swap then swap_places e m mon_swap_dest st else Inr st
      | None \<Rightarrow> Inr st)"

definition start_trail :: "env \<Rightarrow> game \<Rightarrow> game" where
  "start_trail e st =
     (if delay_is_run (act e) \<and> env_travel_trail st = []
      then st\<lparr>env_travel_trail := env_travel_trail st @ [you_pos st]\<rparr>
      else if \<not> delay_is_run (act e) then clear_travel_trail st
      else st)"

definition swappee_effects :: "monster option \<Rightarrow> bool \<Rightarrow> coord_def \<Rightarrow> game \<Rightarrow> game" where
  "swappee_effects targ_monst swap targ st =
     (case targ_monst of
        Some m \<Rightarrow> if swap then emit (Apply_location_effects m targ) st else st
      | None \<Rightarrow> st)"

definition extend_trail :: "env \<Rightarrow> game \<Rightarrow> game" where
  "extend_trail e st =
     (if delay_is_run (act e)
      then st\<lparr>env_travel_trail := env_travel_trail st @ [you_pos st]\<rparr>
      else st)"

definition walk_commit ::
  "env \<Rightarrow> coord_def \<Rightarrow> bool \<Rightarrow> monster option \<Rightarrow> bool \<Rightarrow> coord_def \<Rightarrow> game
     \<Rightarrow> error + coord_def flow" where
  "walk_commit e targ targ_pass targ_monst swap mon_swap_dest st =
     (let additional_time_taken = (if you_digging st then 0 + BASELINE_DELAY sdiv 5 else 0)
      in case swap_if e targ_monst swap mon_swap_dest (dig_through targ st) of
           Inl err \<Rightarrow> Inl err
         | Inr st1 \<Rightarrow>
             (case walk_step e targ targ_pass (start_trail e st1) of
                Inl err \<Rightarrow> Inl err
              | Inr st2 \<Rightarrow>
                  (let st3 = extend_trail e (swappee_effects targ_monst swap targ st2);
                       st4 = apply_move_time_taken e additional_time_taken st3
                   in Inr (Continue (0, 0)
                             (emit Request_autopickup (st4\<lparr>you_turn_is_over := True\<rparr>))))))"

definition walk_block ::
  "env \<Rightarrow> bool \<Rightarrow> coord_def \<Rightarrow> coord_def \<Rightarrow> coord_def \<Rightarrow> bool \<Rightarrow> monster option
     \<Rightarrow> bool \<times> bool \<times> bool \<times> coord_def \<Rightarrow> bool \<Rightarrow> game \<Rightarrow> error + coord_def flow" where
  "walk_block e lunged initial_position move targ targ_pass targ_monst flags restrained st =
     (case flags of (attacking, moving, swap, mon_swap_dest) \<Rightarrow>
        if \<not> attacking \<and> targ_pass \<and> moving \<and> \<not> restrained
        then (if you_confused st \<and> is_feat_dangerous (ter e) (grd st targ) False
              then Inr (Return ((mpr ''You nearly stumble into %s!'' st)
                                  \<lparr>you_apply_berserk_penalty := True, you_turn_is_over := True\<rparr>))
              else if \<not> you_confused st \<and> \<not> check_moveto (ask e) targ (walkverb e st)
              then Inr (Return (cancel_move e lunged initial_position st))
              else (case (if \<not> you_confused st then cancel_barbed_move e False st
                          else (False, st)) of
                      (True, st1) \<Rightarrow> Inr (Return st1)
                    | (False, st1) \<Rightarrow>
                        (if \<not> attempt_escape (act e) then Inr (Return st1)
                         else walk_commit e targ targ_pass targ_monst swap mon_swap_dest st1)))
        else Inr (Continue move st))"

text \<open>Doors, the malign gateway and blocked moves, lines 1088-1142.\<close>

definition move_alternate ::
  "env \<Rightarrow> coord_def \<Rightarrow> coord_def \<Rightarrow> bool \<Rightarrow> bool \<Rightarrow> bool \<Rightarrow> bool \<Rightarrow> game
     \<Rightarrow> error + unit flow" where
  "move_alternate e move targ targ_pass attacking beholder fmonger st =
     (if (travel_open_doors (opts e) \<or> \<not> running st) \<and> \<not> attacking
         \<and> feat_is_closed_door (ter e) (grd st targ)
      then (case open_door_action e move st of
              Inl err \<Rightarrow> Inl err
            | Inr st1 \<Rightarrow> Inr (Return st1))
      else if \<not> targ_pass \<and> grd st targ = DNGN_MALIGN_GATEWAY \<and> \<not> attacking
              \<and> \<not> you_stationary st
      then (if \<not> disables_confirmations (cstate e) \<and> \<not> prompt_dangerous_portal e (grd st targ)
            then Inr (Return st)
            else Inr (Return (entered_malign_portal e (st\<lparr>you_turn_is_over := True\<rparr>))))
      else if \<not> targ_pass \<and> \<not> attacking
      then (let st1 = (if you_stationary st then canned_msg MSG_CANNOT_MOVE st
                       else if grd st targ = DNGN_OPEN_SEA
                       then mpr ''The ferocious winds and tides of the open sea thwart your progress.'' st
                       else if grd st targ = DNGN_LAVA_SEA
                       then mpr ''The endless sea of lava is not a nice place.'' st
                       else if feat_is_tree (ter e) (grd st targ) \<and> you_worship (act e) GOD_FEDHAS
                       then mpr ''You cannot walk through the dense trees.'' st
                       else st)
            in Inr (Return (emit Cancel_cmd_repeat
                              ((stop_running st1)\<lparr>you_turn_is_over := False\<rparr>))))
      else if beholder \<and> \<not> attacking
      then Inr (Return (stop_running (mpr ''You cannot move away from %s!'' st)))
      else if fmonger \<and> \<not> attacking
      then Inr (Return (stop_running (mpr ''You cannot move closer to %s!'' st)))
      else Inr (Continue () st))"

text \<open>
  The end of \<^verbatim>\<open>move_player_action\<close>, lines 1144-1166; \<open>hasty_conduct\<close> is the
  condition of lines 1152-1158 with its two draws.
\<close>

definition hasty_conduct :: "env \<Rightarrow> bool \<Rightarrow> bool \<Rightarrow> game \<Rightarrow> game" where
  "hasty_conduct e lunged attacking st =
     (if \<not> attacking \<and> you_worship (act e) GOD_CHEIBRIADOS
      then (if one_chance_in (next_draw e st) 10 \<and> you_run (act e)
            then emit Did_god_conduct_hasty (consume_draw st)
            else (let st1 = consume_draw st
                  in if one_chance_in (next_draw e st1) 2 \<and> lunged
                     then emit Did_god_conduct_hasty (consume_draw st1)
                     else consume_draw st1))
      else st)"

definition move_epilogue :: "env \<Rightarrow> bool \<Rightarrow> coord_def \<Rightarrow> bool \<Rightarrow> bool \<Rightarrow> game \<Rightarrow> game" where
  "move_epilogue e lunged initial_position attacking moving st =
     (let st1 = (if you_running st = RMODE_START then st\<lparr>you_running := RMODE_CONTINUE\<rparr> else st);
          st2 = (if player_in_abyss (act e) then emit Maybe_shift_abyss_around_player st1 else st1);
          st3 = hasty_conduct e lunged attacking (st2\<lparr>you_apply_berserk_penalty := (\<not> attacking)\<rparr>);
          call_wu_jian = (you_worship (act e) GOD_WU_JIAN \<and> \<not> attacking);
          did_wu_jian_attack = (call_wu_jian \<and> wu_jian_attacked (act e));
          st4 = (if call_wu_jian then emit (Wu_jian_post_move_effects initial_position) st3
                 else st3)
      in if \<not> attacking \<and> moving \<and> \<not> did_wu_jian_attack
         then emit Update_acrobat_status st4 else st4)"

text \<open>
  \<^verbatim>\<open>move_player_action\<close> from line 859 on, after the lunge: \<open>lunged\<close> and
  \<open>initial_position\<close> are the locals set before.
\<close>

definition plant_passthrough :: "env \<Rightarrow> coord_def \<Rightarrow> game \<Rightarrow> bool" where
  "plant_passthrough e targ st =
     (case monster_at (act e) targ of
        None \<Rightarrow> False
      | Some m \<Rightarrow> mons_passthrough m \<and> \<not> you_stationary st)"

definition walk_through_plants :: "env \<Rightarrow> coord_def \<Rightarrow> game \<Rightarrow> game" where
  "walk_through_plants e targ st =
     (if plant_passthrough e targ st
      then (let tripled = int32 (you_time_taken st * 3);
                st1 = div_rand_round_draws tripled 2
                        (st\<lparr>you_time_taken := div_rand_round (next_draw e st) tripled 2\<rparr>)
            in case monster_at (act e) (you_pos st1) of
                 None \<Rightarrow> mpr ''You %s carefully through the %s.'' st1
               | Some current \<Rightarrow>
                   if \<not> mons_passthrough current
                   then mpr ''You %s carefully through the %s.'' st1 else st1)
      else st)"

definition dig_check :: "env \<Rightarrow> coord_def \<Rightarrow> bool \<Rightarrow> game \<Rightarrow> bool \<times> game" where
  "dig_check e targ targ_pass st =
     (if you_digging st
      then (if feat_is_diggable (ter e) (grd st targ) then (True, st)
            else (targ_pass,
                  (if feat_is_solid (ter e) (grd st targ)
                   then mpr ''You can't dig through that.'' (st\<lparr>you_digging := False\<rparr>)
                   else mpr ''You retract your mandibles.'' (st\<lparr>you_digging := False\<rparr>))))
      else (targ_pass, st))"

definition try_to_swap :: "env \<Rightarrow> coord_def \<Rightarrow> monster option \<Rightarrow> game \<Rightarrow> bool" where
  "try_to_swap e targ targ_monst st =
     (case targ_monst of
        None \<Rightarrow> False
      | Some m \<Rightarrow>
          (mons_wont_attack m \<and> \<not> you_confused st
           \<or> is_sanctuary (ter e) (you_pos st) \<and> is_sanctuary (ter e) targ))"

definition move_player_resolve ::
  "env \<Rightarrow> bool \<Rightarrow> coord_def \<Rightarrow> coord_def \<Rightarrow> game \<Rightarrow> error + game" where
  "move_player_resolve e lunged initial_position move st =
     (let targ = coord_add (you_pos st) move
      in if \<not> in_bounds (ter e) targ
         then Inr (if you_digging st then mpr ''This wall is too hard to dig through.'' st else st)
         else
           (let targ_monst = (if plant_passthrough e targ st then None
                              else monster_at (act e) targ);
                st1 = walk_through_plants e targ st;
                (targ_pass, st2) =
                   dig_check e targ (can_pass_through (act e) targ \<and> \<not> you_stationary st1) st1;
                swapping = try_to_swap e targ targ_monst st2;
                beholder = (\<not> you_confused st2 \<and> get_beholder (act e) targ \<noteq> None);
                fmonger = (\<not> you_confused st2 \<and> get_fearmonger (act e) targ \<noteq> None)
            in if check_stop_running (act e)
               then (if lunged then Inr (finalize_cancelled_lunge_move e initial_position st2)
                     else Inr (st2\<lparr>you_turn_is_over := False\<rparr>))
               else
                 (case resolve_occupant e lunged initial_position targ targ_monst swapping
                         (beholder \<or> fmonger) st2 of
                    Return st3 \<Rightarrow> Inr st3
                  | Continue flags st3 \<Rightarrow>
                      (case walk_block e lunged initial_position move targ targ_pass targ_monst
                              flags (beholder \<or> fmonger) st3 of
                         Inl err \<Rightarrow> Inl err
                       | Inr (Return st4) \<Rightarrow> Inr st4
                       | Inr (Continue move' st4) \<Rightarrow>
                           (case move_alternate e move' targ targ_pass (fst flags)
                                   beholder fmonger st4 of
                              Inl err \<Rightarrow> Inl err
                            | Inr (Return st5) \<Rightarrow> Inr st5
                            | Inr (Continue u st5) \<Rightarrow>
                                Inr (move_epilogue e lunged initial_position (fst flags)
                                       (fst (snd flags)) st5))))))"

text \<open>The lunge and what follows it, lines 832-1167.\<close>

definition lunge_then_move :: "env \<Rightarrow> coord_def \<Rightarrow> coord_def \<Rightarrow> game \<Rightarrow> error + game" where
  "lunge_then_move e initial_position move st =
     (if you_lunging st
      then (case lunge_forward e move st of
              Inl err \<Rightarrow> Inl err
            | Inr (Abort, st1) \<Rightarrow>
                (if not_in_rock e st1 then Inr st1 else Inl ASSERT_FAILED)
            | Inr (Success, st1) \<Rightarrow>
                (if not_in_rock e st1
                 then move_player_resolve e True (you_pos st1) move st1
                 else Inl ASSERT_FAILED)
            | Inr (Fail, st1) \<Rightarrow>
                (if not_in_rock e st1
                 then move_player_resolve e False initial_position move st1
                 else Inl ASSERT_FAILED))
      else move_player_resolve e False initial_position move st)"

text \<open>\<^verbatim>\<open>move_player_action\<close>, lines 754-1167.\<close>

definition move_player_action :: "env \<Rightarrow> coord_def \<Rightarrow> game \<Rightarrow> error + game" where
  "move_player_action e move st =
     (if game_is_arena (cstate e) \<or> arena_suspended (cstate e) then Inl ASSERT_FAILED
      else if \<not> not_in_rock e st then Inl ASSERT_FAILED
      else if held st
      then Inr ((emit Free_self_from_net st)\<lparr>you_turn_is_over := True\<rparr>)
      else (let initial_position = you_pos st
            in case confused_move e move st of
                 Return st1 \<Rightarrow> Inr st1
               | Continue move1 st1 \<Rightarrow> lunge_then_move e initial_position move1 st1))"

subsection \<open>An example level\<close>

text \<open>
  An open floor of 80 by 70 cells without monsters, doors or prompts that are declined,
  and a player standing at (5, 5) with a baseline turn of 10 and no status effect. The
  scenarios below change single fields of these.
\<close>

definition floor_terrain :: terrain where
  "floor_terrain =
     \<lparr>in_bounds = (\<lambda>c. 0 < fst c \<and> fst c < 79 \<and> 0 < snd c \<and> snd c < 69),
      map_bounds = (\<lambda>c. 0 \<le> fst c \<and> fst c < 80 \<and> 0 \<le> snd c \<and> snd c < 70),
      cell_is_solid = (\<lambda>c. False),
      is_sanctuary = (\<lambda>c. False),
      feat_is_door = (\<lambda>f. f = DNGN_CLOSED_DOOR \<or> f = DNGN_CLOSED_CLEAR_DOOR
                          \<or> f = DNGN_OPEN_DOOR \<or> f = DNGN_OPEN_CLEAR_DOOR),
      feat_is_closed_door = (\<lambda>f. f = DNGN_CLOSED_DOOR \<or> f = DNGN_CLOSED_CLEAR_DOOR),
      feat_is_traversable = (\<lambda>f. f = DNGN_FLOOR \<or> f = DNGN_OPEN_DOOR),
      feat_is_solid = (\<lambda>f. f = DNGN_CLOSED_DOOR),
      feat_is_diggable = (\<lambda>f. False),
      feat_is_lava = (\<lambda>f. f = DNGN_LAVA),
      feat_is_tree = (\<lambda>f. False),
      is_feat_dangerous = (\<lambda>f all_flying. f = DNGN_LAVA \<or> f = DNGN_DEEP_WATER),
      need_expiration_warning = (\<lambda>f. False),
      need_expiration_warning_flight = (\<lambda>f. False),
      door_vetoed = (\<lambda>c. False),
      property_at = (\<lambda>c k. []),
      find_connected_identical = (\<lambda>c. [c])\<rparr>"

definition floor_actors :: actors where
  "floor_actors =
     \<lparr>monster_at = (\<lambda>c. None),
      can_pass_through = (\<lambda>c. True),
      trans_wall_blocking = (\<lambda>c. False),
      get_beholder = (\<lambda>c. None),
      get_fearmonger = (\<lambda>c. None),
      bad_attack = (\<lambda>m penance. (False, [], [], False)),
      swap_check = (\<lambda>m. (True, (0, 0))),
      monster_habitable_grid = (\<lambda>m f. True),
      attempt_escape = True,
      check_stop_running = False,
      beam_path_taken = (\<lambda>src tgt. []),
      player_movement_speed = 10,
      player_in_abyss = False,
      you_worship = (\<lambda>g. False),
      form_keeps_mutations = True,
      delay_is_run = False,
      you_run = False,
      wu_jian_attacked = False,
      spikes_extracted = False,
      cloud_trail_is_none = False\<rparr>"

definition floor_env :: env where
  "floor_env =
     \<lparr>cstate = \<lparr>game_is_arena = False, arena_suspended = False, is_repeating_cmd = False,
                disables_confirmations = False\<rparr>,
      opts = \<lparr>easy_door = True, travel_open_doors = True\<rparr>,
      ter = floor_terrain,
      act = floor_actors,
      ask = \<lparr>yesno = (\<lambda>p. True), check_moveto = (\<lambda>c verb. True),
             prompt_compass_direction = (0, 0)\<rparr>,
      rng_draws = (\<lambda>n. 0)\<rparr>"

definition start_game :: game where
  "start_game =
     \<lparr>you_pos = (5, 5), you_time_taken = 10, you_turn_is_over = False,
      you_attribute = (\<lambda>a. 0), you_duration = (\<lambda>d. 0), you_props_barbs_move = False,
      you_digging = False, you_apply_berserk_penalty = False, you_berserk_penalty = 0,
      you_running = RMODE_NOT_RUNNING, you_travel_speed = 0,
      you_redraw_armour_class = False, you_wizmode_teleported_into_rock = False,
      you_form = TRAN_OTHER, you_species = SP_OTHER, you_confused = False,
      you_stationary = False, you_nervous = False, you_constricted = False,
      you_directly_constricted = False, you_lunging = False, you_airborne = False,
      you_swimming = False, grd = (\<lambda>c. DNGN_FLOOR), env_travel_trail = [],
      rng_used = 0, trace = []\<rparr>"

definition rat :: monster where
  "rat =
     \<lparr>mons_type = MONS_OTHER, mons_pos = (7, 5), mons_wont_attack = False,
      mons_friendly = False, mons_neutral = False, mons_temp_neutral = False,
      mons_submerged = False, mons_visible_to_you = True, mons_seen = True,
      mons_is_firewood = False, mons_passthrough = False, mons_genus_fungus = False,
      mons_angered_by_attacks = True, mons_name = ''rat''\<rparr>"

text \<open>
  What \<^verbatim>\<open>move_player_action\<close> does from line 808 on, once the direction of a confused
  player is fixed: the bump into an impassable cell, else the lunge and the move.
\<close>

definition move_in_direction :: "env \<Rightarrow> coord_def \<Rightarrow> coord_def \<Rightarrow> game \<Rightarrow> error + game" where
  "move_in_direction e initial_position move st =
     (case confused_bump e move st of
        Return st1 \<Rightarrow> Inr st1
      | Continue move1 st1 \<Rightarrow> lunge_then_move e initial_position move1 st1)"

text \<open>
  A cell that breaks the path of the lunge tracer: impassable terrain other than shallow
  water, a solid cell, or a cell seen only through a transparent wall.
\<close>

definition lunge_path_broken :: "env \<Rightarrow> game \<Rightarrow> coord_def \<Rightarrow> bool" where
  "lunge_path_broken e st p =
     (\<not> feat_is_traversable (ter e) (grd st p) \<and> grd st p \<noteq> DNGN_SHALLOW_WATER
      \<or> cell_is_solid (ter e) p \<or> trans_wall_blocking (act e) p)"

text \<open>
  Scenarios on the example level: a rat two cells east of the player with a wall between
  them; the rat in a clear line of a player who can lunge; the same with every prompt
  declined; a confused player whose random draws are all 1.
\<close>

definition wall_env :: env where
  "wall_env = floor_env\<lparr>
     ter := floor_terrain\<lparr>cell_is_solid := (\<lambda>c. c = (6, 5))\<rparr>,
     act := floor_actors\<lparr>monster_at := (\<lambda>c. if c = (7, 5) then Some rat else None)\<rparr>\<rparr>"

definition lunge_env :: env where
  "lunge_env = floor_env\<lparr>
     act := floor_actors\<lparr>monster_at := (\<lambda>c. if c = (7, 5) then Some rat else None),
                         beam_path_taken := (\<lambda>src tgt. [(6, 5), (7, 5), (8, 5)])\<rparr>\<rparr>"

definition declining :: prompts where
  "declining = \<lparr>yesno = (\<lambda>p. False), check_moveto = (\<lambda>c verb. False),
                prompt_compass_direction = (0, 0)\<rparr>"

definition decline_env :: env where
  "decline_env = lunge_env\<lparr>ask := declining\<rparr>"

definition lunger :: game where
  "lunger = start_game\<lparr>you_lunging := True\<rparr>"

definition dizzy_env :: env where
  "dizzy_env = floor_env\<lparr>rng_draws := (\<lambda>n. 1)\<rparr>"

definition confused_player :: game where
  "confused_player = start_game\<lparr>you_confused := True\<rparr>"

lemmas example_defs = wall_env_def lunge_env_def decline_env_def declining_def lunger_def
  dizzy_env_def confused_player_def floor_env_def floor_terrain_def floor_actors_def
  start_game_def rat_def

subsection \<open>Observations on the trace\<close>

text \<open>
  The events by which the outcome of a move is read off the trace. The marks of an
  outcome are the time-accounting step, the call of \<^verbatim>\<open>fight_melee\<close> (an attack), the
  request for autopickup that ends the walk block (a walk, with or without a swap or a
  dig), the opening of a door, and the blink of the malign gateway (the portal entered).
  The events of a swap are those \<^verbatim>\<open>_swap_places\<close> and the swappee's location effects
  leave. The messages of a restraint are the two of lines 1131 and 1138.
\<close>

fun swap_event :: "event \<Rightarrow> bool" where
  "swap_event (Monster_swaps_places m c) = True"
| "swap_event (Monster_die m) = True"
| "swap_event (Monster_move_to_pos m c) = True"
| "swap_event (Apply_location_effects m c) = True"
| "swap_event ev = False"

fun outcome_mark :: "event \<Rightarrow> bool" where
  "outcome_mark Apply_move_time_taken = True"
| "outcome_mark (Fight_melee m) = True"
| "outcome_mark Request_autopickup = True"
| "outcome_mark (Player_open_door c) = True"
| "outcome_mark Player_blink = True"
| "outcome_mark ev = False"

definition restraint_message :: "event \<Rightarrow> bool" where
  "restraint_message ev =
     (ev = Mpr ''You cannot move away from %s!'' \<or> ev = Mpr ''You cannot move closer to %s!'')"

definition notable :: "event \<Rightarrow> bool" where
  "notable ev = (outcome_mark ev \<or> swap_event ev \<or> restraint_message ev)"

text \<open>
  What one call may add to the marks of the trace: nothing (the move is blocked or
  aborted), the time accounting alone, an attack, the time accounting followed by the end
  of a walk, an opened door, or the entry of the gateway. The turn is over whenever the
  time accounting ran, and the time accounting runs alone only under the condition
  \<open>lunged\<close>.
\<close>

definition one_outcome :: "bool \<Rightarrow> game \<Rightarrow> game \<Rightarrow> bool" where
  "one_outcome lunged st st' =
     (\<exists>N. filter outcome_mark (trace st') = filter outcome_mark (trace st) @ N
        \<and> (N = [] \<or> N = [Apply_move_time_taken] \<or> (\<exists>m. N = [Fight_melee m])
           \<or> N = [Apply_move_time_taken, Request_autopickup]
           \<or> (\<exists>d. N = [Player_open_door d]) \<or> N = [Player_blink])
        \<and> (Apply_move_time_taken \<in> set N \<longrightarrow> you_turn_is_over st')
        \<and> (N = [Apply_move_time_taken] \<longrightarrow> lunged))"

text \<open>
  A player who can lunge at a rat three cells east and who confirms the lunge but declines
  the step that would follow it.
\<close>

definition far_rat :: monster where
  "far_rat = rat\<lparr>mons_pos := (8, 5)\<rparr>"

definition reluctant_env :: env where
  "reluctant_env = floor_env\<lparr>
     act := floor_actors\<lparr>monster_at := (\<lambda>c. if c = (8, 5) then Some far_rat else None),
                         beam_path_taken := (\<lambda>src tgt. [(6, 5), (7, 5), (8, 5)])\<rparr>,
     ask := \<lparr>yesno = (\<lambda>p. True), check_moveto = (\<lambda>c verb. verb = ''lunge''),
             prompt_compass_direction = (0, 0)\<rparr>\<rparr>"


text \<open>A confused player on the example level where no cell can be passed through.\<close>

definition bump_env :: env where
  "bump_env = floor_env\<lparr>act := floor_actors\<lparr>can_pass_through := (\<lambda>c. False)\<rparr>\<rparr>"

text \<open>The definitions a scenario is evaluated with.\<close>

lemmas move_defs = move_player_action_def not_in_rock_def held_def
  confused_move_def confused_bump_def cancel_confused_move_def adjacent_iterator_def
  lunge_then_move_def move_player_resolve_def coord_add_def coord_mul_def coord_sub_def origin_def
  plant_passthrough_def walk_through_plants_def dig_check_def try_to_swap_def
  resolve_occupant_def fungus_nervous_def cancel_move_def walk_block_def walkverb_def
  cancel_barbed_move_def dur_def walk_commit_def dig_through_def swap_if_def start_trail_def
  swappee_effects_def extend_trail_def clear_travel_trail_def stop_running_def walk_step_def
  remove_water_hold_def clear_constriction_data_def move_player_to_grid_def
  apply_barbs_damage_def remove_ice_armour_movement_def apply_noxious_bog_def
  apply_cloud_trail_def apply_move_time_taken_def div_rand_round_def random2_def
  one_chance_in_def next_draw_def draws_defs int32_def running_def move_alternate_def
  move_epilogue_def hasty_conduct_def finalize_cancelled_lunge_move_def
  lunge_forward_def lunge_assertion_def lunge_commit_def mpr_def canned_msg_def emit_def
  set_duration_def Let_def signed_divide_int_def signed_modulo_int_def BASELINE_DELAY_def

text \<open>The message of a neutral monster that does not make way, lines 963-964.\<close>

definition refusal :: string where
  "refusal = '' refuses to make way for you. (Use ctrl+direction or * direction to attack.)''"

text \<open>
  More scenarios on the example level, each with one monster on the cell east of the
  player: a plant that a follower of Fedhas passes through, a neutral bystander, a
  submerged eel, an unseen stalker met by a player who declines every prompt, an ally that
  swaps to the cell of the player, a rat; and a siren that holds the player wherever it
  moves.
\<close>

definition plant :: monster where
  "plant = rat\<lparr>mons_pos := (6, 5), mons_temp_neutral := True, mons_neutral := True,
              mons_is_firewood := True, mons_passthrough := True, mons_name := ''plant''\<rparr>"

definition plant_env :: env where
  "plant_env = floor_env\<lparr>
     act := floor_actors\<lparr>monster_at := (\<lambda>c. if c = (6, 5) then Some plant else None)\<rparr>\<rparr>"

definition bystander :: monster where
  "bystander = rat\<lparr>mons_pos := (6, 5), mons_temp_neutral := True, mons_neutral := True,
                  mons_name := ''bystander''\<rparr>"

definition neutral_env :: env where
  "neutral_env = floor_env\<lparr>
     act := floor_actors\<lparr>monster_at := (\<lambda>c. if c = (6, 5) then Some bystander else None)\<rparr>\<rparr>"

definition eel :: monster where
  "eel = rat\<lparr>mons_pos := (6, 5), mons_submerged := True, mons_name := ''eel''\<rparr>"

definition eel_env :: env where
  "eel_env = floor_env\<lparr>
     act := floor_actors\<lparr>monster_at := (\<lambda>c. if c = (6, 5) then Some eel else None)\<rparr>\<rparr>"

definition stalker :: monster where
  "stalker = rat\<lparr>mons_pos := (6, 5), mons_seen := False, mons_visible_to_you := False,
                mons_name := ''stalker''\<rparr>"

definition stalker_env :: env where
  "stalker_env = floor_env\<lparr>
     act := floor_actors\<lparr>monster_at := (\<lambda>c. if c = (6, 5) then Some stalker else None)\<rparr>,
     ask := declining\<rparr>"

definition ally :: monster where
  "ally = rat\<lparr>mons_pos := (6, 5), mons_wont_attack := True, mons_friendly := True,
             mons_name := ''ally''\<rparr>"

definition ally_env :: env where
  "ally_env = floor_env\<lparr>
     act := floor_actors\<lparr>monster_at := (\<lambda>c. if c = (6, 5) then Some ally else None),
                         swap_check := (\<lambda>m. (True, (5, 5)))\<rparr>\<rparr>"

definition near_rat :: monster where
  "near_rat = rat\<lparr>mons_pos := (6, 5)\<rparr>"

definition near_rat_env :: env where
  "near_rat_env = floor_env\<lparr>
     act := floor_actors\<lparr>monster_at :=
       (\<lambda>c. if c = (6, 5) then Some near_rat else None)\<rparr>\<rparr>"

definition siren_env :: env where
  "siren_env = floor_env\<lparr>act := floor_actors\<lparr>get_beholder := (\<lambda>c. Some rat)\<rparr>\<rparr>"

text \<open>The neutral bystander again, met while \<^verbatim>\<open>check_stop_running\<close> stops the run.\<close>

definition halting_env :: env where
  "halting_env = floor_env\<lparr>
     act := floor_actors\<lparr>monster_at := (\<lambda>c. if c = (6, 5) then Some bystander else None),
                         check_stop_running := True\<rparr>\<rparr>"

text \<open>
  The same collaborators, but with no beholder and no fearmonger anywhere: both lookups
  answer that nothing restrains the player.
\<close>

definition unrestrained :: "env \<Rightarrow> env" where
  "unrestrained e =
     e\<lparr>act := (act e)\<lparr>get_beholder := (\<lambda>c. None), get_fearmonger := (\<lambda>c. None)\<rparr>\<rparr>"

lemmas scenario_defs = plant_def plant_env_def neutral_env_def siren_env_def bystander_def
  eel_def eel_env_def stalker_def stalker_env_def near_rat_env_def near_rat_def
  ally_def ally_env_def halting_env_def far_rat_def reluctant_env_def

section \<open>Time accounting\<close>

lemma div_rand_round_near: "\<bar>10 * div_rand_round r n 10 - n\<bar> < 10"
proof (cases "0 \<le> n")
  case True
  then have "n sdiv 10 = n div 10" "n smod 10 = n mod 10"
    by (auto simp: signed_divide_int_def signed_modulo_int_def sgn_if)
  then show ?thesis
    unfolding div_rand_round_def Let_def by (auto; presburger)
next
  case False
  then have a: "n sdiv 10 = - ((- n) div 10)" "n smod 10 = - ((- n) mod 10)"
    by (auto simp: signed_divide_int_def signed_modulo_int_def sgn_if)
  have "\<not> random2 r 10 < - ((- n) mod 10)"
    unfolding random2_def by (simp add: not_less)
  then show ?thesis
    unfolding div_rand_round_def Let_def a using False by (auto; presburger)
qed

lemma ceiling_100: "\<lceil>100 / real_of_int d\<rceil> = - (- 100 div d)"
  using ceiling_divide_eq_div [of 100 d] by simp

lemma div_round_up_ge_ceiling: "\<lceil>100 / real_of_int d\<rceil> \<le> div_round_up 100 d"
proof (cases "0 < d")
  case True
  then have "100 sdiv d = 100 div d" "100 smod d = 100 mod d"
    by (auto simp: signed_divide_int_def signed_modulo_int_def sgn_if)
  then show ?thesis unfolding ceiling_100 div_round_up_def using True
    by (auto simp: zdiv_zminus1_eq_if)
next
  case False
  then have a: "100 sdiv d = - (100 div (- d))" "100 smod d = 100 mod (- d)"
    by (auto simp: signed_divide_int_def signed_modulo_int_def sgn_if)
  have "- 100 div d = 100 div (- d)" by (metis div_minus_right minus_minus)
  then show ?thesis unfolding ceiling_100 div_round_up_def a by auto
qed

lemma div_round_up_pos: "0 < d \<Longrightarrow> div_round_up 100 d = \<lceil>100 / real_of_int d\<rceil>"
proof -
  assume d: "0 < d"
  then have "100 sdiv d = 100 div d" "100 smod d = 100 mod d"
    by (auto simp: signed_divide_int_def signed_modulo_int_def sgn_if)
  then show ?thesis unfolding ceiling_100 div_round_up_def using d
    by (auto simp: zdiv_zminus1_eq_if)
qed

lemma int32_id: "in_int32 x \<Longrightarrow> int32 x = x"
  by (simp add: in_int32_def int32_def)

lemma time_taken_formula:
  "you_time_taken (apply_move_time_taken e add st) =
     (let scaled = int32 (you_time_taken st * player_movement_speed (act e));
          cost = int32 (div_rand_round (next_draw e st) scaled 10 + add)
      in if running st \<and> you_travel_speed st \<noteq> 0
         then max cost (div_round_up 100 (you_travel_speed st)) else cost)"
  by (simp add: apply_move_time_taken_def Let_def emit_def draws_defs next_draw_def
      running_def set_duration_def dur_def)

text \<open>
  Claim C9. As long as the product of the base time and the movement speed, and the sum of
  the rounded quotient and the additional cost, fit the 32 bits of an \<^verbatim>\<open>int\<close>, the time
  \<^verbatim>\<open>_apply_move_time_taken\<close> leaves in \<open>you_time_taken\<close> is the base time multiplied
  by the movement speed, divided by 10 with random rounding, plus the additional cost
  passed in; during a run with a travel speed it is raised to at least
  \<open>div_round_up 100 travel_speed\<close>. The rounded quotient is less than one unit away
  from the exact one, the result of a run is never below the ceiling of
  \<open>100 / travel_speed\<close>, and for a positive travel speed the floor is that ceiling.
\<close>

theorem apply_move_time_taken_cost:
  assumes "in_int32 (you_time_taken st * player_movement_speed (act e))"
    and "in_int32 (div_rand_round (next_draw e st)
                     (you_time_taken st * player_movement_speed (act e)) 10 + additional)"
  shows "you_time_taken (apply_move_time_taken e additional st) =
     (let cost = div_rand_round (next_draw e st)
                   (you_time_taken st * player_movement_speed (act e)) 10 + additional
      in if running st \<and> you_travel_speed st \<noteq> 0
         then max cost (div_round_up 100 (you_travel_speed st)) else cost)
   \<and> \<bar>10 * div_rand_round (next_draw e st)
              (you_time_taken st * player_movement_speed (act e)) 10
        - you_time_taken st * player_movement_speed (act e)\<bar> < 10
   \<and> (running st \<and> you_travel_speed st \<noteq> 0 \<longrightarrow>
        \<lceil>100 / real_of_int (you_travel_speed st)\<rceil>
          \<le> you_time_taken (apply_move_time_taken e additional st))
   \<and> (0 < you_travel_speed st \<longrightarrow>
        div_round_up 100 (you_travel_speed st) = \<lceil>100 / real_of_int (you_travel_speed st)\<rceil>)"
proof (intro conjI impI)
  show f: "you_time_taken (apply_move_time_taken e additional st) =
     (let cost = div_rand_round (next_draw e st)
                   (you_time_taken st * player_movement_speed (act e)) 10 + additional
      in if running st \<and> you_travel_speed st \<noteq> 0
         then max cost (div_round_up 100 (you_travel_speed st)) else cost)"
    by (simp add: time_taken_formula Let_def int32_id [OF assms(1)] int32_id [OF assms(2)])
  show "\<bar>10 * div_rand_round (next_draw e st)
              (you_time_taken st * player_movement_speed (act e)) 10
        - you_time_taken st * player_movement_speed (act e)\<bar> < 10"
    by (rule div_rand_round_near)
  show "\<lceil>100 / real_of_int (you_travel_speed st)\<rceil>
          \<le> you_time_taken (apply_move_time_taken e additional st)"
    if "running st \<and> you_travel_speed st \<noteq> 0"
    using that div_round_up_ge_ceiling [of "you_travel_speed st"]
    by (simp add: f Let_def)
  show "div_round_up 100 (you_travel_speed st) = \<lceil>100 / real_of_int (you_travel_speed st)\<rceil>"
    if "0 < you_travel_speed st"
    using that by (rule div_round_up_pos)
qed

theorem apply_move_time_taken_cost_witness:
  "in_int32 (you_time_taken (start_game\<lparr>you_running := RMODE_CONTINUE, you_travel_speed := 7\<rparr>)
             * player_movement_speed (act floor_env))
   \<and> running (start_game\<lparr>you_running := RMODE_CONTINUE, you_travel_speed := 7\<rparr>)
   \<and> 0 < you_travel_speed (start_game\<lparr>you_running := RMODE_CONTINUE, you_travel_speed := 7\<rparr>)
   \<and> div_round_up 100 7 = \<lceil>100 / real_of_int 7\<rceil>
   \<and> you_time_taken (apply_move_time_taken floor_env 0
        (start_game\<lparr>you_running := RMODE_CONTINUE, you_travel_speed := 7\<rparr>)) = 15"
proof -
  let ?st = "start_game\<lparr>you_running := RMODE_CONTINUE, you_travel_speed := 7\<rparr>"
  have r: "running ?st"
    by (simp add: running_def)
  have d: "div_round_up 100 7 = 15"
    by (simp add: div_round_up_def signed_divide_int_def signed_modulo_int_def)
  have q: "div_rand_round 0 100 10 = 10"
    by (simp add: div_rand_round_def signed_divide_int_def signed_modulo_int_def)
  have h1: "in_int32 (you_time_taken ?st * player_movement_speed (act floor_env))"
    by (simp add: in_int32_def floor_env_def floor_actors_def start_game_def)
  have h2: "in_int32 (div_rand_round (next_draw floor_env ?st)
                        (you_time_taken ?st * player_movement_speed (act floor_env)) 10 + 0)"
    using q by (simp add: in_int32_def next_draw_def floor_env_def floor_actors_def start_game_def)
  show ?thesis
    using apply_move_time_taken_cost [OF h1 h2] h1 r d q
    by (simp add: Let_def next_draw_def floor_env_def floor_actors_def start_game_def)
qed

section \<open>The lunge assertion\<close>

text \<open>
  Claim C3. The assertion at the entry of \<^verbatim>\<open>_lunge_forward\<close> does not test the range of
  the move vector: for a player at (2, 2) the unit move (1, 1) fails it, so that the lunge
  and the whole move stop with a failed assertion, and for a player at (5, 5) the
  out-of-range move (3, 0) passes it.
\<close>

theorem lunge_assertion_rejects_unit_move:
  "\<not> lunge_assertion (2, 2) (1, 1) \<and> lunge_assertion (5, 5) (3, 0)
   \<and> lunge_forward floor_env (1, 1) (start_game\<lparr>you_pos := (2, 2)\<rparr>) = Inl ASSERT_FAILED
   \<and> move_player_action floor_env (1, 1) (start_game\<lparr>you_pos := (2, 2), you_lunging := True\<rparr>)
       = Inl ASSERT_FAILED"
  by (simp add: lunge_assertion_def lunge_forward_def move_player_action_def lunge_then_move_def
      floor_env_def floor_terrain_def start_game_def not_in_rock_def held_def confused_move_def)

section \<open>Door commands without a door nearby\<close>

lemma check_adjacent_loop_no_match:
  "\<forall>c \<in> set cells. grd st c \<noteq> feat \<Longrightarrow>
   check_adjacent_loop e st feat cells doors num delta = (num, delta)"
  by (induction cells arbitrary: doors num delta) auto

lemma check_adjacent_no_match:
  "\<forall>c \<in> set (adjacent_iterator e (you_pos st) True). grd st c \<noteq> feat \<Longrightarrow>
   check_adjacent e st feat delta = (0, delta)"
  by (simp add: check_adjacent_def check_adjacent_loop_no_match)

text \<open>
  Claim C8. A player who is neither held in a net nor confused gives an open or a close
  command without a direction. When no cell next to the player holds a closed (or runed)
  door, \<^verbatim>\<open>open_door_action\<close> returns the game unchanged but for the message "There's
  nothing to open nearby."; when none holds an open door, \<^verbatim>\<open>close_door_action\<close> returns
  it unchanged but for "There's nothing to close nearby.". The turn flag, the time taken
  and every grid cell are as before. \<^verbatim>\<open>open_door_action\<close> asserts that the game is not an
  arena.
\<close>

theorem door_action_nothing_nearby:
  assumes free: "\<not> held st" "\<not> you_confused st"
  shows "(\<not> game_is_arena (cstate e) \<and> \<not> arena_suspended (cstate e)
          \<and> (\<forall>c \<in> set (adjacent_iterator e (you_pos st) True).
                grd st c \<notin> {DNGN_CLOSED_DOOR, DNGN_CLOSED_CLEAR_DOOR,
                              DNGN_RUNED_DOOR, DNGN_RUNED_CLEAR_DOOR})
          \<longrightarrow> open_door_action e (0, 0) st
                = Inr (st\<lparr>trace := trace st @ [Mpr ''There's nothing to open nearby.'']\<rparr>))
       \<and> ((\<forall>c \<in> set (adjacent_iterator e (you_pos st) True).
                grd st c \<notin> {DNGN_OPEN_DOOR, DNGN_OPEN_CLEAR_DOOR})
          \<longrightarrow> close_door_action e (0, 0) st
                = st\<lparr>trace := trace st @ [Mpr ''There's nothing to close nearby.'']\<rparr>)"
proof (intro conjI impI)
  assume h: "\<not> game_is_arena (cstate e) \<and> \<not> arena_suspended (cstate e)
          \<and> (\<forall>c \<in> set (adjacent_iterator e (you_pos st) True).
                grd st c \<notin> {DNGN_CLOSED_DOOR, DNGN_CLOSED_CLEAR_DOOR,
                              DNGN_RUNED_DOOR, DNGN_RUNED_CLEAR_DOOR})"
  then have "check_adjacent e st DNGN_CLOSED_DOOR d = (0, d)"
     "check_adjacent e st DNGN_CLOSED_CLEAR_DOOR d = (0, d)"
     "check_adjacent e st DNGN_RUNED_DOOR d = (0, d)"
     "check_adjacent e st DNGN_RUNED_CLEAR_DOOR d = (0, d)" for d
    by (auto intro!: check_adjacent_no_match)
  then show "open_door_action e (0, 0) st
                = Inr (st\<lparr>trace := trace st @ [Mpr ''There's nothing to open nearby.'']\<rparr>)"
    using free h by (simp add: open_door_action_def origin_def mpr_def emit_def)
next
  assume h: "\<forall>c \<in> set (adjacent_iterator e (you_pos st) True).
                grd st c \<notin> {DNGN_OPEN_DOOR, DNGN_OPEN_CLEAR_DOOR}"
  then have "check_adjacent e st DNGN_OPEN_DOOR d = (0, d)"
     "check_adjacent e st DNGN_OPEN_CLEAR_DOOR d = (0, d)" for d
    by (auto intro!: check_adjacent_no_match)
  then show "close_door_action e (0, 0) st
                = st\<lparr>trace := trace st @ [Mpr ''There's nothing to close nearby.'']\<rparr>"
    using free by (simp add: close_door_action_def origin_def mpr_def emit_def)
qed

theorem door_action_nothing_nearby_witness:
  "\<not> held start_game \<and> \<not> you_confused start_game
   \<and> \<not> game_is_arena (cstate floor_env) \<and> \<not> arena_suspended (cstate floor_env)
   \<and> list_all (\<lambda>c. grd start_game c \<notin> {DNGN_CLOSED_DOOR, DNGN_CLOSED_CLEAR_DOOR,
                              DNGN_RUNED_DOOR, DNGN_RUNED_CLEAR_DOOR,
                              DNGN_OPEN_DOOR, DNGN_OPEN_CLEAR_DOOR})
        (adjacent_iterator floor_env (you_pos start_game) True)
   \<and> open_door_action floor_env (0, 0) start_game
       = Inr (start_game\<lparr>trace := [Mpr ''There's nothing to open nearby.'']\<rparr>)
   \<and> close_door_action floor_env (0, 0) start_game
       = start_game\<lparr>trace := [Mpr ''There's nothing to close nearby.'']\<rparr>"
proof -
  have a: "\<not> held start_game" "\<not> you_confused start_game"
    by (simp_all add: held_def start_game_def)
  have b: "\<not> game_is_arena (cstate floor_env) \<and> \<not> arena_suspended (cstate floor_env)"
    by (simp add: floor_env_def)
  have c: "grd start_game c = DNGN_FLOOR" for c by (simp add: start_game_def)
  have t: "trace start_game = []" by (simp add: start_game_def)
  show ?thesis
    using door_action_nothing_nearby [OF a, of floor_env] a b c t by (simp add: list_all_iff)
qed

section \<open>Frame lemmas for the prompts\<close>

lemma cancel_barbed_move_frame:
  "cancel_barbed_move e l st = (b, st') \<Longrightarrow>
   you_pos st' = you_pos st \<and> you_time_taken st' = you_time_taken st
   \<and> you_duration st' = you_duration st \<and> you_turn_is_over st' = you_turn_is_over st
   \<and> you_confused st' = you_confused st \<and> grd st' = grd st"
  by (auto simp: cancel_barbed_move_def canned_msg_def emit_def Let_def split: if_splits)

lemma cancel_confused_move_frame:
  "cancel_confused_move e s st = (b, st') \<Longrightarrow>
   you_pos st' = you_pos st \<and> you_time_taken st' = you_time_taken st
   \<and> you_duration st' = you_duration st \<and> you_turn_is_over st' = you_turn_is_over st
   \<and> you_confused st' = you_confused st \<and> grd st' = grd st"
  by (auto simp: cancel_confused_move_def canned_msg_def emit_def Let_def split: if_splits)

lemma cancel_barbed_move_declined:
  "cancel_barbed_move e l st = (True, st') \<Longrightarrow> st' = st\<lparr>trace := trace st @ [Canned_msg MSG_OK]\<rparr>"
  by (auto simp: cancel_barbed_move_def canned_msg_def emit_def Let_def split: if_splits)

section \<open>The lunge\<close>

lemma lunge_commit_success: "lunge_commit e t st = Inr (r, st') \<Longrightarrow> r = Success"
  by (auto simp: lunge_commit_def Let_def split: sum.splits)

lemma lunge_forward_fail_frame:
  assumes "lunge_forward e move st = Inr (Fail, st')"
  shows "you_pos st' = you_pos st \<and> you_time_taken st' = you_time_taken st
         \<and> you_duration st' = you_duration st"
  using assms
  by (auto simp: lunge_forward_def Let_def mpr_def emit_def
      split: if_splits option.splits prod.splits bool.splits dest: lunge_commit_success)

lemma lunge_scan_cut:
  "lunge_path_broken e st p \<Longrightarrow> lunge_scan e st (before @ p # after) = lunge_scan e st before"
  by (induction before) (auto simp: lunge_path_broken_def split: option.splits)

lemma lunge_scan_clear:
  "lunge_scan e st path = Some m \<Longrightarrow>
   \<exists>before p after. path = before @ p # after \<and> monster_at (act e) p = Some m
      \<and> (\<forall>c \<in> set (before @ [p]). \<not> lunge_path_broken e st c)"
proof (induction path)
  case Nil
  then show ?case by simp
next
  case (Cons a path)
  show ?case
  proof (cases "lunge_scan e st path = Some m \<and> \<not> lunge_path_broken e st a")
    case True
    with Cons.IH obtain before p after where
      "path = before @ p # after" "monster_at (act e) p = Some m"
      "\<forall>c \<in> set (before @ [p]). \<not> lunge_path_broken e st c" by blast
    with True have "a # path = (a # before) @ p # after \<and> monster_at (act e) p = Some m
      \<and> (\<forall>c \<in> set ((a # before) @ [p]). \<not> lunge_path_broken e st c)" by simp
    then show ?thesis by blast
  next
    case False
    with Cons.prems have "monster_at (act e) a = Some m \<and> \<not> lunge_path_broken e st a"
      by (auto simp: lunge_path_broken_def split: if_splits option.splits)
    then have "a # path = [] @ a # path \<and> monster_at (act e) a = Some m
      \<and> (\<forall>c \<in> set ([] @ [a]). \<not> lunge_path_broken e st c)" by simp
    then show ?thesis by blast
  qed
qed

text \<open>
  Claim C6. A call of \<^verbatim>\<open>_lunge_forward\<close> that returns \<^verbatim>\<open>spret::fail\<close> leaves the
  position of the player, the time taken and every duration as they were. The scan of the
  tracer path never goes past a broken cell: the result of the scan is that of the path
  cut before the first such cell, and a target it finds lies on a cell that no broken cell
  precedes and that is not broken itself.
\<close>

theorem lunge_fail_leaves_player_and_scan_stops:
  "(lunge_forward e move st = Inr (Fail, st') \<longrightarrow>
      you_pos st' = you_pos st \<and> you_time_taken st' = you_time_taken st
      \<and> you_duration st' = you_duration st)
   \<and> (lunge_path_broken e st p \<longrightarrow>
      lunge_scan e st (before @ p # after) = lunge_scan e st before)
   \<and> (lunge_scan e st path = Some m \<longrightarrow>
      (\<exists>pre q post. path = pre @ q # post \<and> monster_at (act e) q = Some m
         \<and> (\<forall>c \<in> set (pre @ [q]). \<not> lunge_path_broken e st c)))"
  using lunge_forward_fail_frame [of e move st st'] lunge_scan_cut [of e st p before after]
    lunge_scan_clear [of e st path m]
  by blast

theorem lunge_fail_leaves_player_and_scan_stops_witness:
  "lunge_forward wall_env (1, 0) start_game = Inr (Fail, start_game)
   \<and> lunge_path_broken wall_env start_game (6, 5)
   \<and> lunge_scan wall_env start_game ([] @ (6, 5) # [(7, 5)]) = lunge_scan wall_env start_game []
   \<and> lunge_scan wall_env start_game [(7, 5)] = Some rat
   \<and> \<not> lunge_path_broken wall_env start_game (7, 5)"
proof -
  have a: "lunge_forward wall_env (1, 0) start_game = Inr (Fail, start_game)"
    by (simp add: lunge_forward_def lunge_assertion_def wall_env_def floor_env_def
        floor_actors_def start_game_def)
  have b: "lunge_path_broken wall_env start_game (6, 5)"
    by (simp add: lunge_path_broken_def wall_env_def floor_env_def)
  have c: "lunge_scan wall_env start_game [(7, 5)] = Some rat"
    by (simp add: wall_env_def floor_env_def floor_terrain_def floor_actors_def start_game_def
        rat_def)
  have d: "\<not> lunge_path_broken wall_env start_game (7, 5)"
    by (simp add: lunge_path_broken_def wall_env_def floor_env_def floor_terrain_def
        floor_actors_def start_game_def)
  have "lunge_scan wall_env start_game ([] @ (6, 5) # [(7, 5)]) = lunge_scan wall_env start_game []"
    using lunge_fail_leaves_player_and_scan_stops
      [of wall_env "(1, 0)" start_game start_game "(6, 5)" "[]" "[(7, 5)]" "[(7, 5)]" rat] b
    by blast
  then show ?thesis using a b c d by blast
qed

lemma lunge_abort_state:
  "lunge_forward e move st = Inr (Abort, st') \<Longrightarrow>
   \<not> you_confused st \<and> \<not> game_is_arena (cstate e)
   \<and> (st' = st \<or> st' = st\<lparr>trace := trace st @ [Canned_msg MSG_OK]\<rparr>)"
  by (auto simp: lunge_forward_def Let_def mpr_def emit_def
      split: if_splits option.splits prod.splits bool.splits
      dest: lunge_commit_success cancel_barbed_move_declined)

text \<open>
  Claim C2, as the code has it. When \<^verbatim>\<open>_lunge_forward\<close> returns
  \<^verbatim>\<open>spret::abort\<close> (the player declined the confirmation of \<^verbatim>\<open>check_moveto\<close> or
  of the barbs), \<^verbatim>\<open>move_player_action\<close> returns at once with the state the lunge
  left: the state before the call, with at most the message "Okay, then." added. The time
  taken, the turn flag and the position are unchanged and no other event happens: the
  bookkeeping of a cancelled move is not applied.
\<close>

theorem lunge_abort_cancels_move:
  assumes "lunge_forward e move st = Inr (Abort, st')"
    and "\<not> arena_suspended (cstate e)" "not_in_rock e st" "\<not> held st" "you_lunging st"
  shows "move_player_action e move st = Inr st'
         \<and> (st' = st \<or> st' = st\<lparr>trace := trace st @ [Canned_msg MSG_OK]\<rparr>)
         \<and> you_turn_is_over st' = you_turn_is_over st
         \<and> you_time_taken st' = you_time_taken st
         \<and> you_pos st' = you_pos st
         \<and> set (trace st') \<subseteq> set (trace st) \<union> {Canned_msg MSG_OK}"
proof -
  note a = lunge_abort_state [OF assms(1)]
  then have r: "not_in_rock e st'" using assms(3) by (auto simp: not_in_rock_def)
  have "move_player_action e move st = Inr st'"
    using assms a r by (simp add: move_player_action_def confused_move_def lunge_then_move_def)
  then show ?thesis using a by auto
qed

theorem lunge_abort_cancels_move_witness:
  "lunge_forward decline_env (1, 0) lunger = Inr (Abort, lunger)
   \<and> \<not> arena_suspended (cstate decline_env) \<and> not_in_rock decline_env lunger
   \<and> \<not> held lunger \<and> you_lunging lunger
   \<and> move_player_action decline_env (1, 0) lunger = Inr lunger"
proof -
  have a: "lunge_forward decline_env (1, 0) lunger = Inr (Abort, lunger)"
    by (simp add: example_defs lunge_forward_def lunge_assertion_def coord_add_def coord_mul_def)
  have b: "\<not> arena_suspended (cstate decline_env)" "not_in_rock decline_env lunger"
    "\<not> held lunger" "you_lunging lunger"
    by (simp_all add: example_defs not_in_rock_def held_def)
  show ?thesis using lunge_abort_cancels_move [OF a b] a b by simp
qed

text \<open>
  The claim as stated fails: a player at (5, 5) who can lunge moves east towards a rat at
  (7, 5) and declines the confirmation. The lunge returns \<^verbatim>\<open>spret::abort\<close> and the
  move returns the state unchanged: the turn is not over, the time taken is still 10 and
  the trace is empty.
\<close>

theorem lunge_abort_counterexample:
  "lunge_forward decline_env (1, 0) lunger = Inr (Abort, lunger)
   \<and> move_player_action decline_env (1, 0) lunger = Inr lunger
   \<and> \<not> you_turn_is_over lunger \<and> you_time_taken lunger = 10
   \<and> trace lunger = []"
  by (simp add: example_defs move_player_action_def lunge_then_move_def lunge_forward_def
      lunge_assertion_def not_in_rock_def held_def confused_move_def coord_add_def coord_mul_def)

section \<open>Confusion\<close>

lemma two_in_three: "card {r \<in> {0..<3}. \<not> one_chance_in r 3} = 2"
proof -
  have "{r \<in> {0..<3::nat}. \<not> one_chance_in r 3} = {1, 2}"
    by (auto simp: one_chance_in_def random2_def)
  then show ?thesis by simp
qed

lemma nine_offsets:
  "bij_betw (\<lambda>(a, b). (random2 a 3 - 1, random2 b 3 - 1))
     ({0..<3} \<times> {0..<3}) ({-1, 0, 1} \<times> {-1, 0, 1})"
proof -
  have s: "{0..<3::nat} = {0, 1, 2}" by auto
  show ?thesis
    unfolding bij_betw_def s
    by (auto simp: inj_on_def random2_def image_def)
qed

text \<open>
  Claim C7. A confused player who is not stationary, is not held in a net and has passed
  the confirmations of \<^verbatim>\<open>cancel_confused_move\<close> and \<^verbatim>\<open>cancel_barbed_move\<close>:
  the next draw decides whether the direction is kept (\<open>one_chance_in 3\<close>) or replaced,
  and two of the three equally likely draws replace it. The replacement is
  \<open>(random2 3 - 1, random2 3 - 1)\<close> from the next two draws, a bijection between the 9
  pairs of draws and the 9 offsets. The move then goes on in the direction kept or chosen,
  except that the zero vector ends the turn with the message "You're too confused to
  move!", the position and the time taken as before.
\<close>

theorem confused_move_direction:
  assumes entry: "\<not> game_is_arena (cstate e)" "\<not> arena_suspended (cstate e)" "not_in_rock e st"
                 "\<not> held st"
    and conf: "you_confused st" "\<not> you_stationary st"
    and c1: "cancel_confused_move e False st = (False, st1)"
    and c2: "cancel_barbed_move e False st1 = (False, st2)"
  shows
    "(let keep = one_chance_in (next_draw e st2) 3;
          st3 = consume_draw st2;
          x = random2 (next_draw e st3) 3 - 1;
          st4 = consume_draw st3;
          y = random2 (next_draw e st4) 3 - 1;
          st5 = consume_draw st4
      in (keep \<longrightarrow> move_player_action e move st = move_in_direction e (you_pos st) move st3)
       \<and> (\<not> keep \<and> (x, y) \<noteq> (0, 0) \<longrightarrow>
            move_player_action e move st = move_in_direction e (you_pos st) (x, y) st5)
       \<and> (\<not> keep \<and> (x, y) = (0, 0) \<longrightarrow>
            move_player_action e move st
              = Inr (st5\<lparr>trace := trace st5 @ [Mpr ''You're too confused to move!''],
                       you_apply_berserk_penalty := True, you_turn_is_over := True\<rparr>)
            \<and> you_pos st5 = you_pos st \<and> you_time_taken st5 = you_time_taken st))
     \<and> card {r \<in> {0..<3}. \<not> one_chance_in r 3} = 2
     \<and> bij_betw (\<lambda>(a, b). (random2 a 3 - 1, random2 b 3 - 1))
          ({0..<3} \<times> {0..<3}) ({-1, 0, 1} \<times> {-1, 0, 1})"
proof -
  have f: "you_pos st2 = you_pos st" "you_time_taken st2 = you_time_taken st"
    using cancel_confused_move_frame [OF c1] cancel_barbed_move_frame [OF c2] by simp_all
  show ?thesis
    using entry conf c1 c2 f two_in_three nine_offsets
    by (simp add: move_player_action_def confused_move_def move_in_direction_def Let_def
        origin_def mpr_def emit_def draws_defs)
qed

theorem confused_move_direction_witness:
  "you_confused confused_player \<and> \<not> you_stationary confused_player
   \<and> cancel_confused_move dizzy_env False confused_player = (False, confused_player)
   \<and> cancel_barbed_move dizzy_env False confused_player = (False, confused_player)
   \<and> \<not> one_chance_in (next_draw dizzy_env confused_player) 3
   \<and> move_player_action dizzy_env (1, 0) confused_player
       = Inr (confused_player\<lparr>rng_used := 3, trace := [Mpr ''You're too confused to move!''],
                you_apply_berserk_penalty := True, you_turn_is_over := True\<rparr>)"
proof -
  have a: "\<not> game_is_arena (cstate dizzy_env)" "\<not> arena_suspended (cstate dizzy_env)"
    "not_in_rock dizzy_env confused_player" "\<not> held confused_player"
    by (simp_all add: example_defs not_in_rock_def held_def)
  have b: "you_confused confused_player" "\<not> you_stationary confused_player"
    by (simp_all add: example_defs)
  have c: "cancel_confused_move dizzy_env False confused_player = (False, confused_player)"
    by (simp add: example_defs cancel_confused_move_def adjacent_iterator_def coord_add_def
        origin_def)
  have d: "cancel_barbed_move dizzy_env False confused_player = (False, confused_player)"
    by (simp add: example_defs cancel_barbed_move_def dur_def)
  have k: "\<not> one_chance_in (next_draw dizzy_env confused_player) 3"
    by (simp add: example_defs one_chance_in_def random2_def next_draw_def)
  have x: "random2 (next_draw dizzy_env (consume_draw confused_player)) 3 - 1 = 0"
    "random2 (next_draw dizzy_env (consume_draw (consume_draw confused_player))) 3 - 1 = 0"
    by (simp_all add: example_defs random2_def next_draw_def draws_defs)
  have u: "consume_draw (consume_draw (consume_draw confused_player))
             = confused_player\<lparr>rng_used := 3\<rparr>"
    by (simp add: example_defs draws_defs)
  have t: "trace confused_player = []" by (simp add: example_defs)
  show ?thesis
    using confused_move_direction [OF a b c d, of "(1, 0)"] b c d k x u t
    by (simp add: Let_def)
qed

section \<open>What a call adds to the trace\<close>

text \<open>
  Most functions of movement.cc leave no notable event. For each of them, and for every
  predicate \<open>P\<close> that holds of notable events only, the events of the trace that satisfy
  \<open>P\<close> are the same before and after.
\<close>

lemma notable_simps [simp]:
  "notable (Mpr s) = (s = ''You cannot move away from %s!'' \<or> s = ''You cannot move closer to %s!'')"
  "notable (Canned_msg c) = False"
  "notable (Simple_monster_message m s) = False"
  "notable Clear_messages = False"
  "notable Free_self_from_net = False"
  "notable (Move_player_to_grid p) = False"
  "notable (Destroy_wall p) = False"
  "notable (Noisy n p) = False"
  "notable Stop_running = False"
  "notable Clear_travel_trail = False"
  "notable Did_god_conduct_hasty = False"
  "notable (Wu_jian_post_move_effects p) = False"
  "notable Update_acrobat_status = False"
  "notable Maybe_shift_abyss_around_player = False"
  "notable (Player_close_door p) = False"
  "notable (Player_hurt n) = False"
  "notable (Ouch n) = False"
  "notable (Bleed_onto_floor p) = False"
  "notable Extract_manticore_spikes = False"
  "notable (Noxious_bog_cell p) = False"
  "notable (Check_place_cloud p n) = False"
  "notable Cant_cmd_repeat = False"
  "notable Cancel_cmd_again = False"
  "notable Cancel_cmd_repeat = False"
  "notable Erase_water_holder = False"
  "notable Clear_far_engulf = False"
  "notable Stop_directly_constricting_all = False"
  "notable Stop_being_constricted = False"
  by (auto simp: notable_def restraint_message_def)

lemma quiet_emit:
  assumes "\<forall>ev. P ev \<longrightarrow> notable ev" "\<not> notable ev"
  shows "filter P (trace (emit ev st)) = filter P (trace st)"
  using assms by (auto simp: emit_def)

lemma quiet_cancel_barbed_move:
  assumes "\<forall>ev. P ev \<longrightarrow> notable ev" "cancel_barbed_move e l st = (b, st')"
  shows "filter P (trace st') = filter P (trace st)"
  using assms(2) quiet_emit [OF assms(1)]
  by (auto simp: cancel_barbed_move_def canned_msg_def Let_def split: if_splits)

lemma quiet_cancel_confused_move:
  assumes "\<forall>ev. P ev \<longrightarrow> notable ev" "cancel_confused_move e s st = (b, st')"
  shows "filter P (trace st') = filter P (trace st)"
  using assms(2) quiet_emit [OF assms(1)]
  by (auto simp: cancel_confused_move_def canned_msg_def Let_def split: if_splits)

lemma quiet_barbs_hurt:
  assumes "\<forall>ev. P ev \<longrightarrow> notable ev"
  shows "filter P (trace (barbs_hurt e st)) = filter P (trace st)"
  using quiet_emit [OF assms]
  by (simp add: barbs_hurt_def Let_def draws_defs)

lemma quiet_barbs_snap:
  assumes "\<forall>ev. P ev \<longrightarrow> notable ev"
  shows "filter P (trace (barbs_snap e st)) = filter P (trace st)"
  using quiet_emit [OF assms]
  by (simp add: barbs_snap_def Let_def set_duration_def draws_defs)

lemma quiet_apply_barbs_damage:
  assumes "\<forall>ev. P ev \<longrightarrow> notable ev"
  shows "filter P (trace (apply_barbs_damage e l st)) = filter P (trace st)"
  using quiet_barbs_hurt [OF assms] quiet_barbs_snap [OF assms]
  by (simp add: apply_barbs_damage_def Let_def set_duration_def)

lemma quiet_remove_ice_armour_movement:
  assumes "\<forall>ev. P ev \<longrightarrow> notable ev"
  shows "filter P (trace (remove_ice_armour_movement st)) = filter P (trace st)"
  using quiet_emit [OF assms]
  by (simp add: remove_ice_armour_movement_def Let_def set_duration_def)

lemma quiet_remove_water_hold:
  assumes "\<forall>ev. P ev \<longrightarrow> notable ev"
  shows "filter P (trace (remove_water_hold st)) = filter P (trace st)"
  using quiet_emit [OF assms]
  by (simp add: remove_water_hold_def mpr_def)

lemma quiet_clear_constriction_data:
  assumes "\<forall>ev. P ev \<longrightarrow> notable ev"
  shows "filter P (trace (clear_constriction_data st)) = filter P (trace st)"
  using quiet_emit [OF assms]
  by (simp add: clear_constriction_data_def Let_def)


lemma quiet_apply_noxious_bog:
  assumes "\<forall>ev. P ev \<longrightarrow> notable ev" "apply_noxious_bog e p st = Inr st'"
  shows "filter P (trace st') = filter P (trace st)"
  using assms(2) quiet_emit [OF assms(1)]
  by (auto simp: apply_noxious_bog_def split: if_splits)

lemma quiet_apply_cloud_trail:
  assumes "\<forall>ev. P ev \<longrightarrow> notable ev" "apply_cloud_trail e p st = Inr st'"
  shows "filter P (trace st') = filter P (trace st)"
  using assms(2) quiet_emit [OF assms(1)]
  by (auto simp: apply_cloud_trail_def draws_defs split: if_splits)

lemma quiet_move_player_to_grid:
  assumes "\<forall>ev. P ev \<longrightarrow> notable ev"
  shows "filter P (trace (move_player_to_grid p st)) = filter P (trace st)"
  using quiet_emit [OF assms] by (simp add: move_player_to_grid_def)

lemma quiet_stop_running:
  assumes "\<forall>ev. P ev \<longrightarrow> notable ev"
  shows "filter P (trace (stop_running st)) = filter P (trace st)"
  using quiet_emit [OF assms] by (simp add: stop_running_def)

lemma quiet_clear_travel_trail:
  assumes "\<forall>ev. P ev \<longrightarrow> notable ev"
  shows "filter P (trace (clear_travel_trail st)) = filter P (trace st)"
  using quiet_emit [OF assms] by (simp add: clear_travel_trail_def)

lemma quiet_destroy_wall:
  assumes "\<forall>ev. P ev \<longrightarrow> notable ev"
  shows "filter P (trace (destroy_wall p st)) = filter P (trace st)"
  using quiet_emit [OF assms] by (simp add: destroy_wall_def)


lemma quiet_open_door_at:
  assumes "\<forall>s. \<not> P (Mpr s)" "\<forall>p. \<not> P (Player_open_door p)"
  shows "filter P (trace (open_door_at e d st)) = filter P (trace st)"
proof -
  have np: "\<not> P (Player_open_door p)" for p using assms(2) by blast
  show ?thesis
    using assms(1) by (simp add: open_door_at_def Let_def player_open_door_def mpr_def emit_def np)
qed

lemma quiet_open_door_action:
  assumes "\<forall>ev. P ev \<longrightarrow> notable ev" "\<forall>s. \<not> P (Mpr s)" "\<forall>p. \<not> P (Player_open_door p)"
    "open_door_action e mv st = Inr st'"
  shows "filter P (trace st') = filter P (trace st)"
  using assms(4)
  by (auto simp: open_door_action_def Let_def mpr_def canned_msg_def quiet_emit [OF assms(1)]
      quiet_open_door_at [OF assms(2,3)] split: if_splits prod.splits)

lemma quiet_open_door_action_confused:
  assumes "\<forall>ev. P ev \<longrightarrow> notable ev" "you_confused st" "open_door_action e mv st = Inr st'"
  shows "filter P (trace st') = filter P (trace st)"
  using assms(2,3)
  by (auto simp: open_door_action_def canned_msg_def quiet_emit [OF assms(1)] split: if_splits)

lemma quiet_lunge_commit:
  assumes "\<forall>ev. P ev \<longrightarrow> notable ev" "lunge_commit e t st = Inr (r, st')"
  shows "filter P (trace st') = filter P (trace st)"
proof -
  note q = quiet_emit [OF assms(1)] quiet_remove_water_hold [OF assms(1)]
    quiet_clear_constriction_data [OF assms(1)] quiet_move_player_to_grid [OF assms(1)]
    quiet_apply_barbs_damage [OF assms(1)] quiet_remove_ice_armour_movement [OF assms(1)]
  from assms(2) obtain s5 s6 where
    a: "apply_noxious_bog e (you_pos (clear_constriction_data (remove_water_hold st)))
          (remove_ice_armour_movement (apply_barbs_damage e True
            (move_player_to_grid t (mpr ''You lunge towards %s!''
              (emit Clear_messages (clear_constriction_data (remove_water_hold st))))))) = Inr s5"
    and b: "apply_cloud_trail e (you_pos (clear_constriction_data (remove_water_hold st))) s5 = Inr s6"
    and c: "trace st' = trace s6"
    by (auto simp: lunge_commit_def Let_def split: sum.splits if_splits)
  show ?thesis
    using quiet_apply_noxious_bog [OF assms(1) a] quiet_apply_cloud_trail [OF assms(1) b] c
    by (simp add: q mpr_def)
qed

lemma quiet_lunge_forward:
  assumes "\<forall>ev. P ev \<longrightarrow> notable ev" "lunge_forward e mv st = Inr (r, st')"
  shows "filter P (trace st') = filter P (trace st)"
  using assms(2)
  by (auto simp: lunge_forward_def Let_def mpr_def quiet_emit [OF assms(1)]
      split: if_splits option.splits prod.splits bool.splits
      dest!: quiet_lunge_commit [OF assms(1)] quiet_cancel_barbed_move [OF assms(1)])

lemma quiet_confused_bump:
  assumes "\<forall>ev. P ev \<longrightarrow> notable ev"
  shows "confused_bump e mv st = Return st' \<Longrightarrow> filter P (trace st') = filter P (trace st)"
    and "confused_bump e mv st = Continue mv' st' \<Longrightarrow> st' = st \<and> mv' = mv"
  by (auto simp: confused_bump_def Let_def mpr_def quiet_emit [OF assms] split: if_splits)

lemma quiet_confused_move:
  assumes "\<forall>ev. P ev \<longrightarrow> notable ev"
  shows "confused_move e mv st = Return st' \<Longrightarrow> filter P (trace st') = filter P (trace st)"
    and "confused_move e mv st = Continue mv' st' \<Longrightarrow> filter P (trace st') = filter P (trace st)"
  by (auto simp: confused_move_def Let_def mpr_def draws_defs quiet_emit [OF assms]
      split: if_splits prod.splits bool.splits
      dest!: quiet_confused_bump [OF assms] quiet_cancel_barbed_move [OF assms]
             quiet_cancel_confused_move [OF assms])

lemma quiet_walk_through_plants:
  assumes "\<forall>ev. P ev \<longrightarrow> notable ev"
  shows "filter P (trace (walk_through_plants e t st)) = filter P (trace st)"
  by (simp add: walk_through_plants_def Let_def mpr_def draws_defs quiet_emit [OF assms]
      split: option.splits)

lemma quiet_dig_check:
  assumes "\<forall>ev. P ev \<longrightarrow> notable ev" "dig_check e t tp st = (tp', st')"
  shows "filter P (trace st') = filter P (trace st)"
  using assms(2)
  by (auto simp: dig_check_def mpr_def quiet_emit [OF assms(1)] split: if_splits)

lemma quiet_walk_step:
  assumes "\<forall>ev. P ev \<longrightarrow> notable ev" "walk_step e t tp st = Inr st'"
  shows "filter P (trace st') = filter P (trace st)"
proof (cases "you_pos st \<noteq> t \<and> tp")
  case False
  with assms(2) show ?thesis by (auto simp: walk_step_def)
next
  case True
  note q = quiet_remove_water_hold [OF assms(1)]
    quiet_clear_constriction_data [OF assms(1)] quiet_move_player_to_grid [OF assms(1)]
    quiet_apply_barbs_damage [OF assms(1)] quiet_remove_ice_armour_movement [OF assms(1)]
  from assms(2) True obtain s4 where
    a: "apply_noxious_bog e (you_pos st)
          (remove_ice_armour_movement (apply_barbs_damage e False
            (move_player_to_grid t (clear_constriction_data (remove_water_hold st))))) = Inr s4"
    and b: "apply_cloud_trail e (you_pos st) s4 = Inr st'"
    by (auto simp: walk_step_def Let_def split: sum.splits)
  show ?thesis
    using quiet_apply_noxious_bog [OF assms(1) a] quiet_apply_cloud_trail [OF assms(1) b]
    by (simp add: q)
qed

lemma quiet_hasty_conduct:
  assumes "\<forall>ev. P ev \<longrightarrow> notable ev"
  shows "filter P (trace (hasty_conduct e l a st)) = filter P (trace st)"
  by (simp add: hasty_conduct_def Let_def draws_defs quiet_emit [OF assms])

lemma quiet_move_epilogue:
  assumes "\<forall>ev. P ev \<longrightarrow> notable ev"
  shows "filter P (trace (move_epilogue e l ip a m st)) = filter P (trace st)"
  by (simp add: move_epilogue_def Let_def quiet_emit [OF assms] quiet_hasty_conduct [OF assms])

lemma quiet_fungus_nervous:
  assumes "\<forall>ev. P ev \<longrightarrow> notable ev"
  shows "fungus_nervous st = Return st' \<Longrightarrow> filter P (trace st') = filter P (trace st)"
    and "fungus_nervous st = Continue fl st' \<Longrightarrow> st' = st \<and> fl = (False, True, False, (0, 0))"
  by (auto simp: fungus_nervous_def mpr_def quiet_emit [OF assms] quiet_stop_running [OF assms]
      split: if_splits)

lemma trace_apply_move_time_taken:
  "trace (apply_move_time_taken e a st) = trace st @ [Apply_move_time_taken]"
  by (simp add: apply_move_time_taken_def Let_def emit_def draws_defs set_duration_def)

lemma turn_apply_move_time_taken:
  "you_turn_is_over (apply_move_time_taken e a st) = you_turn_is_over st"
  by (simp add: apply_move_time_taken_def Let_def emit_def draws_defs set_duration_def)

lemma trace_finalize_cancelled_lunge_move:
  assumes "\<forall>ev. P ev \<longrightarrow> notable ev"
  shows "filter P (trace (finalize_cancelled_lunge_move e ip st))
           = filter P (trace st) @ filter P [Apply_move_time_taken]"
  by (simp add: finalize_cancelled_lunge_move_def Let_def draws_defs
      quiet_emit [OF assms] trace_apply_move_time_taken)

lemma turn_finalize_cancelled_lunge_move:
  "you_turn_is_over (finalize_cancelled_lunge_move e ip st)"
  by (simp add: finalize_cancelled_lunge_move_def Let_def draws_defs emit_def)

lemma trace_cancel_move:
  assumes "\<forall>ev. P ev \<longrightarrow> notable ev"
  shows "filter P (trace (cancel_move e l ip st))
           = filter P (trace st) @ (if l then filter P [Apply_move_time_taken] else [])"
  by (simp add: cancel_move_def Let_def trace_finalize_cancelled_lunge_move [OF assms]
      quiet_stop_running [OF assms])

lemma turn_cancel_move: "you_turn_is_over (cancel_move e l ip st) = l"
  by (simp add: cancel_move_def Let_def turn_finalize_cancelled_lunge_move)

lemma trace_entered_malign_portal:
  assumes "\<forall>ev. P ev \<longrightarrow> notable ev"
  shows "filter P (trace (entered_malign_portal e st))
           = filter P (trace st) @ filter P [Player_blink]"
proof -
  have np: "\<not> notable ev \<Longrightarrow> \<not> P ev" for ev using assms by auto
  show ?thesis by (simp add: entered_malign_portal_def Let_def mpr_def emit_def draws_defs np)
qed

lemma quiet_swap_places:
  assumes "\<forall>ev. P ev \<longrightarrow> notable ev" "\<forall>ev. swap_event ev \<longrightarrow> \<not> P ev"
    "swap_places e m loc st = Inr st'"
  shows "filter P (trace st') = filter P (trace st)"
proof -
  have np: "\<not> notable ev \<Longrightarrow> \<not> P ev" for ev using assms(1) by auto
  show ?thesis
    using assms(2,3)
    by (auto simp: swap_places_def mpr_def emit_def np split: if_splits option.splits)
qed


subsection \<open>The marks of an outcome\<close>

lemma outcome_mark_notable: "\<forall>ev. outcome_mark ev \<longrightarrow> notable ev"
  by (simp add: notable_def)

lemma outcome_mark_not_swap: "\<forall>ev. swap_event ev \<longrightarrow> \<not> outcome_mark ev"
proof (intro allI impI)
  fix ev assume "swap_event ev"
  then show "\<not> outcome_mark ev" by (cases ev) simp_all
qed

lemma outcome_mark_not_mpr: "\<forall>s. \<not> outcome_mark (Mpr s)"
  by simp

lemmas mark_quiet =
  quiet_emit [OF outcome_mark_notable] quiet_stop_running [OF outcome_mark_notable]
  quiet_clear_travel_trail [OF outcome_mark_notable] quiet_destroy_wall [OF outcome_mark_notable]
  quiet_move_epilogue [OF outcome_mark_notable]
  quiet_walk_through_plants [OF outcome_mark_notable]

lemma turn_fungus_nervous: "fungus_nervous st = Return st' \<Longrightarrow> \<not> you_turn_is_over st'"
  by (auto simp: fungus_nervous_def split: if_splits)

lemma marks_resolve_occupant_return:
  assumes "resolve_occupant e l ip targ tm tts restr st = Return st'"
  shows "filter outcome_mark (trace st')
           = filter outcome_mark (trace st)
             @ (if you_turn_is_over st' then [Apply_move_time_taken] else [])
         \<and> (you_turn_is_over st' \<longrightarrow> l)"
  using assms
  by (auto simp: resolve_occupant_def mark_quiet trace_cancel_move [OF outcome_mark_notable]
      turn_cancel_move
      split: option.splits if_splits prod.splits
      dest: quiet_fungus_nervous(1) [OF outcome_mark_notable] turn_fungus_nervous)

lemma marks_resolve_occupant_continue:
  assumes "resolve_occupant e l ip targ tm tts restr st = Continue (a, mv, sw, d) st'"
  shows "(a \<longrightarrow> (\<exists>m. filter outcome_mark (trace st')
                       = filter outcome_mark (trace st) @ [Fight_melee m])
               \<and> you_turn_is_over st')
         \<and> (\<not> a \<longrightarrow> filter outcome_mark (trace st') = filter outcome_mark (trace st))"
  using assms
  by (auto simp: resolve_occupant_def mark_quiet emit_def
      split: option.splits if_splits prod.splits
      dest: quiet_fungus_nervous(2) [OF outcome_mark_notable])

lemma quiet_dig_through:
  assumes "\<forall>ev. P ev \<longrightarrow> notable ev"
  shows "filter P (trace (dig_through targ st)) = filter P (trace st)"
  by (simp add: dig_through_def mpr_def quiet_emit [OF assms] quiet_destroy_wall [OF assms])

lemma quiet_swap_if:
  assumes "\<forall>ev. P ev \<longrightarrow> notable ev" "(\<forall>ev. swap_event ev \<longrightarrow> \<not> P ev) \<or> \<not> sw"
    "swap_if e tm sw d st = Inr st'"
  shows "filter P (trace st') = filter P (trace st)"
  using assms(2,3) quiet_swap_places [OF assms(1)]
  by (auto simp: swap_if_def split: option.splits if_splits)

lemma quiet_start_trail:
  assumes "\<forall>ev. P ev \<longrightarrow> notable ev"
  shows "filter P (trace (start_trail e st)) = filter P (trace st)"
  by (simp add: start_trail_def quiet_clear_travel_trail [OF assms])

lemma quiet_swappee_effects:
  assumes "(\<forall>ev. swap_event ev \<longrightarrow> \<not> P ev) \<or> \<not> sw"
  shows "filter P (trace (swappee_effects tm sw targ st)) = filter P (trace st)"
  using assms by (auto simp: swappee_effects_def emit_def split: option.splits)

lemma trace_extend_trail: "trace (extend_trail e st) = trace st"
  by (simp add: extend_trail_def)

lemma walk_commit_steps:
  assumes "walk_commit e targ tp tm sw d st = Inr fl"
  obtains st1 st2 a where
    "swap_if e tm sw d (dig_through targ st) = Inr st1"
    "walk_step e targ tp (start_trail e st1) = Inr st2"
    "fl = Continue (0, 0)
            (emit Request_autopickup
               ((apply_move_time_taken e a (extend_trail e (swappee_effects tm sw targ st2)))
                  \<lparr>you_turn_is_over := True\<rparr>))"
  using assms by (auto simp: walk_commit_def Let_def split: sum.splits)

lemma filter_walk_commit:
  assumes pn: "\<forall>ev. P ev \<longrightarrow> notable ev"
    and sw: "(\<forall>ev. swap_event ev \<longrightarrow> \<not> P ev) \<or> \<not> sw"
    and run: "walk_commit e targ tp tm sw d st = Inr fl"
  shows "\<exists>st'. fl = Continue (0, 0) st'
           \<and> filter P (trace st')
               = filter P (trace st) @ filter P [Apply_move_time_taken, Request_autopickup]
           \<and> you_turn_is_over st'"
proof -
  from run obtain st1 st2 a where
    s1: "swap_if e tm sw d (dig_through targ st) = Inr st1"
    and s2: "walk_step e targ tp (start_trail e st1) = Inr st2"
    and fl: "fl = Continue (0, 0)
            (emit Request_autopickup
               ((apply_move_time_taken e a (extend_trail e (swappee_effects tm sw targ st2)))
                  \<lparr>you_turn_is_over := True\<rparr>))"
    by (rule walk_commit_steps)
  have "filter P (trace st2) = filter P (trace st)"
    using quiet_swap_if [OF pn sw s1] quiet_walk_step [OF pn s2]
    by (simp add: quiet_dig_through [OF pn] quiet_start_trail [OF pn])
  then show ?thesis
    unfolding fl
    by (simp add: emit_def trace_apply_move_time_taken trace_extend_trail
        quiet_swappee_effects [OF sw])
qed

subsection \<open>The grid during a move\<close>

text \<open>
  Only \<^verbatim>\<open>destroy_wall\<close> and the door commands change the grid. Up to the walk block
  the grid is the one the call started with, and the walk block changes it on the target
  cell only, when the player digs.
\<close>

lemma cancel_barbed_move_digging:
  "cancel_barbed_move e l st = (b, st') \<Longrightarrow> you_digging st' = you_digging st"
  by (auto simp: cancel_barbed_move_def canned_msg_def emit_def Let_def split: if_splits)

lemma grd_apply_barbs_damage: "grd (apply_barbs_damage e l st) = grd st"
  by (simp add: apply_barbs_damage_def barbs_snap_def barbs_hurt_def Let_def emit_def
      set_duration_def draws_defs)

lemma grd_step:
  assumes a: "apply_noxious_bog e p
                (remove_ice_armour_movement (apply_barbs_damage e l
                   (move_player_to_grid t s0))) = Inr s4"
    and b: "apply_cloud_trail e p s4 = Inr st'"
  shows "grd st' = grd s0"
proof -
  have "grd s4 = grd s0"
    using a
    by (auto simp: apply_noxious_bog_def remove_ice_armour_movement_def set_duration_def
        grd_apply_barbs_damage move_player_to_grid_def emit_def split: if_splits)
  moreover have "grd st' = grd s4"
    using b by (auto simp: apply_cloud_trail_def emit_def draws_defs split: if_splits)
  ultimately show ?thesis by simp
qed

lemma grd_walk_step:
  assumes "walk_step e t tp st = Inr st'"
  shows "grd st' = grd st"
proof (cases "you_pos st \<noteq> t \<and> tp")
  case False
  with assms show ?thesis by (auto simp: walk_step_def)
next
  case True
  from assms True obtain s4 where
    a: "apply_noxious_bog e (you_pos st)
          (remove_ice_armour_movement (apply_barbs_damage e False
            (move_player_to_grid t (clear_constriction_data (remove_water_hold st))))) = Inr s4"
    and b: "apply_cloud_trail e (you_pos st) s4 = Inr st'"
    by (auto simp: walk_step_def Let_def split: sum.splits)
  from grd_step [OF a b] show ?thesis
    by (simp add: clear_constriction_data_def remove_water_hold_def mpr_def emit_def Let_def)
qed

lemma grd_lunge_commit:
  assumes "lunge_commit e t st = Inr (r, st')"
  shows "grd st' = grd st"
proof -
  from assms obtain s5 s6 where
    a: "apply_noxious_bog e (you_pos (clear_constriction_data (remove_water_hold st)))
          (remove_ice_armour_movement (apply_barbs_damage e True
            (move_player_to_grid t (mpr ''You lunge towards %s!''
              (emit Clear_messages (clear_constriction_data (remove_water_hold st))))))) = Inr s5"
    and b: "apply_cloud_trail e (you_pos (clear_constriction_data (remove_water_hold st))) s5 = Inr s6"
    and c: "grd st' = grd s6"
    by (auto simp: lunge_commit_def Let_def split: sum.splits if_splits)
  from grd_step [OF a b] c show ?thesis
    by (simp add: clear_constriction_data_def remove_water_hold_def mpr_def emit_def Let_def)
qed

lemma grd_lunge_forward:
  "lunge_forward e mv st = Inr (r, st') \<Longrightarrow> grd st' = grd st"
  by (auto simp: lunge_forward_def Let_def mpr_def emit_def
      split: if_splits option.splits prod.splits bool.splits
      dest!: grd_lunge_commit cancel_barbed_move_frame)

lemma grd_confused_move:
  "confused_move e mv st = Continue mv' st' \<Longrightarrow> grd st' = grd st"
  by (auto simp: confused_move_def confused_bump_def Let_def draws_defs
      split: if_splits prod.splits bool.splits
      dest!: cancel_barbed_move_frame cancel_confused_move_frame)

lemma grd_walk_through_plants: "grd (walk_through_plants e t st) = grd st"
  by (simp add: walk_through_plants_def Let_def mpr_def emit_def draws_defs
      split: option.splits)

lemma grd_dig_check:
  "dig_check e t tp st = (tp', st') \<Longrightarrow>
   grd st' = grd st \<and> (tp' \<longrightarrow> you_digging st' \<or> tp)"
  by (auto simp: dig_check_def mpr_def emit_def split: if_splits)

lemma grd_resolve_occupant:
  "resolve_occupant e l ip targ tm tts restr st = Continue fl st' \<Longrightarrow>
   grd st' = grd st \<and> you_digging st' = you_digging st"
  by (auto simp: resolve_occupant_def fungus_nervous_def stop_running_def emit_def
      split: option.splits if_splits prod.splits)

lemma grd_swap_places:
  "swap_places e m loc st = Inr st' \<Longrightarrow> grd st' = grd st"
  by (auto simp: swap_places_def mpr_def emit_def split: if_splits option.splits)

lemma grd_apply_move_time_taken: "grd (apply_move_time_taken e a st) = grd st"
  by (simp add: apply_move_time_taken_def Let_def emit_def draws_defs set_duration_def)

lemma grd_walk_commit:
  assumes "walk_commit e targ tp tm sw d st = Inr (Continue mv' st')"
  shows "grd st' targ = (if you_digging st then DNGN_FLOOR else grd st targ)"
proof -
  from assms obtain st1 st2 a where
    s1: "swap_if e tm sw d (dig_through targ st) = Inr st1"
    and s2: "walk_step e targ tp (start_trail e st1) = Inr st2"
    and fl: "Continue mv' st' = Continue (0, 0)
            (emit Request_autopickup
               ((apply_move_time_taken e a (extend_trail e (swappee_effects tm sw targ st2)))
                  \<lparr>you_turn_is_over := True\<rparr>))"
    by (rule walk_commit_steps)
  have "grd st1 targ = (if you_digging st then DNGN_FLOOR else grd st targ)"
    using s1 grd_swap_places
    by (auto simp: swap_if_def dig_through_def destroy_wall_def mpr_def emit_def
        split: option.splits if_splits)
  moreover have "grd st2 = grd st1"
    using grd_walk_step [OF s2] by (simp add: start_trail_def clear_travel_trail_def emit_def)
  ultimately show ?thesis
    using fl
    by (simp add: emit_def grd_apply_move_time_taken extend_trail_def swappee_effects_def
        split: option.splits)
qed

subsection \<open>One outcome\<close>

lemma marks_walk_commit:
  assumes "walk_commit e targ tp tm sw d st = Inr fl"
  shows "\<exists>st'. fl = Continue (0, 0) st'
           \<and> filter outcome_mark (trace st')
               = filter outcome_mark (trace st) @ [Apply_move_time_taken, Request_autopickup]
           \<and> you_turn_is_over st'
           \<and> grd st' targ = (if you_digging st then DNGN_FLOOR else grd st targ)"
proof -
  from filter_walk_commit [OF outcome_mark_notable _ assms] outcome_mark_not_swap
  obtain st' where a: "fl = Continue (0, 0) st'"
    and b: "filter outcome_mark (trace st')
               = filter outcome_mark (trace st) @ [Apply_move_time_taken, Request_autopickup]"
    and c: "you_turn_is_over st'" by auto
  from grd_walk_commit [OF assms [unfolded a]] a b c show ?thesis by simp
qed

lemma marks_walk_block:
  assumes run: "walk_block e l ip mv targ tp tm (a, m, sw, d) restr st = Inr fl"
    and pre: "tp \<longrightarrow> you_digging st \<or> \<not> feat_is_closed_door (ter e) (grd st targ)"
    and floor: "\<not> feat_is_closed_door (ter e) DNGN_FLOOR"
  shows "(\<forall>st'. fl = Return st' \<longrightarrow>
            filter outcome_mark (trace st') = filter outcome_mark (trace st)
            \<or> filter outcome_mark (trace st')
                 = filter outcome_mark (trace st) @ [Apply_move_time_taken]
               \<and> you_turn_is_over st' \<and> l)
         \<and> (\<forall>mv' st'. fl = Continue mv' st' \<longrightarrow>
            st' = st
            \<or> filter outcome_mark (trace st')
                 = filter outcome_mark (trace st) @ [Apply_move_time_taken, Request_autopickup]
               \<and> you_turn_is_over st' \<and> tp \<and> \<not> a
               \<and> \<not> feat_is_closed_door (ter e) (grd st' targ))"
proof (cases "\<not> a \<and> tp \<and> m \<and> \<not> restr")
  case False
  with run show ?thesis by (auto simp: walk_block_def)
next
  case True
  obtain b s1 where cb:
    "(if \<not> you_confused st then cancel_barbed_move e False st else (False, st)) = (b, s1)"
    by (cases "if \<not> you_confused st then cancel_barbed_move e False st else (False, st)")
  have s1: "filter outcome_mark (trace s1) = filter outcome_mark (trace st)"
    "grd s1 = grd st" "you_digging s1 = you_digging st"
  proof -
    show "filter outcome_mark (trace s1) = filter outcome_mark (trace st)"
      using cb quiet_cancel_barbed_move [OF outcome_mark_notable, of e False st b s1]
      by (auto split: if_splits)
    show "grd s1 = grd st"
      using cb cancel_barbed_move_frame [of e False st b s1] by (auto split: if_splits)
    show "you_digging s1 = you_digging st"
      using cb cancel_barbed_move_digging [of e False st b s1] by (auto split: if_splits)
  qed
  have "fl = Return ((mpr ''You nearly stumble into %s!'' st)
                   \<lparr>you_apply_berserk_penalty := True, you_turn_is_over := True\<rparr>)
        \<or> fl = Return (cancel_move e l ip st) \<or> fl = Return s1
        \<or> walk_commit e targ tp tm sw d s1 = Inr fl"
  proof (cases "you_confused st")
    case conf: True
    with cb have "s1 = st" by simp
    with run True conf show ?thesis by (auto simp: walk_block_def split: if_splits)
  next
    case clear: False
    with cb have "cancel_barbed_move e False st = (b, s1)" by simp
    with run True clear show ?thesis
      by (cases b) (auto simp: walk_block_def split: if_splits)
  qed
  then consider
      (stumble) "fl = Return ((mpr ''You nearly stumble into %s!'' st)
                   \<lparr>you_apply_berserk_penalty := True, you_turn_is_over := True\<rparr>)"
    | (cancel) "fl = Return (cancel_move e l ip st)"
    | (stop) "fl = Return s1"
    | (commit) "walk_commit e targ tp tm sw d s1 = Inr fl"
    by blast
  then show ?thesis
  proof cases
    case stumble
    then show ?thesis by (simp add: mpr_def mark_quiet)
  next
    case cancel
    then show ?thesis
      by (auto simp: trace_cancel_move [OF outcome_mark_notable] turn_cancel_move)
  next
    case stop
    with s1 show ?thesis by simp
  next
    case commit
    from marks_walk_commit [OF commit] obtain s2 where
      "fl = Continue (0, 0) s2"
      "filter outcome_mark (trace s2)
         = filter outcome_mark (trace s1) @ [Apply_move_time_taken, Request_autopickup]"
      "you_turn_is_over s2"
      "grd s2 targ = (if you_digging s1 then DNGN_FLOOR else grd s1 targ)" by blast
    with s1 pre floor True show ?thesis by auto
  qed
qed

lemma turn_open_door_action:
  "open_door_action e mv st = Inr st' \<Longrightarrow> you_turn_is_over st \<longrightarrow> you_turn_is_over st'"
  by (auto simp: open_door_action_def open_door_at_def Let_def mpr_def canned_msg_def emit_def
      player_open_door_def split: if_splits prod.splits)

lemma marks_open_door_at:
  "filter outcome_mark (trace (open_door_at e d st)) = filter outcome_mark (trace st)
   \<or> (\<exists>p. filter outcome_mark (trace (open_door_at e d st))
             = filter outcome_mark (trace st) @ [Player_open_door p])"
  by (simp add: open_door_at_def Let_def player_open_door_def mpr_def emit_def)

lemma marks_open_door_action:
  assumes "open_door_action e mv st = Inr st'"
  shows "filter outcome_mark (trace st') = filter outcome_mark (trace st)
         \<or> (\<exists>p. filter outcome_mark (trace st')
                   = filter outcome_mark (trace st) @ [Player_open_door p])"
proof -
  let ?m4 = "snd (check_adjacent e st DNGN_RUNED_CLEAR_DOOR
              (snd (check_adjacent e st DNGN_RUNED_DOOR
                (snd (check_adjacent e st DNGN_CLOSED_CLEAR_DOOR
                  (snd (check_adjacent e st DNGN_CLOSED_DOOR mv)))))))"
  from assms have "filter outcome_mark (trace st') = filter outcome_mark (trace st)
      \<or> st' = open_door_at e mv st
      \<or> st' = open_door_at e (prompt_compass_direction (ask e)) st
      \<or> st' = open_door_at e ?m4 st"
    by (auto simp: open_door_action_def Let_def mpr_def canned_msg_def mark_quiet
        split: if_splits prod.splits)
  then show ?thesis using marks_open_door_at by blast
qed

lemma marks_move_alternate:
  assumes "move_alternate e mv targ tp a beh fm st = Inr fl"
  shows "(\<forall>st'. fl = Return st' \<longrightarrow>
            filter outcome_mark (trace st') = filter outcome_mark (trace st)
              \<and> (you_turn_is_over st \<longrightarrow> you_turn_is_over st' \<or> \<not> tp \<and> \<not> a)
            \<or> (\<exists>p. filter outcome_mark (trace st')
                      = filter outcome_mark (trace st) @ [Player_open_door p])
              \<and> \<not> a \<and> feat_is_closed_door (ter e) (grd st targ)
            \<or> filter outcome_mark (trace st') = filter outcome_mark (trace st) @ [Player_blink]
              \<and> \<not> tp \<and> \<not> a \<and> you_turn_is_over st')
         \<and> (\<forall>u st'. fl = Continue u st' \<longrightarrow> st' = st)"
proof (cases "(travel_open_doors (opts e) \<or> \<not> running st) \<and> \<not> a
               \<and> feat_is_closed_door (ter e) (grd st targ)")
  case True
  with assms obtain s1 where o: "open_door_action e mv st = Inr s1" and fl: "fl = Return s1"
    by (auto simp: move_alternate_def split: sum.splits)
  from marks_open_door_action [OF o] turn_open_door_action [OF o] True fl show ?thesis
    by auto
next
  case False
  with assms show ?thesis
    by (auto simp: move_alternate_def Let_def mpr_def canned_msg_def mark_quiet
        trace_entered_malign_portal [OF outcome_mark_notable]
        entered_malign_portal_def emit_def stop_running_def draws_defs
        split: if_splits)
qed

lemma one_outcomeI:
  "filter outcome_mark (trace st') = filter outcome_mark (trace st) @ N \<Longrightarrow>
   N = [] \<or> N = [Apply_move_time_taken] \<or> (\<exists>m. N = [Fight_melee m])
     \<or> N = [Apply_move_time_taken, Request_autopickup]
     \<or> (\<exists>d. N = [Player_open_door d]) \<or> N = [Player_blink] \<Longrightarrow>
   Apply_move_time_taken \<in> set N \<longrightarrow> you_turn_is_over st' \<Longrightarrow>
   N = [Apply_move_time_taken] \<longrightarrow> l \<Longrightarrow>
   one_outcome l st st'"
  unfolding one_outcome_def by blast

lemma one_outcome_same:
  "filter outcome_mark (trace st') = filter outcome_mark (trace st) \<Longrightarrow> one_outcome l st st'"
  by (rule one_outcomeI [where N = "[]"]) simp_all

lemma one_outcome_alone:
  "filter outcome_mark (trace st') = filter outcome_mark (trace st) @ [Apply_move_time_taken] \<Longrightarrow>
   you_turn_is_over st' \<Longrightarrow> l \<Longrightarrow> one_outcome l st st'"
  by (rule one_outcomeI [where N = "[Apply_move_time_taken]"]) simp_all

lemma one_outcome_trans_left:
  "filter outcome_mark (trace st1) = filter outcome_mark (trace st) \<Longrightarrow>
   one_outcome l st1 st' \<Longrightarrow> one_outcome l st st'"
  unfolding one_outcome_def by simp

lemma one_outcome_mono:
  "one_outcome l st st' \<Longrightarrow> (l \<Longrightarrow> l') \<Longrightarrow> one_outcome l' st st'"
  unfolding one_outcome_def by blast

lemma marks_move_player_resolve:
  assumes run: "move_player_resolve e l ip mv st = Inr st'"
    and doors: "can_pass_through (act e) (coord_add (you_pos st) mv) \<longrightarrow>
                \<not> feat_is_closed_door (ter e) (grd st (coord_add (you_pos st) mv))"
    and floor: "\<not> feat_is_closed_door (ter e) DNGN_FLOOR"
  shows "one_outcome l st st'"
proof (cases "in_bounds (ter e) (coord_add (you_pos st) mv)")
  case False
  with run show ?thesis
    by (auto simp: move_player_resolve_def Let_def mpr_def mark_quiet intro!: one_outcome_same)
next
  case inb: True
  let ?targ = "coord_add (you_pos st) mv"
  let ?tm = "if plant_passthrough e ?targ st then None else monster_at (act e) ?targ"
  let ?st1 = "walk_through_plants e ?targ st"
  obtain tp st2 where dc:
    "dig_check e ?targ (can_pass_through (act e) ?targ \<and> \<not> you_stationary ?st1) ?st1 = (tp, st2)"
    by (cases "dig_check e ?targ (can_pass_through (act e) ?targ \<and> \<not> you_stationary ?st1) ?st1")
  have m2: "filter outcome_mark (trace st2) = filter outcome_mark (trace st)"
    using quiet_dig_check [OF outcome_mark_notable dc] by (simp add: mark_quiet)
  have g2: "grd st2 = grd st"
    and p2: "tp \<longrightarrow> you_digging st2 \<or> \<not> feat_is_closed_door (ter e) (grd st2 ?targ)"
    using grd_dig_check [OF dc] doors by (auto simp: grd_walk_through_plants)
  let ?beh = "\<not> you_confused st2 \<and> get_beholder (act e) ?targ \<noteq> None"
  let ?fm = "\<not> you_confused st2 \<and> get_fearmonger (act e) ?targ \<noteq> None"
  show ?thesis
  proof (cases "check_stop_running (act e)")
    case True
    with run inb dc have "st' = (if l then finalize_cancelled_lunge_move e ip st2
                                   else st2\<lparr>you_turn_is_over := False\<rparr>)"
      by (auto simp: move_player_resolve_def Let_def)
    then show ?thesis
      using m2
      by (auto simp: trace_finalize_cancelled_lunge_move [OF outcome_mark_notable]
          turn_finalize_cancelled_lunge_move
          intro: one_outcome_same one_outcome_alone)
  next
    case nostop: False
    let ?occ = "resolve_occupant e l ip ?targ ?tm (try_to_swap e ?targ ?tm st2) (?beh \<or> ?fm) st2"
    show ?thesis
    proof (cases ?occ)
      case (Return st3)
      with run inb dc nostop have "st' = st3"
        by (auto simp: move_player_resolve_def Let_def)
      with marks_resolve_occupant_return [OF Return] m2 show ?thesis
        by (auto intro: one_outcome_same one_outcome_alone split: if_splits)
    next
      case (Continue flags st3)
      obtain a m sw d where fl: "flags = (a, m, sw, d)" by (cases flags) auto
      note occ = marks_resolve_occupant_continue [OF Continue [unfolded fl]]
      have p3: "tp \<longrightarrow> you_digging st3 \<or> \<not> feat_is_closed_door (ter e) (grd st3 ?targ)"
        using grd_resolve_occupant [OF Continue] p2 by simp
      let ?wb = "walk_block e l ip mv ?targ tp ?tm flags (?beh \<or> ?fm) st3"
      from run inb dc nostop Continue obtain fl4 where wb: "?wb = Inr fl4"
        by (auto simp: move_player_resolve_def Let_def split: sum.splits)
      note wbm = marks_walk_block [OF wb [unfolded fl] p3 floor]
      show ?thesis
      proof (cases fl4)
        case (Return st4)
        with run inb dc nostop Continue wb have "st' = st4"
          by (auto simp: move_player_resolve_def Let_def)
        then have st': "st' = st4" .
        have na: "\<not> a"
          using wb Return by (auto simp: fl walk_block_def split: if_splits)
        with occ have f: "filter outcome_mark (trace st3) = filter outcome_mark (trace st2)"
          by blast
        from wbm Return have "filter outcome_mark (trace st4) = filter outcome_mark (trace st3)
            \<or> filter outcome_mark (trace st4)
                 = filter outcome_mark (trace st3) @ [Apply_move_time_taken]
               \<and> you_turn_is_over st4 \<and> l" by blast
        then show ?thesis
        proof
          assume "filter outcome_mark (trace st4) = filter outcome_mark (trace st3)"
          with f m2 st' show ?thesis by (auto intro: one_outcome_same)
        next
          assume "filter outcome_mark (trace st4)
                 = filter outcome_mark (trace st3) @ [Apply_move_time_taken]
               \<and> you_turn_is_over st4 \<and> l"
          with f m2 st' show ?thesis
            by (auto intro: one_outcome_alone)
        qed
      next
        case c4: (Continue mv4 st4)
        let ?alt = "move_alternate e mv4 ?targ tp a ?beh ?fm st4"
        from run inb dc nostop Continue wb c4 fl obtain fl5 where alt: "?alt = Inr fl5"
          by (auto simp: move_player_resolve_def Let_def split: sum.splits)
        note altm = marks_move_alternate [OF alt]
        have st5: "(\<exists>s5. fl5 = Return s5 \<and> st' = s5)
                   \<or> (\<exists>u. fl5 = Continue u st4 \<and> st' = move_epilogue e l ip a m st4)"
          using run inb dc nostop Continue wb c4 fl alt altm
          by (cases fl5) (auto simp: move_player_resolve_def Let_def)
        have epi: "you_turn_is_over (move_epilogue e l ip a m st4) = you_turn_is_over st4"
          by (simp add: move_epilogue_def Let_def hasty_conduct_def emit_def draws_defs)
        from wbm c4 have w: "st4 = st3
            \<or> filter outcome_mark (trace st4)
                 = filter outcome_mark (trace st3) @ [Apply_move_time_taken, Request_autopickup]
               \<and> you_turn_is_over st4 \<and> tp \<and> \<not> a
               \<and> \<not> feat_is_closed_door (ter e) (grd st4 ?targ)" by blast
        show ?thesis
        proof (cases a)
          case True
          with w have e4: "st4 = st3" by blast
          from occ True obtain mm where
            f: "filter outcome_mark (trace st3) = filter outcome_mark (trace st2) @ [Fight_melee mm]"
            and t: "you_turn_is_over st3" by blast
          from st5 altm True e4 m2 f t epi show ?thesis
            by (auto simp: mark_quiet intro!: one_outcomeI [where N = "[Fight_melee mm]"])
        next
          case na: False
          with occ have f: "filter outcome_mark (trace st3) = filter outcome_mark (trace st2)"
            by blast
          from w show ?thesis
          proof
            assume e4: "st4 = st3"
            from st5 show ?thesis
            proof
              assume "\<exists>s5. fl5 = Return s5 \<and> st' = s5"
              then have r5: "fl5 = Return st'" by auto
              from altm r5 have
                "filter outcome_mark (trace st') = filter outcome_mark (trace st4)
                 \<or> (\<exists>p. filter outcome_mark (trace st')
                           = filter outcome_mark (trace st4) @ [Player_open_door p])
                 \<or> filter outcome_mark (trace st') = filter outcome_mark (trace st4) @ [Player_blink]"
                by blast
              then show ?thesis
              proof (elim disjE exE)
                assume "filter outcome_mark (trace st') = filter outcome_mark (trace st4)"
                with e4 f m2 show ?thesis by (auto intro: one_outcome_same)
              next
                fix p assume "filter outcome_mark (trace st')
                           = filter outcome_mark (trace st4) @ [Player_open_door p]"
                with e4 f m2 show ?thesis
                  by (auto intro!: one_outcomeI [where N = "[Player_open_door p]"])
              next
                assume "filter outcome_mark (trace st')
                          = filter outcome_mark (trace st4) @ [Player_blink]"
                with e4 f m2 show ?thesis
                  by (auto intro!: one_outcomeI [where N = "[Player_blink]"])
              qed
            next
              assume "\<exists>u. fl5 = Continue u st4 \<and> st' = move_epilogue e l ip a m st4"
              with e4 f m2 show ?thesis
                by (auto simp: mark_quiet intro: one_outcome_same)
            qed
          next
            assume ww: "filter outcome_mark (trace st4)
                 = filter outcome_mark (trace st3) @ [Apply_move_time_taken, Request_autopickup]
               \<and> you_turn_is_over st4 \<and> tp \<and> \<not> a
               \<and> \<not> feat_is_closed_door (ter e) (grd st4 ?targ)"
            from st5 altm na ww m2 f epi show ?thesis
              by (auto simp: mark_quiet
                  intro!: one_outcomeI [where N = "[Apply_move_time_taken, Request_autopickup]"])
          qed
        qed
      qed
    qed
  qed
qed

lemma marks_lunge_then_move:
  assumes run: "lunge_then_move e ip mv st = Inr st'"
    and doors: "\<forall>c. can_pass_through (act e) c \<longrightarrow> \<not> feat_is_closed_door (ter e) (grd st c)"
    and floor: "\<not> feat_is_closed_door (ter e) DNGN_FLOOR"
  shows "one_outcome (you_lunging st \<and> (\<exists>s. lunge_forward e mv st = Inr (Success, s))) st st'"
proof (cases "you_lunging st")
  case False
  with run have "move_player_resolve e False ip mv st = Inr st'"
    by (simp add: lunge_then_move_def)
  from marks_move_player_resolve [OF this _ floor] doors
  have "one_outcome False st st'" by blast
  then show ?thesis by (rule one_outcome_mono) simp
next
  case True
  with run obtain r st1 where lf: "lunge_forward e mv st = Inr (r, st1)"
    by (auto simp: lunge_then_move_def split: sum.splits)
  note q = quiet_lunge_forward [OF outcome_mark_notable lf]
  have d1: "can_pass_through (act e) c \<longrightarrow> \<not> feat_is_closed_door (ter e) (grd st1 c)" for c
    using doors unfolding grd_lunge_forward [OF lf] by blast
  show ?thesis
  proof (cases r)
    case Abort
    with run True lf have "st' = st1"
      by (auto simp: lunge_then_move_def split: if_splits)
    with q show ?thesis by (auto intro: one_outcome_same)
  next
    case Fail
    with run True lf have "move_player_resolve e False ip mv st1 = Inr st'"
      by (auto simp: lunge_then_move_def split: if_splits)
    from marks_move_player_resolve [OF this d1 floor]
    have "one_outcome False st1 st'" .
    then have "one_outcome False st st'" using q by (auto elim: one_outcome_trans_left [rotated])
    then show ?thesis by (rule one_outcome_mono) simp
  next
    case Success
    with run True lf have "move_player_resolve e True (you_pos st1) mv st1 = Inr st'"
      by (auto simp: lunge_then_move_def split: if_splits)
    from marks_move_player_resolve [OF this d1 floor]
    have "one_outcome True st1 st'" .
    then have "one_outcome True st st'" using q by (auto elim: one_outcome_trans_left [rotated])
    then show ?thesis by (rule one_outcome_mono) (use True lf Success in simp)
  qed
qed

lemma confused_move_keeps_confusion:
  "confused_move e mv st = Continue mv' st' \<Longrightarrow>
   you_confused st' = you_confused st \<and> (\<not> you_confused st \<longrightarrow> mv' = mv \<and> st' = st)"
  by (auto simp: confused_move_def confused_bump_def Let_def draws_defs
      split: if_splits prod.splits bool.splits
      dest!: cancel_barbed_move_frame cancel_confused_move_frame)

lemma lunge_forward_needs_clear_head:
  "you_confused st \<Longrightarrow> lunge_forward e mv st \<noteq> Inr (Success, s)"
  by (auto simp: lunge_forward_def emit_def split: if_splits)

lemma marks_move_player_action:
  assumes run: "move_player_action e mv st = Inr st'"
    and doors: "\<forall>c. can_pass_through (act e) c \<longrightarrow> \<not> feat_is_closed_door (ter e) (grd st c)"
    and floor: "\<not> feat_is_closed_door (ter e) DNGN_FLOOR"
  shows "one_outcome (\<not> you_confused st \<and> you_lunging st
                       \<and> (\<exists>s. lunge_forward e mv st = Inr (Success, s))) st st'"
proof (cases "held st")
  case True
  with run show ?thesis
    by (auto simp: move_player_action_def mark_quiet split: if_splits intro!: one_outcome_same)
next
  case False
  show ?thesis
  proof (cases "confused_move e mv st")
    case (Return st1)
    with run False have "st' = st1"
      by (auto simp: move_player_action_def split: if_splits)
    with quiet_confused_move(1) [OF outcome_mark_notable Return] show ?thesis
      by (auto intro: one_outcome_same)
  next
    case (Continue mv1 st1)
    with run False have ltm: "lunge_then_move e (you_pos st) mv1 st1 = Inr st'"
      by (auto simp: move_player_action_def split: if_splits)
    have d1: "\<forall>c. can_pass_through (act e) c \<longrightarrow> \<not> feat_is_closed_door (ter e) (grd st1 c)"
      using doors unfolding grd_confused_move [OF Continue] .
    note k = confused_move_keeps_confusion [OF Continue]
    from marks_lunge_then_move [OF ltm d1 floor]
    have "one_outcome (you_lunging st1 \<and> (\<exists>s. lunge_forward e mv1 st1 = Inr (Success, s)))
            st1 st'" .
    then have "one_outcome (you_lunging st1 \<and> (\<exists>s. lunge_forward e mv1 st1 = Inr (Success, s)))
            st st'"
      using quiet_confused_move(2) [OF outcome_mark_notable Continue]
      by (auto elim: one_outcome_trans_left)
    then show ?thesis
    proof (rule one_outcome_mono)
      assume a: "you_lunging st1 \<and> (\<exists>s. lunge_forward e mv1 st1 = Inr (Success, s))"
      have nc: "\<not> you_confused st"
      proof
        assume "you_confused st"
        with k have "you_confused st1" by simp
        from lunge_forward_needs_clear_head [OF this] a show False by blast
      qed
      with k have "mv1 = mv" "st1 = st" by simp_all
      with a nc show "\<not> you_confused st \<and> you_lunging st
                       \<and> (\<exists>s. lunge_forward e mv st = Inr (Success, s))" by simp
    qed
  qed
qed

text \<open>
  Claim C1, as the code has it. On a level where no cell the player can pass through holds
  a closed door, a call of \<^verbatim>\<open>move_player_action\<close> that returns realizes exactly one
  outcome: of the marks of an outcome it adds to the trace either nothing (the move is
  blocked or aborted), or the time accounting alone, or one attack, or the time accounting
  followed by the end of the walk block, or one opened door, or the blink of the malign
  gateway. So \<^verbatim>\<open>_apply_move_time_taken\<close> runs at most once, every walk passes through
  it, and the turn is over whenever it ran. It runs alone only when the player is not
  confused and the lunge of this very move succeeded, that is, when the move is cancelled
  after the lunge.
\<close>

theorem move_player_action_outcome:
  assumes "move_player_action e move st = Inr st'"
    and "\<forall>c. can_pass_through (act e) c \<longrightarrow> \<not> feat_is_closed_door (ter e) (grd st c)"
    and "\<not> feat_is_closed_door (ter e) DNGN_FLOOR"
  shows "\<exists>N. filter outcome_mark (trace st') = filter outcome_mark (trace st) @ N
           \<and> (N = [] \<or> N = [Apply_move_time_taken] \<or> (\<exists>m. N = [Fight_melee m])
              \<or> N = [Apply_move_time_taken, Request_autopickup]
              \<or> (\<exists>d. N = [Player_open_door d]) \<or> N = [Player_blink])
           \<and> (Apply_move_time_taken \<in> set N \<longrightarrow> you_turn_is_over st')
           \<and> (N = [Apply_move_time_taken] \<longrightarrow>
                \<not> you_confused st \<and> you_lunging st
                \<and> (\<exists>s. lunge_forward e move st = Inr (Success, s)))"
  using marks_move_player_action [OF assms] unfolding one_outcome_def .

theorem move_player_action_outcome_witness:
  "\<not> feat_is_closed_door (ter floor_env) DNGN_FLOOR
   \<and> move_player_action floor_env (1, 0) start_game
     = Inr (start_game\<lparr>you_pos := (6, 5), you_turn_is_over := True,
              you_apply_berserk_penalty := True,
              trace := [Clear_travel_trail, Stop_directly_constricting_all,
                        Move_player_to_grid (6, 5), Apply_move_time_taken,
                        Request_autopickup, Update_acrobat_status]\<rparr>)
   \<and> filter outcome_mark [Clear_travel_trail, Stop_directly_constricting_all,
                        Move_player_to_grid (6, 5), Apply_move_time_taken,
                        Request_autopickup, Update_acrobat_status]
       = [Apply_move_time_taken, Request_autopickup]
   \<and> move_player_action reluctant_env (1, 0) lunger
     = Inr (lunger\<lparr>you_pos := (6, 5), you_turn_is_over := True,
              you_apply_berserk_penalty := True,
              trace := [Stop_directly_constricting_all, Clear_messages,
                        Mpr ''You lunge towards %s!'', Move_player_to_grid (6, 5),
                        Stop_running, Apply_move_time_taken, Update_acrobat_status]\<rparr>)
   \<and> \<not> you_confused lunger \<and> you_lunging lunger
   \<and> (\<exists>s. lunge_forward reluctant_env (1, 0) lunger = Inr (Success, s))"
proof -
  have f: "\<not> feat_is_closed_door (ter floor_env) DNGN_FLOOR"
    "\<not> feat_is_closed_door (ter reluctant_env) DNGN_FLOOR"
    by (simp_all add: scenario_defs example_defs)
  have d: "\<forall>c. can_pass_through (act floor_env) c \<longrightarrow>
               \<not> feat_is_closed_door (ter floor_env) (grd start_game c)"
    "\<forall>c. can_pass_through (act reluctant_env) c \<longrightarrow>
               \<not> feat_is_closed_door (ter reluctant_env) (grd lunger c)"
    by (simp_all add: scenario_defs example_defs)
  have a: "move_player_action floor_env (1, 0) start_game
     = Inr (start_game\<lparr>you_pos := (6, 5), you_turn_is_over := True,
              you_apply_berserk_penalty := True,
              trace := [Clear_travel_trail, Stop_directly_constricting_all,
                        Move_player_to_grid (6, 5), Apply_move_time_taken,
                        Request_autopickup, Update_acrobat_status]\<rparr>)"
    by (simp add: example_defs move_defs)
  have b: "move_player_action reluctant_env (1, 0) lunger
     = Inr (lunger\<lparr>you_pos := (6, 5), you_turn_is_over := True,
              you_apply_berserk_penalty := True,
              trace := [Stop_directly_constricting_all, Clear_messages,
                        Mpr ''You lunge towards %s!'', Move_player_to_grid (6, 5),
                        Stop_running, Apply_move_time_taken, Update_acrobat_status]\<rparr>)"
    by (simp add: scenario_defs example_defs move_defs)
  from move_player_action_outcome [OF b d(2) f(2)] obtain N where
    n: "filter outcome_mark [Stop_directly_constricting_all, Clear_messages,
                        Mpr ''You lunge towards %s!'', Move_player_to_grid (6, 5),
                        Stop_running, Apply_move_time_taken, Update_acrobat_status]
          = filter outcome_mark (trace lunger) @ N"
    and l: "N = [Apply_move_time_taken] \<longrightarrow>
              \<not> you_confused lunger \<and> you_lunging lunger
              \<and> (\<exists>s. lunge_forward reluctant_env (1, 0) lunger = Inr (Success, s))"
    by auto
  from n have "N = [Apply_move_time_taken]" by (simp add: example_defs)
  with l have "\<not> you_confused lunger \<and> you_lunging lunger
              \<and> (\<exists>s. lunge_forward reluctant_env (1, 0) lunger = Inr (Success, s))" by simp
  with move_player_action_outcome [OF a d(1) f(1)] a b f show ?thesis by simp
qed

text \<open>
  The claim as stated fails on the bump of a confused player: on a level where no cell can
  be passed through, the move of a confused player ends the turn with "You bump into %s."
  and the time accounting never runs.
\<close>

theorem confused_bump_counterexample:
  "move_player_action bump_env (1, 0) confused_player
     = Inr (confused_player\<lparr>you_turn_is_over := True, you_apply_berserk_penalty := True,
              rng_used := 1, trace := [Mpr ''You bump into %s.'', Cancel_cmd_repeat]\<rparr>)
   \<and> Apply_move_time_taken \<notin> set [Mpr ''You bump into %s.'', Cancel_cmd_repeat]"
  by (simp add: bump_env_def example_defs move_defs)

subsection \<open>Blocks that leave no notable event\<close>

lemma quiet_finalize_cancelled_lunge_move:
  assumes "\<forall>ev. P ev \<longrightarrow> notable ev" "\<forall>ev. outcome_mark ev \<longrightarrow> \<not> P ev"
  shows "filter P (trace (finalize_cancelled_lunge_move e ip st)) = filter P (trace st)"
  using assms(2) by (simp add: trace_finalize_cancelled_lunge_move [OF assms(1)])

lemma quiet_cancel_move:
  assumes "\<forall>ev. P ev \<longrightarrow> notable ev" "\<forall>ev. outcome_mark ev \<longrightarrow> \<not> P ev"
  shows "filter P (trace (cancel_move e l ip st)) = filter P (trace st)"
  using assms(2) by (simp add: trace_cancel_move [OF assms(1)])

lemma quiet_resolve_occupant:
  assumes "\<forall>ev. P ev \<longrightarrow> notable ev" "\<forall>ev. outcome_mark ev \<longrightarrow> \<not> P ev"
  shows "resolve_occupant e l ip targ tm tts restr st = Return st' \<Longrightarrow>
           filter P (trace st') = filter P (trace st)"
    and "resolve_occupant e l ip targ tm tts restr st = Continue fl st' \<Longrightarrow>
           filter P (trace st') = filter P (trace st)"
proof -
  have nf: "\<not> P (Fight_melee m)" for m using assms(2) by auto
  note q = quiet_emit [OF assms(1)] quiet_stop_running [OF assms(1)] quiet_cancel_move [OF assms]
  show "resolve_occupant e l ip targ tm tts restr st = Return st' \<Longrightarrow>
           filter P (trace st') = filter P (trace st)"
    by (auto simp: resolve_occupant_def q split: option.splits if_splits prod.splits
        dest: quiet_fungus_nervous(1) [OF assms(1)])
  show "resolve_occupant e l ip targ tm tts restr st = Continue fl st' \<Longrightarrow>
           filter P (trace st') = filter P (trace st)"
    by (auto simp: resolve_occupant_def q nf emit_def split: option.splits if_splits prod.splits
        dest: quiet_fungus_nervous(2) [OF assms(1)])
qed

lemma swap_flag_resolve_occupant:
  "resolve_occupant e l ip targ tm tts restr st = Continue (a, m, sw, d) st' \<Longrightarrow>
   sw \<longrightarrow> tts \<and> \<not> restr \<and> tm \<noteq> None"
  by (auto simp: resolve_occupant_def fungus_nervous_def
      split: option.splits if_splits prod.splits)

lemma quiet_walk_commit:
  assumes "\<forall>ev. P ev \<longrightarrow> notable ev" "\<forall>ev. outcome_mark ev \<longrightarrow> \<not> P ev"
    and "(\<forall>ev. swap_event ev \<longrightarrow> \<not> P ev) \<or> \<not> sw"
    and "walk_commit e targ tp tm sw d st = Inr fl"
  shows "\<exists>st'. fl = Continue (0, 0) st' \<and> filter P (trace st') = filter P (trace st)"
proof -
  have nm: "\<not> P Apply_move_time_taken" "\<not> P Request_autopickup" using assms(2) by auto
  from filter_walk_commit [OF assms(1,3,4)] nm show ?thesis by auto
qed

lemma quiet_walk_block:
  assumes "\<forall>ev. P ev \<longrightarrow> notable ev" "\<forall>ev. outcome_mark ev \<longrightarrow> \<not> P ev"
    and "(\<forall>ev. swap_event ev \<longrightarrow> \<not> P ev) \<or> \<not> sw"
    and "walk_block e l ip mv targ tp tm (a, m, sw, d) restr st = Inr fl"
  shows "(\<forall>st'. fl = Return st' \<longrightarrow> filter P (trace st') = filter P (trace st))
       \<and> (\<forall>mv' st'. fl = Continue mv' st' \<longrightarrow> filter P (trace st') = filter P (trace st))"
proof (cases "\<not> a \<and> tp \<and> m \<and> \<not> restr")
  case False
  with assms(4) show ?thesis by (auto simp: walk_block_def)
next
  case True
  show ?thesis
    using assms(4) True
    by (auto simp: walk_block_def mpr_def quiet_emit [OF assms(1)] quiet_cancel_move [OF assms(1,2)]
        split: if_splits prod.splits bool.splits
        dest!: quiet_walk_commit [OF assms(1,2,3)] quiet_cancel_barbed_move [OF assms(1)])
qed

lemma quiet_move_alternate:
  assumes "\<forall>ev. P ev \<longrightarrow> notable ev" "\<forall>ev. outcome_mark ev \<longrightarrow> \<not> P ev"
    and "(\<forall>s. \<not> P (Mpr s)) \<or> you_confused st \<and> \<not> beh \<and> \<not> fm"
    and "move_alternate e mv targ tp a beh fm st = Inr fl"
  shows "(\<forall>st'. fl = Return st' \<longrightarrow> filter P (trace st') = filter P (trace st))
       \<and> (\<forall>u st'. fl = Continue u st' \<longrightarrow> st' = st)"
proof -
  have nb: "\<not> P Player_blink" using assms(2) by auto
  have nd: "\<forall>p. \<not> P (Player_open_door p)" using assms(2) by auto
  have door: "filter P (trace s') = filter P (trace st)"
    if "open_door_action e mv st = Inr s'" for s'
    using assms(3) that quiet_open_door_action [OF assms(1) _ nd that]
      quiet_open_door_action_confused [OF assms(1) _ that] by blast
  have msg: "filter P (trace (mpr s st)) = filter P (trace st)"
    if "beh \<or> fm" for s
    using assms(3) that by (auto simp: mpr_def emit_def)
  show ?thesis
    using assms(4) nb
    by (auto simp: move_alternate_def Let_def mpr_def canned_msg_def quiet_emit [OF assms(1)]
        quiet_stop_running [OF assms(1)] trace_entered_malign_portal [OF assms(1)]
        msg [unfolded mpr_def]
        split: if_splits sum.splits dest: door)
qed

lemma frame_walk_through_plants:
  "you_pos (walk_through_plants e t st) = you_pos st
   \<and> you_confused (walk_through_plants e t st) = you_confused st
   \<and> you_turn_is_over (walk_through_plants e t st) = you_turn_is_over st"
  by (simp add: walk_through_plants_def Let_def mpr_def emit_def draws_defs
      split: option.splits)

lemma frame_dig_check:
  "dig_check e t tp st = (tp', st') \<Longrightarrow>
   you_pos st' = you_pos st \<and> you_confused st' = you_confused st
   \<and> you_turn_is_over st' = you_turn_is_over st \<and> you_time_taken st' = you_time_taken st"
  by (auto simp: dig_check_def mpr_def emit_def split: if_splits)

lemma try_to_swap_frame:
  "you_pos st' = you_pos st \<Longrightarrow> you_confused st' = you_confused st \<Longrightarrow>
   try_to_swap e t tm st' = try_to_swap e t tm st"
  by (simp add: try_to_swap_def split: option.splits)

lemma confused_apply_barbs_damage:
  "you_confused (apply_barbs_damage e l st) = you_confused st"
  by (simp add: apply_barbs_damage_def barbs_snap_def barbs_hurt_def Let_def emit_def
      set_duration_def draws_defs)

lemma confused_walk_step:
  assumes "walk_step e t tp st = Inr st'"
  shows "you_confused st' = you_confused st"
proof (cases "you_pos st \<noteq> t \<and> tp")
  case False
  with assms show ?thesis by (auto simp: walk_step_def)
next
  case True
  from assms True obtain s4 where
    a: "apply_noxious_bog e (you_pos st)
          (remove_ice_armour_movement (apply_barbs_damage e False
            (move_player_to_grid t (clear_constriction_data (remove_water_hold st))))) = Inr s4"
    and b: "apply_cloud_trail e (you_pos st) s4 = Inr st'"
    by (auto simp: walk_step_def Let_def split: sum.splits)
  have "you_confused s4 = you_confused st"
    using a
    by (auto simp: apply_noxious_bog_def remove_ice_armour_movement_def set_duration_def
        confused_apply_barbs_damage move_player_to_grid_def clear_constriction_data_def
        remove_water_hold_def mpr_def emit_def Let_def split: if_splits)
  moreover have "you_confused st' = you_confused s4"
    using b by (auto simp: apply_cloud_trail_def emit_def draws_defs split: if_splits)
  ultimately show ?thesis by simp
qed

lemma confused_swap_places:
  "swap_places e m loc st = Inr st' \<Longrightarrow> you_confused st' = you_confused st"
  by (auto simp: swap_places_def mpr_def emit_def split: if_splits option.splits)

lemma confused_apply_move_time_taken:
  "you_confused (apply_move_time_taken e a st) = you_confused st"
  by (simp add: apply_move_time_taken_def Let_def emit_def draws_defs set_duration_def)

lemma confused_walk_commit:
  assumes "walk_commit e targ tp tm sw d st = Inr (Continue mv' st')"
  shows "you_confused st' = you_confused st"
proof -
  from assms obtain st1 st2 a where
    s1: "swap_if e tm sw d (dig_through targ st) = Inr st1"
    and s2: "walk_step e targ tp (start_trail e st1) = Inr st2"
    and fl: "Continue mv' st' = Continue (0, 0)
            (emit Request_autopickup
               ((apply_move_time_taken e a (extend_trail e (swappee_effects tm sw targ st2)))
                  \<lparr>you_turn_is_over := True\<rparr>))"
    by (rule walk_commit_steps)
  have "you_confused st1 = you_confused st"
    using s1 confused_swap_places
    by (auto simp: swap_if_def dig_through_def destroy_wall_def mpr_def emit_def
        split: option.splits if_splits)
  moreover have "you_confused st2 = you_confused st1"
    using confused_walk_step [OF s2] by (simp add: start_trail_def clear_travel_trail_def emit_def)
  ultimately show ?thesis
    using fl
    by (simp add: emit_def confused_apply_move_time_taken extend_trail_def swappee_effects_def
        split: option.splits)
qed

lemma confused_walk_block:
  "walk_block e l ip mv targ tp tm fl restr st = Inr (Continue mv' st') \<Longrightarrow>
   you_confused st' = you_confused st"
  by (auto simp: walk_block_def split: if_splits prod.splits bool.splits
      dest!: confused_walk_commit cancel_barbed_move_frame)

lemma quiet_move_player_resolve:
  assumes pn: "\<forall>ev. P ev \<longrightarrow> notable ev" and pm: "\<forall>ev. outcome_mark ev \<longrightarrow> \<not> P ev"
    and msg: "(\<forall>s. \<not> P (Mpr s)) \<or> you_confused st"
    and swp: "(\<forall>ev. swap_event ev \<longrightarrow> \<not> P ev)
              \<or> \<not> try_to_swap e (coord_add (you_pos st) mv)
                     (if plant_passthrough e (coord_add (you_pos st) mv) st then None
                      else monster_at (act e) (coord_add (you_pos st) mv)) st"
    and run: "move_player_resolve e l ip mv st = Inr st'"
  shows "filter P (trace st') = filter P (trace st)"
proof (cases "in_bounds (ter e) (coord_add (you_pos st) mv)")
  case False
  with run show ?thesis
    by (auto simp: move_player_resolve_def Let_def mpr_def quiet_emit [OF pn])
next
  case inb: True
  let ?targ = "coord_add (you_pos st) mv"
  let ?tm = "if plant_passthrough e ?targ st then None else monster_at (act e) ?targ"
  let ?st1 = "walk_through_plants e ?targ st"
  obtain tp st2 where dc:
    "dig_check e ?targ (can_pass_through (act e) ?targ \<and> \<not> you_stationary ?st1) ?st1 = (tp, st2)"
    by (cases "dig_check e ?targ (can_pass_through (act e) ?targ \<and> \<not> you_stationary ?st1) ?st1")
  have m2: "filter P (trace st2) = filter P (trace st)"
    using quiet_dig_check [OF pn dc] by (simp add: quiet_walk_through_plants [OF pn])
  have f2: "you_pos st2 = you_pos st" "you_confused st2 = you_confused st"
    using frame_dig_check [OF dc] frame_walk_through_plants [of e ?targ st] by simp_all
  let ?beh = "\<not> you_confused st2 \<and> get_beholder (act e) ?targ \<noteq> None"
  let ?fm = "\<not> you_confused st2 \<and> get_fearmonger (act e) ?targ \<noteq> None"
  let ?tts = "try_to_swap e ?targ ?tm st2"
  have tts: "?tts = try_to_swap e ?targ ?tm st" using f2 by (rule try_to_swap_frame)
  show ?thesis
  proof (cases "check_stop_running (act e)")
    case True
    with run inb dc have "st' = (if l then finalize_cancelled_lunge_move e ip st2
                                 else st2\<lparr>you_turn_is_over := False\<rparr>)"
      by (auto simp: move_player_resolve_def Let_def)
    then show ?thesis
      using m2 by (auto simp: quiet_finalize_cancelled_lunge_move [OF pn pm])
  next
    case nostop: False
    let ?occ = "resolve_occupant e l ip ?targ ?tm ?tts (?beh \<or> ?fm) st2"
    show ?thesis
    proof (cases ?occ)
      case (Return st3)
      with run inb dc nostop have "st' = st3"
        by (auto simp: move_player_resolve_def Let_def)
      with quiet_resolve_occupant(1) [OF pn pm Return] m2 show ?thesis by simp
    next
      case (Continue flags st3)
      obtain a m sw d where fl: "flags = (a, m, sw, d)" by (cases flags) auto
      have m3: "filter P (trace st3) = filter P (trace st)"
        using quiet_resolve_occupant(2) [OF pn pm Continue] m2 by simp
      have sw: "(\<forall>ev. swap_event ev \<longrightarrow> \<not> P ev) \<or> \<not> sw"
        using swap_flag_resolve_occupant [OF Continue [unfolded fl]] swp tts by blast
      let ?wb = "walk_block e l ip mv ?targ tp ?tm flags (?beh \<or> ?fm) st3"
      from run inb dc nostop Continue obtain fl4 where wb: "?wb = Inr fl4"
        by (auto simp: move_player_resolve_def Let_def split: sum.splits)
      note wbm = quiet_walk_block [OF pn pm sw wb [unfolded fl]]
      show ?thesis
      proof (cases fl4)
        case (Return st4)
        with run inb dc nostop Continue wb have "st' = st4"
          by (auto simp: move_player_resolve_def Let_def)
        with wbm Return m3 show ?thesis by simp
      next
        case c4: (Continue mv4 st4)
        with wbm m3 have m4: "filter P (trace st4) = filter P (trace st)" by simp
        have c3: "you_confused st3 = you_confused st2"
          using Continue
          by (auto simp: resolve_occupant_def fungus_nervous_def stop_running_def emit_def
              split: option.splits if_splits prod.splits)
        have c4': "you_confused st4 = you_confused st3"
          using wb c4 by (auto dest: confused_walk_block)
        let ?alt = "move_alternate e mv4 ?targ tp a ?beh ?fm st4"
        from run inb dc nostop Continue wb c4 fl obtain fl5 where alt: "?alt = Inr fl5"
          by (auto simp: move_player_resolve_def Let_def split: sum.splits)
        have pre: "(\<forall>s. \<not> P (Mpr s)) \<or> you_confused st4 \<and> \<not> ?beh \<and> \<not> ?fm"
          using msg f2 c3 c4' by auto
        note altm = quiet_move_alternate [OF pn pm pre alt]
        have st5: "(\<exists>s5. fl5 = Return s5 \<and> st' = s5)
                   \<or> (\<exists>u. fl5 = Continue u st4 \<and> st' = move_epilogue e l ip a m st4)"
          using run inb dc nostop Continue wb c4 fl alt altm
          by (cases fl5) (auto simp: move_player_resolve_def Let_def)
        with altm m4 show ?thesis
          by (auto simp: quiet_move_epilogue [OF pn])
      qed
    qed
  qed
qed

section \<open>Restraint, refusal, swap and attack\<close>

lemma confused_confused_move:
  "confused_move e mv st = Continue mv' st' \<Longrightarrow> you_confused st' = you_confused st"
  by (auto simp: confused_move_def confused_bump_def Let_def draws_defs
      split: if_splits prod.splits bool.splits
      dest!: cancel_barbed_move_frame cancel_confused_move_frame)

lemma lunge_forward_confused:
  "you_confused st \<Longrightarrow> lunge_forward e mv st = Inr (r, st') \<Longrightarrow>
   r = Fail \<and> you_confused st'"
  by (auto simp: lunge_forward_def emit_def split: if_splits)

lemma restraint_notable: "\<forall>ev. restraint_message ev \<longrightarrow> notable ev"
  by (simp add: notable_def)

lemma restraint_not_mark: "\<forall>ev. outcome_mark ev \<longrightarrow> \<not> restraint_message ev"
proof (intro allI impI)
  fix ev assume "outcome_mark ev"
  then show "\<not> restraint_message ev" by (cases ev) (simp_all add: restraint_message_def)
qed

lemma restraint_not_swap: "\<forall>ev. swap_event ev \<longrightarrow> \<not> restraint_message ev"
proof (intro allI impI)
  fix ev assume "swap_event ev"
  then show "\<not> restraint_message ev" by (cases ev) (simp_all add: restraint_message_def)
qed

subsection \<open>A confused player and the restraints\<close>

lemma unrestrained_simps:
  "cstate (unrestrained e) = cstate e"
  "opts (unrestrained e) = opts e"
  "ter (unrestrained e) = ter e"
  "ask (unrestrained e) = ask e"
  "rng_draws (unrestrained e) = rng_draws e"
  "monster_at (act (unrestrained e)) = monster_at (act e)"
  "can_pass_through (act (unrestrained e)) = can_pass_through (act e)"
  "trans_wall_blocking (act (unrestrained e)) = trans_wall_blocking (act e)"
  "get_beholder (act (unrestrained e)) = (\<lambda>c. None)"
  "get_fearmonger (act (unrestrained e)) = (\<lambda>c. None)"
  "bad_attack (act (unrestrained e)) = bad_attack (act e)"
  "swap_check (act (unrestrained e)) = swap_check (act e)"
  "monster_habitable_grid (act (unrestrained e)) = monster_habitable_grid (act e)"
  "attempt_escape (act (unrestrained e)) = attempt_escape (act e)"
  "check_stop_running (act (unrestrained e)) = check_stop_running (act e)"
  "beam_path_taken (act (unrestrained e)) = beam_path_taken (act e)"
  "player_movement_speed (act (unrestrained e)) = player_movement_speed (act e)"
  "player_in_abyss (act (unrestrained e)) = player_in_abyss (act e)"
  "you_worship (act (unrestrained e)) = you_worship (act e)"
  "form_keeps_mutations (act (unrestrained e)) = form_keeps_mutations (act e)"
  "delay_is_run (act (unrestrained e)) = delay_is_run (act e)"
  "you_run (act (unrestrained e)) = you_run (act e)"
  "wu_jian_attacked (act (unrestrained e)) = wu_jian_attacked (act e)"
  "spikes_extracted (act (unrestrained e)) = spikes_extracted (act e)"
  "cloud_trail_is_none (act (unrestrained e)) = cloud_trail_is_none (act e)"
  by (simp_all add: unrestrained_def)

lemma unrestrained_cancel_confused_loop:
  "cancel_confused_loop (unrestrained e) st s cells v = cancel_confused_loop e st s cells v"
  by (induction cells arbitrary: v) (simp_all add: unrestrained_simps Let_def
      cong: if_cong option.case_cong sum.case_cong prod.case_cong flow.case_cong spret.case_cong
        bool.case_cong)

lemma unrestrained_check_adjacent_loop:
  "check_adjacent_loop (unrestrained e) st f cells doors n d
     = check_adjacent_loop e st f cells doors n d"
  by (induction cells arbitrary: doors n d) (simp_all add: unrestrained_simps
      cong: if_cong option.case_cong sum.case_cong prod.case_cong flow.case_cong spret.case_cong
        bool.case_cong)

lemma unrestrained_prims:
  "next_draw (unrestrained e) = next_draw e"
  "roll_dice2 (unrestrained e) = roll_dice2 e"
  "adjacent_iterator (unrestrained e) = adjacent_iterator e"
  "not_in_rock (unrestrained e) = not_in_rock e"
  "walkverb (unrestrained e) = walkverb e"
  "plant_passthrough (unrestrained e) = plant_passthrough e"
  "try_to_swap (unrestrained e) = try_to_swap e"
  "start_trail (unrestrained e) = start_trail e"
  "extend_trail (unrestrained e) = extend_trail e"
  "prompt_dangerous_portal (unrestrained e) = prompt_dangerous_portal e"
  "cancel_barbed_move (unrestrained e) = cancel_barbed_move e"
  "apply_noxious_bog (unrestrained e) = apply_noxious_bog e"
  "swap_places (unrestrained e) = swap_places e"
  "dig_check (unrestrained e) = dig_check e"
  by (simp_all add: fun_eq_iff next_draw_def roll_dice2_def adjacent_iterator_def
      not_in_rock_def walkverb_def plant_passthrough_def try_to_swap_def start_trail_def
      extend_trail_def prompt_dangerous_portal_def cancel_barbed_move_def
      apply_noxious_bog_def swap_places_def dig_check_def unrestrained_simps Let_def
      cong: if_cong option.case_cong sum.case_cong prod.case_cong flow.case_cong spret.case_cong
        bool.case_cong)

lemma unrestrained_steps:
  "apply_move_time_taken (unrestrained e) = apply_move_time_taken e"
  "check_adjacent (unrestrained e) = check_adjacent e"
  "entered_malign_portal (unrestrained e) = entered_malign_portal e"
  "barbs_hurt (unrestrained e) = barbs_hurt e"
  "barbs_snap (unrestrained e) = barbs_snap e"
  "apply_cloud_trail (unrestrained e) = apply_cloud_trail e"
  "cancel_confused_move (unrestrained e) = cancel_confused_move e"
  "open_door_at (unrestrained e) = open_door_at e"
  "confused_bump (unrestrained e) = confused_bump e"
  "swap_if (unrestrained e) = swap_if e"
  "hasty_conduct (unrestrained e) = hasty_conduct e"
  "walk_through_plants (unrestrained e) = walk_through_plants e"
  by (simp_all add: fun_eq_iff apply_move_time_taken_def check_adjacent_def
      entered_malign_portal_def barbs_hurt_def barbs_snap_def apply_cloud_trail_def
      cancel_confused_move_def open_door_at_def confused_bump_def swap_if_def
      hasty_conduct_def walk_through_plants_def
      unrestrained_simps unrestrained_prims unrestrained_cancel_confused_loop
      unrestrained_check_adjacent_loop Let_def
      cong: if_cong option.case_cong sum.case_cong prod.case_cong flow.case_cong spret.case_cong
        bool.case_cong)

lemma unrestrained_blocks:
  "apply_barbs_damage (unrestrained e) = apply_barbs_damage e"
  "open_door_action (unrestrained e) = open_door_action e"
  "finalize_cancelled_lunge_move (unrestrained e) = finalize_cancelled_lunge_move e"
  "confused_move (unrestrained e) = confused_move e"
  "move_epilogue (unrestrained e) = move_epilogue e"
  "move_alternate (unrestrained e) = move_alternate e"
  by (simp_all add: fun_eq_iff apply_barbs_damage_def open_door_action_def
      finalize_cancelled_lunge_move_def confused_move_def move_epilogue_def
      move_alternate_def Let_def
      unrestrained_simps unrestrained_prims unrestrained_steps
      cong: if_cong option.case_cong sum.case_cong prod.case_cong flow.case_cong spret.case_cong
        bool.case_cong)

lemma unrestrained_walk:
  "walk_step (unrestrained e) = walk_step e"
  "cancel_move (unrestrained e) = cancel_move e"
  by (simp_all add: fun_eq_iff walk_step_def cancel_move_def Let_def
      unrestrained_simps unrestrained_prims unrestrained_steps unrestrained_blocks
      cong: if_cong option.case_cong sum.case_cong prod.case_cong flow.case_cong spret.case_cong
        bool.case_cong)

lemma unrestrained_commit:
  "walk_commit (unrestrained e) = walk_commit e"
  "resolve_occupant (unrestrained e) = resolve_occupant e"
  by (simp_all add: fun_eq_iff walk_commit_def resolve_occupant_def Let_def
      unrestrained_simps unrestrained_prims unrestrained_steps unrestrained_blocks
      unrestrained_walk
      cong: if_cong option.case_cong sum.case_cong prod.case_cong flow.case_cong spret.case_cong
        bool.case_cong)

lemma unrestrained_walk_block:
  "walk_block (unrestrained e) = walk_block e"
  by (simp add: fun_eq_iff walk_block_def
      unrestrained_simps unrestrained_prims unrestrained_walk unrestrained_commit
      cong: if_cong option.case_cong sum.case_cong prod.case_cong flow.case_cong spret.case_cong
        bool.case_cong)

lemma unrestrained_lunge_forward:
  "you_confused st \<Longrightarrow> lunge_forward (unrestrained e) mv st = lunge_forward e mv st"
  by (simp add: lunge_forward_def unrestrained_simps)

lemma unrestrained_move_player_resolve:
  assumes conf: "you_confused st"
  shows "move_player_resolve (unrestrained e) l ip mv st = move_player_resolve e l ip mv st"
proof -
  let ?targ = "coord_add (you_pos st) mv"
  let ?st1 = "walk_through_plants e ?targ st"
  obtain tp st2 where dc:
    "dig_check e ?targ (can_pass_through (act e) ?targ \<and> \<not> you_stationary ?st1) ?st1 = (tp, st2)"
    by (cases "dig_check e ?targ (can_pass_through (act e) ?targ \<and> \<not> you_stationary ?st1) ?st1")
  have c2: "you_confused st2"
    using frame_dig_check [OF dc] frame_walk_through_plants [of e ?targ st] conf by simp
  show ?thesis
    by (simp add: move_player_resolve_def Let_def dc c2 unrestrained_simps unrestrained_prims
        unrestrained_steps unrestrained_blocks unrestrained_walk unrestrained_commit
        unrestrained_walk_block
        cong: if_cong option.case_cong sum.case_cong prod.case_cong flow.case_cong spret.case_cong
        bool.case_cong)
qed

lemma unrestrained_lunge_then_move:
  assumes conf: "you_confused st"
  shows "lunge_then_move (unrestrained e) ip mv st = lunge_then_move e ip mv st"
proof (cases "lunge_forward e mv st")
  case (Inl err)
  then show ?thesis
    by (simp add: lunge_then_move_def unrestrained_lunge_forward [OF conf]
        unrestrained_move_player_resolve [OF conf]
        cong: if_cong option.case_cong sum.case_cong prod.case_cong flow.case_cong spret.case_cong
        bool.case_cong)
next
  case (Inr p)
  obtain r st1 where p: "p = (r, st1)" by (cases p)
  from lunge_forward_confused [OF conf Inr [unfolded p]] have c1: "you_confused st1" by simp
  show ?thesis
    by (simp add: lunge_then_move_def unrestrained_lunge_forward [OF conf] Inr p
        unrestrained_move_player_resolve [OF conf] unrestrained_move_player_resolve [OF c1]
        unrestrained_prims
        cong: if_cong option.case_cong sum.case_cong prod.case_cong flow.case_cong spret.case_cong
        bool.case_cong)
qed

lemma unrestrained_move_player_action:
  assumes conf: "you_confused st"
  shows "move_player_action (unrestrained e) move st = move_player_action e move st"
proof (cases "confused_move e move st")
  case (Return st1)
  then show ?thesis
    by (simp add: move_player_action_def Let_def unrestrained_simps unrestrained_prims
        unrestrained_blocks
        cong: if_cong option.case_cong sum.case_cong prod.case_cong flow.case_cong spret.case_cong
        bool.case_cong)
next
  case (Continue mv1 st1)
  from confused_confused_move [OF Continue] conf have c1: "you_confused st1" by simp
  show ?thesis
    by (simp add: move_player_action_def Let_def unrestrained_simps unrestrained_prims
        unrestrained_blocks Continue unrestrained_lunge_then_move [OF c1]
        cong: if_cong option.case_cong sum.case_cong prod.case_cong flow.case_cong spret.case_cong
        bool.case_cong)
qed

lemma confused_no_restraint_message:
  assumes conf: "you_confused st" and run: "move_player_action e move st = Inr st'"
  shows "filter restraint_message (trace st') = filter restraint_message (trace st)"
proof (cases "held st")
  case True
  with run show ?thesis
    by (auto simp: move_player_action_def quiet_emit [OF restraint_notable] split: if_splits)
next
  case False
  show ?thesis
  proof (cases "confused_move e move st")
    case (Return st1)
    with run False have "st' = st1"
      by (auto simp: move_player_action_def split: if_splits)
    with quiet_confused_move(1) [OF restraint_notable Return] show ?thesis by simp
  next
    case (Continue mv1 st1)
    note q1 = quiet_confused_move(2) [OF restraint_notable Continue]
    have c1: "you_confused st1" using confused_confused_move [OF Continue] conf by simp
    from Continue run False have ltm: "lunge_then_move e (you_pos st) mv1 st1 = Inr st'"
      by (auto simp: move_player_action_def split: if_splits)
    have res: "filter restraint_message (trace s') = filter restraint_message (trace s)"
      if "you_confused s" "move_player_resolve e l ip mv1 s = Inr s'" for s s' l ip
      using quiet_move_player_resolve [OF restraint_notable restraint_not_mark _ _ that(2)]
        that(1) restraint_not_swap by blast
    show ?thesis
    proof (cases "you_lunging st1")
      case nl: False
      with ltm have "move_player_resolve e False (you_pos st) mv1 st1 = Inr st'"
        by (simp add: lunge_then_move_def)
      from res [OF c1 this] q1 show ?thesis by simp
    next
      case True
      with ltm obtain r st2 where lf: "lunge_forward e mv1 st1 = Inr (r, st2)"
        by (auto simp: lunge_then_move_def split: sum.splits)
      note q2 = quiet_lunge_forward [OF restraint_notable lf]
      from lunge_forward_confused [OF c1 lf] have r: "r = Fail" and c2: "you_confused st2"
        by simp_all
      from ltm True lf r have "move_player_resolve e False (you_pos st) mv1 st2 = Inr st'"
        by (auto simp: lunge_then_move_def split: if_splits)
      from res [OF c2 this] q1 q2 show ?thesis by simp
    qed
  qed
qed

text \<open>
  Claim C10. A confused player is never held back by a beholder or a fearmonger:
  whatever \<^verbatim>\<open>get_beholder\<close> and \<^verbatim>\<open>get_fearmonger\<close> answer, a call of
  \<^verbatim>\<open>move_player_action\<close> on a confused player has the very result it has when both
  answer that nothing restrains the player, and when it returns it has added neither "You
  cannot move away from %s!" nor "You cannot move closer to %s!" to the trace.
\<close>

theorem confused_player_never_restrained:
  assumes "you_confused st"
  shows "move_player_action e move st = move_player_action (unrestrained e) move st
         \<and> (\<forall>st'. move_player_action e move st = Inr st' \<longrightarrow>
               filter restraint_message (trace st') = filter restraint_message (trace st))"
  using unrestrained_move_player_action [OF assms, of e move]
    confused_no_restraint_message [OF assms, of e move] by simp

theorem confused_player_never_restrained_witness:
  "you_confused confused_player
   \<and> get_beholder (act siren_env) (6, 5) = Some rat
   \<and> move_player_action siren_env (1, 0) confused_player
       = Inr (confused_player\<lparr>you_pos := (6, 5), you_turn_is_over := True,
                you_apply_berserk_penalty := True, rng_used := 1,
                trace := [Clear_travel_trail, Stop_directly_constricting_all,
                          Move_player_to_grid (6, 5), Apply_move_time_taken,
                          Request_autopickup, Update_acrobat_status]\<rparr>)
   \<and> move_player_action (unrestrained siren_env) (1, 0) confused_player
       = Inr (confused_player\<lparr>you_pos := (6, 5), you_turn_is_over := True,
                you_apply_berserk_penalty := True, rng_used := 1,
                trace := [Clear_travel_trail, Stop_directly_constricting_all,
                          Move_player_to_grid (6, 5), Apply_move_time_taken,
                          Request_autopickup, Update_acrobat_status]\<rparr>)
   \<and> filter restraint_message [Clear_travel_trail, Stop_directly_constricting_all,
                          Move_player_to_grid (6, 5), Apply_move_time_taken,
                          Request_autopickup, Update_acrobat_status] = []
   \<and> move_player_action siren_env (1, 0) start_game
       = Inr (start_game\<lparr>you_running := RMODE_NOT_RUNNING,
                trace := [Mpr ''You cannot move away from %s!'', Stop_running]\<rparr>)"
proof -
  have c: "you_confused confused_player" by (simp add: example_defs)
  have s: "get_beholder (act siren_env) (6, 5) = Some rat" by (simp add: scenario_defs)
  have a: "move_player_action siren_env (1, 0) confused_player
       = Inr (confused_player\<lparr>you_pos := (6, 5), you_turn_is_over := True,
                you_apply_berserk_penalty := True, rng_used := 1,
                trace := [Clear_travel_trail, Stop_directly_constricting_all,
                          Move_player_to_grid (6, 5), Apply_move_time_taken,
                          Request_autopickup, Update_acrobat_status]\<rparr>)"
    by (simp add: scenario_defs example_defs move_defs)
  have b: "move_player_action siren_env (1, 0) start_game
       = Inr (start_game\<lparr>you_running := RMODE_NOT_RUNNING,
                trace := [Mpr ''You cannot move away from %s!'', Stop_running]\<rparr>)"
    by (simp add: scenario_defs example_defs move_defs)
  from confused_player_never_restrained [OF c, of siren_env "(1, 0)"] a
  have "move_player_action (unrestrained siren_env) (1, 0) confused_player
       = Inr (confused_player\<lparr>you_pos := (6, 5), you_turn_is_over := True,
                you_apply_berserk_penalty := True, rng_used := 1,
                trace := [Clear_travel_trail, Stop_directly_constricting_all,
                          Move_player_to_grid (6, 5), Apply_move_time_taken,
                          Request_autopickup, Update_acrobat_status]\<rparr>)"
    and "filter restraint_message [Clear_travel_trail, Stop_directly_constricting_all,
                          Move_player_to_grid (6, 5), Apply_move_time_taken,
                          Request_autopickup, Update_acrobat_status]
           = filter restraint_message (trace confused_player)"
    by simp_all
  with a b c s show ?thesis by (simp add: example_defs)
qed

lemma move_player_action_no_lunge:
  "\<not> game_is_arena (cstate e) \<Longrightarrow> \<not> arena_suspended (cstate e) \<Longrightarrow> not_in_rock e st \<Longrightarrow>
   \<not> held st \<Longrightarrow> \<not> you_confused st \<Longrightarrow> \<not> you_lunging st \<Longrightarrow>
   move_player_action e move st = move_player_resolve e False (you_pos st) move st"
  by (simp add: move_player_action_def confused_move_def lunge_then_move_def)

lemma dig_check_cases:
  "dig_check e t tp st = (tp', st') \<Longrightarrow>
   st' = st \<or> st' = mpr ''You can't dig through that.'' (st\<lparr>you_digging := False\<rparr>)
   \<or> st' = mpr ''You retract your mandibles.'' (st\<lparr>you_digging := False\<rparr>)"
  by (auto simp: dig_check_def split: if_splits)

lemma resolve_occupant_refuse:
  "\<not> mons_submerged m \<Longrightarrow> mons_temp_neutral m \<Longrightarrow> mons_visible_to_you m \<Longrightarrow>
   \<not> you_confused st \<Longrightarrow> \<not> (tts \<and> \<not> restr) \<Longrightarrow>
   resolve_occupant e l ip targ (Some m) tts restr st
     = Return ((emit (Simple_monster_message m refusal) st)\<lparr>you_turn_is_over := False\<rparr>)"
  by (auto simp: resolve_occupant_def refusal_def)

text \<open>
  Claim C5, as the code has it. The move reaches the occupant of the target cell when the
  target is in bounds, the occupant is not a plant the player passes through, and the run
  is not stopped. Then, for a neutral occupant that is not submerged and is visible to a
  player who is not confused, with no swap applying, the move stops with the message that
  the monster refuses to make way: the turn flag is false, the position and the time taken
  are as before. A player who does not lunge reaches the occupant from
  \<^verbatim>\<open>move_player_action\<close> directly.
\<close>

theorem neutral_occupant_refuses:
  assumes targ: "targ = coord_add (you_pos st) move"
    and inb: "in_bounds (ter e) targ"
    and occ: "monster_at (act e) targ = Some m"
    and nopass: "\<not> (mons_passthrough m \<and> \<not> you_stationary st)"
    and nostop: "\<not> check_stop_running (act e)"
    and m: "\<not> mons_submerged m" "mons_temp_neutral m" "mons_visible_to_you m"
    and conf: "\<not> you_confused st"
    and noswap: "\<not> (try_to_swap e targ (Some m) st \<and> get_beholder (act e) targ = None
                     \<and> get_fearmonger (act e) targ = None)"
  shows "(\<exists>st'. move_player_resolve e lunged initial_position move st = Inr st'
            \<and> last (trace st') = Simple_monster_message m refusal
            \<and> \<not> you_turn_is_over st'
            \<and> you_pos st' = you_pos st
            \<and> you_time_taken st' = you_time_taken st)
         \<and> (\<not> game_is_arena (cstate e) \<and> \<not> arena_suspended (cstate e) \<and> not_in_rock e st
              \<and> \<not> held st \<and> \<not> you_lunging st
            \<longrightarrow> move_player_action e move st
                  = move_player_resolve e False (you_pos st) move st)"
proof -
  have pp: "\<not> plant_passthrough e targ st"
    using occ nopass by (simp add: plant_passthrough_def)
  then have w: "walk_through_plants e targ st = st"
    by (simp add: walk_through_plants_def)
  obtain tp st2 where dc:
    "dig_check e targ (can_pass_through (act e) targ \<and> \<not> you_stationary st) st = (tp, st2)"
    by (cases "dig_check e targ (can_pass_through (act e) targ \<and> \<not> you_stationary st) st")
  note f = frame_dig_check [OF dc]
  have tts: "try_to_swap e targ (Some m) st2 = try_to_swap e targ (Some m) st"
    using f by (intro try_to_swap_frame) simp_all
  have c2: "\<not> you_confused st2" using f conf by simp
  have ns: "\<not> (try_to_swap e targ (Some m) st2
               \<and> \<not> (get_beholder (act e) targ \<noteq> None \<or> get_fearmonger (act e) targ \<noteq> None))"
    using noswap tts by auto
  have "move_player_resolve e lunged initial_position move st
          = Inr ((emit (Simple_monster_message m refusal) st2)\<lparr>you_turn_is_over := False\<rparr>)"
    unfolding move_player_resolve_def Let_def targ [symmetric]
    using ns by (simp add: inb pp w dc occ nostop c2 m resolve_occupant_refuse)
  then show ?thesis
    using f conf move_player_action_no_lunge [of e st move]
    by (simp add: emit_def)
qed

theorem neutral_occupant_refuses_witness:
  "in_bounds (ter neutral_env) (6, 5)
   \<and> monster_at (act neutral_env) (6, 5) = Some bystander
   \<and> \<not> mons_passthrough bystander \<and> \<not> check_stop_running (act neutral_env)
   \<and> \<not> mons_submerged bystander \<and> mons_temp_neutral bystander
   \<and> mons_visible_to_you bystander \<and> \<not> you_confused start_game
   \<and> \<not> try_to_swap neutral_env (6, 5) (Some bystander) start_game
   \<and> move_player_action neutral_env (1, 0) start_game
       = Inr (start_game\<lparr>trace := [Simple_monster_message bystander refusal]\<rparr>)"
proof -
  have t: "(6, 5) = coord_add (you_pos start_game) (1, 0)"
    by (simp add: example_defs coord_add_def)
  have h: "in_bounds (ter neutral_env) (6, 5)"
    "monster_at (act neutral_env) (6, 5) = Some bystander"
    "\<not> (mons_passthrough bystander \<and> \<not> you_stationary start_game)"
    "\<not> check_stop_running (act neutral_env)"
    "\<not> mons_submerged bystander" "mons_temp_neutral bystander"
    "mons_visible_to_you bystander" "\<not> you_confused start_game"
    by (simp_all add: scenario_defs example_defs)
  have s: "\<not> try_to_swap neutral_env (6, 5) (Some bystander) start_game"
    by (simp add: try_to_swap_def scenario_defs example_defs)
  then have s': "\<not> (try_to_swap neutral_env (6, 5) (Some bystander) start_game
          \<and> get_beholder (act neutral_env) (6, 5) = None
          \<and> get_fearmonger (act neutral_env) (6, 5) = None)" by simp
  have r: "move_player_action neutral_env (1, 0) start_game
       = Inr (start_game\<lparr>trace := [Simple_monster_message bystander refusal]\<rparr>)"
    by (simp add: scenario_defs example_defs move_defs refusal_def)
  have p: "\<not> mons_passthrough bystander" by (simp add: scenario_defs example_defs)
  from neutral_occupant_refuses [OF t h s', of False "(5, 5)"] h p s r
  show ?thesis by simp
qed

text \<open>
  The claim as stated fails on a plant: the occupant is neutral, visible and not submerged,
  the player is not confused and no swap applies, yet the player passes through the plant:
  the position changes, the time taken is 15 and the turn is over. It fails as well when
  \<^verbatim>\<open>check_stop_running\<close> stops the run before the occupant is looked at: the move
  returns without any message.
\<close>

theorem neutral_plant_counterexample:
  "monster_at (act plant_env) (6, 5) = Some plant
   \<and> \<not> mons_submerged plant \<and> mons_temp_neutral plant \<and> mons_visible_to_you plant
   \<and> \<not> you_confused start_game
   \<and> \<not> try_to_swap plant_env (6, 5) (Some plant) start_game
   \<and> move_player_action plant_env (1, 0) start_game
       = Inr (start_game\<lparr>you_pos := (6, 5), you_time_taken := 15, you_turn_is_over := True,
                you_apply_berserk_penalty := True,
                trace := [Mpr ''You %s carefully through the %s.'', Clear_travel_trail,
                          Stop_directly_constricting_all, Move_player_to_grid (6, 5),
                          Apply_move_time_taken, Request_autopickup,
                          Update_acrobat_status]\<rparr>)
   \<and> monster_at (act halting_env) (6, 5) = Some bystander
   \<and> \<not> mons_submerged bystander \<and> mons_temp_neutral bystander
   \<and> mons_visible_to_you bystander
   \<and> \<not> try_to_swap halting_env (6, 5) (Some bystander) start_game
   \<and> move_player_action halting_env (1, 0) start_game = Inr start_game
   \<and> trace start_game = []"
  by (simp add: scenario_defs example_defs move_defs)

lemma swap_event_notable: "\<forall>ev. swap_event ev \<longrightarrow> notable ev"
  by (simp add: notable_def)

lemma swap_event_not_mark: "\<forall>ev. outcome_mark ev \<longrightarrow> \<not> swap_event ev"
  using outcome_mark_not_swap by blast

lemma resolve_occupant_attack:
  "\<not> mons_submerged m \<Longrightarrow> \<not> tts \<Longrightarrow>
   \<not> (mons_temp_neutral m \<and> \<not> you_confused st \<and> mons_visible_to_you m) \<Longrightarrow>
   mons_seen m \<or> you_confused st \<or> check_moveto (ask e) targ (walkverb e st) \<Longrightarrow>
   resolve_occupant e l ip targ (Some m) tts restr st
     = Continue (True, True, False, (0, 0))
         ((emit (Fight_melee m) (st\<lparr>you_turn_is_over := True\<rparr>))\<lparr>you_berserk_penalty := 0\<rparr>)"
  by (auto simp: resolve_occupant_def)

lemma walk_block_attacking:
  "walk_block e l ip mv targ tp tm (True, m, sw, d) restr st = Inr (Continue mv st)"
  by (simp add: walk_block_def)

lemma move_alternate_attacking:
  "move_alternate e mv targ tp True beh fm st = Inr (Continue () st)"
  by (simp add: move_alternate_def)

lemma walkverb_frame:
  "you_airborne st' = you_airborne st \<Longrightarrow> you_swimming st' = you_swimming st \<Longrightarrow>
   you_form st' = you_form st \<Longrightarrow> you_species st' = you_species st \<Longrightarrow>
   walkverb e st' = walkverb e st"
  by (simp add: walkverb_def)

lemma walkverb_dig_check:
  "dig_check e t tp st = (tp', st') \<Longrightarrow> walkverb e st' = walkverb e st"
  by (auto simp: dig_check_def mpr_def emit_def walkverb_def split: if_splits)

lemma frame_move_epilogue:
  "you_pos (move_epilogue e l ip a m st) = you_pos st
   \<and> you_turn_is_over (move_epilogue e l ip a m st) = you_turn_is_over st"
  by (simp add: move_epilogue_def Let_def hasty_conduct_def emit_def draws_defs)

text \<open>
  Claim C4, as the code has it. When the events of a swap appear in the trace of a move,
  the target cell holds a monster that won't attack a player who is not confused, or both
  the cell of the player and the target cell are sanctuary. When the move reaches an
  occupant that is not submerged, the condition of the swap is false, the occupant is not
  a visible neutral monster refusing a player who is not confused, and the player sees the
  occupant, is confused or confirms the move, then the move is an attack on the occupant:
  \<^verbatim>\<open>fight_melee\<close> is the one mark it leaves, no swap happens, the turn is over and the
  player stays. A beholder or a fearmonger does not prevent the attack.
\<close>

theorem occupied_destination_swap_or_attack:
  assumes targ: "targ = coord_add (you_pos st) move"
  shows
    "(move_player_resolve e lunged initial_position move st = Inr st'
        \<and> filter swap_event (trace st') \<noteq> filter swap_event (trace st)
      \<longrightarrow> (\<exists>occupant. monster_at (act e) targ = Some occupant
              \<and> (mons_wont_attack occupant \<and> \<not> you_confused st
                 \<or> is_sanctuary (ter e) (you_pos st) \<and> is_sanctuary (ter e) targ)))
     \<and> (in_bounds (ter e) targ \<and> monster_at (act e) targ = Some m
        \<and> \<not> (mons_passthrough m \<and> \<not> you_stationary st)
        \<and> \<not> check_stop_running (act e)
        \<and> \<not> mons_submerged m
        \<and> \<not> (mons_wont_attack m \<and> \<not> you_confused st
              \<or> is_sanctuary (ter e) (you_pos st) \<and> is_sanctuary (ter e) targ)
        \<and> \<not> (mons_temp_neutral m \<and> \<not> you_confused st \<and> mons_visible_to_you m)
        \<and> (mons_seen m \<or> you_confused st \<or> check_moveto (ask e) targ (walkverb e st))
      \<longrightarrow> (\<exists>s'. move_player_resolve e lunged initial_position move st = Inr s'
              \<and> filter outcome_mark (trace s') = filter outcome_mark (trace st) @ [Fight_melee m]
              \<and> filter swap_event (trace s') = filter swap_event (trace st)
              \<and> you_turn_is_over s' \<and> you_pos s' = you_pos st))"
proof (intro conjI impI)
  assume a: "move_player_resolve e lunged initial_position move st = Inr st'
        \<and> filter swap_event (trace st') \<noteq> filter swap_event (trace st)"
  let ?tm = "if plant_passthrough e targ st then None else monster_at (act e) targ"
  have "try_to_swap e targ ?tm st"
  proof (rule ccontr)
    assume "\<not> try_to_swap e targ ?tm st"
    then have nt: "(\<forall>ev. swap_event ev \<longrightarrow> \<not> swap_event ev)
        \<or> \<not> try_to_swap e (coord_add (you_pos st) move)
             (if plant_passthrough e (coord_add (you_pos st) move) st then None
              else monster_at (act e) (coord_add (you_pos st) move)) st"
      unfolding targ by blast
    have nm: "(\<forall>s. \<not> swap_event (Mpr s)) \<or> you_confused st" by simp
    have "filter swap_event (trace st') = filter swap_event (trace st)"
      by (rule quiet_move_player_resolve
            [OF swap_event_notable swap_event_not_mark nm nt conjunct1 [OF a]])
    with a show False by simp
  qed
  then show "\<exists>occupant. monster_at (act e) targ = Some occupant
              \<and> (mons_wont_attack occupant \<and> \<not> you_confused st
                 \<or> is_sanctuary (ter e) (you_pos st) \<and> is_sanctuary (ter e) targ)"
    by (auto simp: try_to_swap_def split: option.splits if_splits)
next
  assume h: "in_bounds (ter e) targ \<and> monster_at (act e) targ = Some m
        \<and> \<not> (mons_passthrough m \<and> \<not> you_stationary st)
        \<and> \<not> check_stop_running (act e)
        \<and> \<not> mons_submerged m
        \<and> \<not> (mons_wont_attack m \<and> \<not> you_confused st
              \<or> is_sanctuary (ter e) (you_pos st) \<and> is_sanctuary (ter e) targ)
        \<and> \<not> (mons_temp_neutral m \<and> \<not> you_confused st \<and> mons_visible_to_you m)
        \<and> (mons_seen m \<or> you_confused st \<or> check_moveto (ask e) targ (walkverb e st))"
  then have pp: "\<not> plant_passthrough e targ st"
    by (simp add: plant_passthrough_def)
  then have w: "walk_through_plants e targ st = st"
    by (simp add: walk_through_plants_def)
  obtain tp st2 where dc:
    "dig_check e targ (can_pass_through (act e) targ \<and> \<not> you_stationary st) st = (tp, st2)"
    by (cases "dig_check e targ (can_pass_through (act e) targ \<and> \<not> you_stationary st) st")
  note f = frame_dig_check [OF dc]
  note v = walkverb_dig_check [OF dc]
  note q = quiet_dig_check [OF _ dc]
  have tts: "\<not> try_to_swap e targ (Some m) st2"
    using h f by (simp add: try_to_swap_def)
  let ?st3 = "(emit (Fight_melee m) (st2\<lparr>you_turn_is_over := True\<rparr>))\<lparr>you_berserk_penalty := 0\<rparr>"
  have ro: "resolve_occupant e lunged initial_position targ (Some m)
              (try_to_swap e targ (Some m) st2) restr st2
            = Continue (True, True, False, (0, 0)) ?st3" for restr
    using h f v tts by (intro resolve_occupant_attack) simp_all
  have r: "move_player_resolve e lunged initial_position move st
          = Inr (move_epilogue e lunged initial_position True True ?st3)"
    unfolding move_player_resolve_def Let_def targ [symmetric]
    using h by (simp add: pp w dc ro walk_block_attacking move_alternate_attacking)
  have "filter outcome_mark (trace (move_epilogue e lunged initial_position True True ?st3))
          = filter outcome_mark (trace st) @ [Fight_melee m]"
    using q [OF outcome_mark_notable] by (simp add: mark_quiet emit_def)
  moreover have "filter swap_event (trace (move_epilogue e lunged initial_position True True ?st3))
          = filter swap_event (trace st)"
    using q [OF swap_event_notable]
    by (simp add: quiet_move_epilogue [OF swap_event_notable] emit_def)
  ultimately show "\<exists>s'. move_player_resolve e lunged initial_position move st = Inr s'
              \<and> filter outcome_mark (trace s') = filter outcome_mark (trace st) @ [Fight_melee m]
              \<and> filter swap_event (trace s') = filter swap_event (trace st)
              \<and> you_turn_is_over s' \<and> you_pos s' = you_pos st"
    using r f by (simp add: frame_move_epilogue emit_def)
qed

theorem occupied_destination_swap_or_attack_witness:
  "move_player_resolve ally_env False (5, 5) (1, 0) start_game
     = Inr (start_game\<lparr>you_pos := (6, 5), you_turn_is_over := True,
              you_apply_berserk_penalty := True,
              trace := [Mpr ''You swap places.'', Monster_move_to_pos ally (5, 5),
                        Clear_travel_trail, Stop_directly_constricting_all,
                        Move_player_to_grid (6, 5), Apply_location_effects ally (6, 5),
                        Apply_move_time_taken, Request_autopickup, Update_acrobat_status]\<rparr>)
   \<and> monster_at (act ally_env) (6, 5) = Some ally \<and> mons_wont_attack ally
   \<and> \<not> you_confused start_game
   \<and> in_bounds (ter near_rat_env) (6, 5) \<and> monster_at (act near_rat_env) (6, 5) = Some near_rat
   \<and> \<not> mons_passthrough near_rat \<and> \<not> check_stop_running (act near_rat_env)
   \<and> \<not> mons_submerged near_rat \<and> \<not> mons_wont_attack near_rat
   \<and> \<not> is_sanctuary (ter near_rat_env) (5, 5) \<and> \<not> mons_temp_neutral near_rat
   \<and> mons_seen near_rat
   \<and> move_player_resolve near_rat_env False (5, 5) (1, 0) start_game
       = Inr (start_game\<lparr>you_turn_is_over := True, trace := [Fight_melee near_rat]\<rparr>)"
proof -
  have t: "(6, 5) = coord_add (you_pos start_game) (1, 0)"
    by (simp add: example_defs coord_add_def)
  have a: "move_player_resolve ally_env False (5, 5) (1, 0) start_game
     = Inr (start_game\<lparr>you_pos := (6, 5), you_turn_is_over := True,
              you_apply_berserk_penalty := True,
              trace := [Mpr ''You swap places.'', Monster_move_to_pos ally (5, 5),
                        Clear_travel_trail, Stop_directly_constricting_all,
                        Move_player_to_grid (6, 5), Apply_location_effects ally (6, 5),
                        Apply_move_time_taken, Request_autopickup, Update_acrobat_status]\<rparr>)"
    by (simp add: scenario_defs example_defs move_defs swap_places_def)
  have a': "filter swap_event (trace (start_game\<lparr>you_pos := (6, 5), you_turn_is_over := True,
              you_apply_berserk_penalty := True,
              trace := [Mpr ''You swap places.'', Monster_move_to_pos ally (5, 5),
                        Clear_travel_trail, Stop_directly_constricting_all,
                        Move_player_to_grid (6, 5), Apply_location_effects ally (6, 5),
                        Apply_move_time_taken, Request_autopickup, Update_acrobat_status]\<rparr>))
            \<noteq> filter swap_event (trace start_game)"
    by (simp add: example_defs)
  have h: "in_bounds (ter near_rat_env) (6, 5)"
    "monster_at (act near_rat_env) (6, 5) = Some near_rat"
    "\<not> mons_passthrough near_rat" "\<not> check_stop_running (act near_rat_env)"
    "\<not> mons_submerged near_rat" "\<not> mons_wont_attack near_rat"
    "\<not> is_sanctuary (ter near_rat_env) (5, 5)" "\<not> mons_temp_neutral near_rat"
    "mons_seen near_rat" "\<not> you_confused start_game" "you_pos start_game = (5, 5)"
    "monster_at (act ally_env) (6, 5) = Some ally" "mons_wont_attack ally"
    by (simp_all add: scenario_defs example_defs)
  have b: "move_player_resolve near_rat_env False (5, 5) (1, 0) start_game
       = Inr (start_game\<lparr>you_turn_is_over := True, trace := [Fight_melee near_rat]\<rparr>)"
    by (simp add: scenario_defs example_defs move_defs)
  note th1 = occupied_destination_swap_or_attack [OF t, of ally_env False "(5, 5)" _ ally]
  note th2 = occupied_destination_swap_or_attack [OF t, of near_rat_env False "(5, 5)" _ near_rat]
  from th1 a a' have "\<exists>occupant. monster_at (act ally_env) (6, 5) = Some occupant
              \<and> (mons_wont_attack occupant \<and> \<not> you_confused start_game
                 \<or> is_sanctuary (ter ally_env) (you_pos start_game)
                   \<and> is_sanctuary (ter ally_env) (6, 5))" by blast
  moreover from th2 h have "\<exists>s'. move_player_resolve near_rat_env False (5, 5) (1, 0) start_game
      = Inr s' \<and> you_turn_is_over s'" by auto
  ultimately show ?thesis using a b h by simp
qed

text \<open>
  The claim as stated fails on two occupied destinations where neither a swap, a refusal
  nor a restraint applies: a submerged eel, onto whose cell the player walks, and an unseen
  stalker, where the player declines the confirmation and the move is cancelled. Neither
  move attacks.
\<close>

theorem occupied_destination_counterexample:
  "monster_at (act eel_env) (6, 5) = Some eel \<and> \<not> mons_wont_attack eel
   \<and> \<not> is_sanctuary (ter eel_env) (5, 5) \<and> \<not> mons_temp_neutral eel
   \<and> get_beholder (act eel_env) (6, 5) = None \<and> get_fearmonger (act eel_env) (6, 5) = None
   \<and> move_player_action eel_env (1, 0) start_game
       = Inr (start_game\<lparr>you_pos := (6, 5), you_turn_is_over := True,
                you_apply_berserk_penalty := True,
                trace := [Clear_travel_trail, Stop_directly_constricting_all,
                          Move_player_to_grid (6, 5), Apply_move_time_taken,
                          Request_autopickup, Update_acrobat_status]\<rparr>)
   \<and> monster_at (act stalker_env) (6, 5) = Some stalker \<and> \<not> mons_wont_attack stalker
   \<and> \<not> mons_submerged stalker
   \<and> \<not> is_sanctuary (ter stalker_env) (5, 5) \<and> \<not> mons_temp_neutral stalker
   \<and> get_beholder (act stalker_env) (6, 5) = None
   \<and> get_fearmonger (act stalker_env) (6, 5) = None
   \<and> move_player_action stalker_env (1, 0) start_game
       = Inr (start_game\<lparr>trace := [Stop_running]\<rparr>)"
  by (simp add: scenario_defs example_defs move_defs)

end
